theory Spec2Isabelle
  imports Main
begin

section \<open>JavaScript values\<close>

text \<open>
  An Update is whatever \<^verbatim>\<open>JSON.parse\<close> produced from the request body, so the
  model works on JSON-shaped JavaScript values. A number is restricted to the integers
  (identifiers are integers). An object is the list of its own enumerable entries in
  enumeration order; a property read takes the first entry of a key.
\<close>

datatype jsval =
    JUndefined
  | JNull
  | JBool bool
  | JNum int
  | JStr string
  | JArr "jsval list"
  | JObj "(string \<times> jsval) list"

type_synonym jsobj = "(string \<times> jsval) list"

text \<open>The \<^verbatim>\<open>typeof\<close> operator: \<^verbatim>\<open>typeof null\<close> is \<^verbatim>\<open>'object'\<close>, and so is an array's.\<close>

fun typeof :: "jsval \<Rightarrow> string" where
  "typeof JUndefined = ''undefined''"
| "typeof JNull = ''object''"
| "typeof (JBool b) = ''boolean''"
| "typeof (JNum n) = ''number''"
| "typeof (JStr s) = ''string''"
| "typeof (JArr xs) = ''object''"
| "typeof (JObj ps) = ''object''"

fun nullish :: "jsval \<Rightarrow> bool" where
  "nullish JUndefined = True"
| "nullish JNull = True"
| "nullish v = False"

text \<open>Truthiness, as the conditional operator tests it.\<close>

fun truthy :: "jsval \<Rightarrow> bool" where
  "truthy JUndefined = False"
| "truthy JNull = False"
| "truthy (JBool b) = b"
| "truthy (JNum n) = (n \<noteq> 0)"
| "truthy (JStr s) = (s \<noteq> [])"
| "truthy (JArr xs) = True"
| "truthy (JObj ps) = True"

text \<open>\<^verbatim>\<open>obj[key]\<close> on an object: \<^verbatim>\<open>undefined\<close> when the key is absent.\<close>

fun lookup :: "jsobj \<Rightarrow> string \<Rightarrow> jsval" where
  "lookup [] key = JUndefined"
| "lookup ((k, v) # ps) key = (if k = key then v else lookup ps key)"

text \<open>
  Errors are values. The classification error carries the Update whose JSON text the
  source puts in its message; \<open>TypeError\<close> carries the message of a
  \<^verbatim>\<open>new TypeError(...)\<close> of the source; \<open>NullDereference\<close> is the engine's own
  TypeError for a property read on \<^verbatim>\<open>null\<close> or \<^verbatim>\<open>undefined\<close>.
\<close>

datatype error =
    CannotDetermineUpdateType jsobj
  | TypeError string
  | NullDereference string

type_synonym 'a result = "error + 'a"

definition and_then :: "'a result \<Rightarrow> ('a \<Rightarrow> 'b result) \<Rightarrow> 'b result" where
  "and_then r f = (case r of Inl e \<Rightarrow> Inl e | Inr x \<Rightarrow> f x)"

text \<open>
  \<^verbatim>\<open>v.key\<close> throws on \<^verbatim>\<open>null\<close> and \<^verbatim>\<open>undefined\<close>; \<^verbatim>\<open>v?.key\<close> gives
  \<^verbatim>\<open>undefined\<close> there. The keys read by the source are field names of the Bot API, none
  of which is a property of a primitive's or an array's prototype.
\<close>

fun get_member :: "jsval \<Rightarrow> string \<Rightarrow> jsval result" where
  "get_member JUndefined key = Inl (NullDereference key)"
| "get_member JNull key = Inl (NullDereference key)"
| "get_member (JObj ps) key = Inr (lookup ps key)"
| "get_member v key = Inr JUndefined"

fun opt_member :: "jsval \<Rightarrow> string \<Rightarrow> jsval" where
  "opt_member (JObj ps) key = lookup ps key"
| "opt_member v key = JUndefined"

text \<open>
  The nullish coalescing operator \<^verbatim>\<open>a ?? b\<close>, which associates to the left: a chain
  \<^verbatim>\<open>a ?? b ?? c\<close> is \<^verbatim>\<open>(a ?? b) ?? c\<close>.
\<close>

definition coalesce :: "jsval \<Rightarrow> jsval \<Rightarrow> jsval" where
  "coalesce a b = (if nullish a then b else a)"

section \<open>The Context and its derived accessors\<close>

text \<open>
  The Context holds the Update and the identity of the bot. Its reference to the Telegram
  client is the transport of the section on guarded delegation, and its state bag takes no
  part in any accessor or operation.
\<close>

record Context =
  update :: jsobj
  botInfo :: jsval

text \<open>
  \<^verbatim>\<open>get updateType()\<close>: the \<^verbatim>\<open>for (const key in this.update)\<close> loop returns the first
  key whose value has \<^verbatim>\<open>typeof\<close> \<^verbatim>\<open>'object'\<close>, and the statement after the loop throws.
\<close>

fun updateType_loop :: "jsobj \<Rightarrow> string list \<Rightarrow> string option" where
  "updateType_loop u [] = None"
| "updateType_loop u (key # keys) =
     (if typeof (lookup u key) = ''object'' then Some key else updateType_loop u keys)"

definition updateType :: "Context \<Rightarrow> string result" where
  "updateType ctx =
     (case updateType_loop (update ctx) (map fst (update ctx)) of
        Some key \<Rightarrow> Inr key
      | None \<Rightarrow> Inl (CannotDetermineUpdateType (update ctx)))"

definition message :: "Context \<Rightarrow> jsval" where
  "message ctx = lookup (update ctx) ''message''"

definition editedMessage :: "Context \<Rightarrow> jsval" where
  "editedMessage ctx = lookup (update ctx) ''edited_message''"

definition inlineQuery :: "Context \<Rightarrow> jsval" where
  "inlineQuery ctx = lookup (update ctx) ''inline_query''"

definition shippingQuery :: "Context \<Rightarrow> jsval" where
  "shippingQuery ctx = lookup (update ctx) ''shipping_query''"

definition preCheckoutQuery :: "Context \<Rightarrow> jsval" where
  "preCheckoutQuery ctx = lookup (update ctx) ''pre_checkout_query''"

definition chosenInlineResult :: "Context \<Rightarrow> jsval" where
  "chosenInlineResult ctx = lookup (update ctx) ''chosen_inline_result''"

definition channelPost :: "Context \<Rightarrow> jsval" where
  "channelPost ctx = lookup (update ctx) ''channel_post''"

definition editedChannelPost :: "Context \<Rightarrow> jsval" where
  "editedChannelPost ctx = lookup (update ctx) ''edited_channel_post''"

definition callbackQuery :: "Context \<Rightarrow> jsval" where
  "callbackQuery ctx = lookup (update ctx) ''callback_query''"

definition poll :: "Context \<Rightarrow> jsval" where
  "poll ctx = lookup (update ctx) ''poll''"

definition pollAnswer :: "Context \<Rightarrow> jsval" where
  "pollAnswer ctx = lookup (update ctx) ''poll_answer''"

definition myChatMember :: "Context \<Rightarrow> jsval" where
  "myChatMember ctx = lookup (update ctx) ''my_chat_member''"

definition chatMember :: "Context \<Rightarrow> jsval" where
  "chatMember ctx = lookup (update ctx) ''chat_member''"

definition chatJoinRequest :: "Context \<Rightarrow> jsval" where
  "chatJoinRequest ctx = lookup (update ctx) ''chat_join_request''"

definition getMessageFromAnySource :: "Context \<Rightarrow> jsval" where
  "getMessageFromAnySource ctx =
     coalesce
       (coalesce
         (coalesce (coalesce (message ctx) (editedMessage ctx))
           (opt_member (callbackQuery ctx) ''message''))
         (channelPost ctx))
       (editedChannelPost ctx)"

definition chat :: "Context \<Rightarrow> jsval" where
  "chat ctx =
     opt_member
       (coalesce
         (coalesce (coalesce (chatMember ctx) (myChatMember ctx)) (chatJoinRequest ctx))
         (getMessageFromAnySource ctx))
       ''chat''"

definition senderChat :: "Context \<Rightarrow> jsval" where
  "senderChat ctx = opt_member (getMessageFromAnySource ctx) ''sender_chat''"

definition from' :: "Context \<Rightarrow> jsval" where
  "from' ctx =
     opt_member
       (coalesce
         (coalesce
           (coalesce
             (coalesce
               (coalesce
                 (coalesce
                   (coalesce (coalesce (callbackQuery ctx) (inlineQuery ctx))
                     (shippingQuery ctx))
                   (preCheckoutQuery ctx))
                 (chosenInlineResult ctx))
               (chatMember ctx))
             (myChatMember ctx))
           (chatJoinRequest ctx))
         (getMessageFromAnySource ctx))
       ''from''"

definition inlineMessageId :: "Context \<Rightarrow> jsval" where
  "inlineMessageId ctx =
     opt_member (coalesce (callbackQuery ctx) (chosenInlineResult ctx)) ''inline_message_id''"

text \<open>
  \<^verbatim>\<open>getThreadId\<close>: the conditional's first branch reads \<^verbatim>\<open>msg.message_thread_id\<close>
  without optional chaining.
\<close>

definition getThreadId :: "jsval \<Rightarrow> jsval result" where
  "getThreadId msg =
     (if truthy (opt_member msg ''is_topic_message'')
      then get_member msg ''message_thread_id''
      else Inr JUndefined)"

subsection \<open>The words of the specification\<close>

text \<open>
  The closed set of top-level payload fields of an Update, and the fields that are
  populated: those whose value is a non-null object.
\<close>

definition update_fields :: "string list" where
  "update_fields =
     [''message'', ''edited_message'', ''channel_post'', ''edited_channel_post'',
      ''inline_query'', ''chosen_inline_result'', ''callback_query'', ''shipping_query'',
      ''pre_checkout_query'', ''poll'', ''poll_answer'', ''my_chat_member'', ''chat_member'',
      ''chat_join_request'']"

fun is_object :: "jsval \<Rightarrow> bool" where
  "is_object (JObj ps) = True"
| "is_object (JArr xs) = True"
| "is_object v = False"

definition populated_fields :: "Context \<Rightarrow> string list" where
  "populated_fields ctx =
     filter (\<lambda>key. is_object (lookup (update ctx) key)) (map fst (update ctx))"

definition no_null_field :: "Context \<Rightarrow> bool" where
  "no_null_field ctx = list_all (\<lambda>key. lookup (update ctx) key \<noteq> JNull) (map fst (update ctx))"

definition populated_only :: "Context \<Rightarrow> string \<Rightarrow> bool" where
  "populated_only ctx field =
     list_all (\<lambda>key. key = field \<or> nullish (lookup (update ctx) key)) update_fields"

text \<open>The first candidate that is neither \<^verbatim>\<open>null\<close> nor \<^verbatim>\<open>undefined\<close>, if any.\<close>

definition first_defined :: "jsval list \<Rightarrow> jsval option" where
  "first_defined candidates = find (\<lambda>c. \<not> nullish c) candidates"

section \<open>Guarded delegation to the outbound transport\<close>

text \<open>
  Every operation of the Context ends in one call of a method of the Telegram client,
  \<^verbatim>\<open>return this.telegram.method(...)\<close>, and whatever it throws it throws before that
  call. Its outcome is therefore either the error thrown, in which case the transport
  was not reached, or the one transport call made: the method's name and its arguments.
  The client's own answer is not part of the model.
\<close>

datatype call = Call string "jsval list"

definition telegram :: "string \<Rightarrow> jsval list \<Rightarrow> call result" where
  "telegram method args = Inr (Call method args)"

text \<open>The message of the error that \<^verbatim>\<open>assert\<close> throws.\<close>

definition usage_message :: "string \<Rightarrow> string \<Rightarrow> string" where
  "usage_message method kind =
     ''Telegraf: '' @ [CHR 0x22] @ method @ [CHR 0x22] @ '' isn't available for '' @
     [CHR 0x22] @ kind @ [CHR 0x22]"

text \<open>
  \<^verbatim>\<open>assert(value, method)\<close>: the message of the TypeError is a template literal that
  reads \<^verbatim>\<open>this.updateType\<close>, so the getter's own error comes first when it throws.
\<close>

definition assert :: "Context \<Rightarrow> jsval \<Rightarrow> string \<Rightarrow> unit result" where
  "assert ctx v method =
     (if v = JUndefined
      then and_then (updateType ctx) (\<lambda>kind. Inl (TypeError (usage_message method kind)))
      else Inr ())"

text \<open>
  The own keys of an object are enumerated with the array indices first, in ascending
  numeric order, and the other keys after them in the order of their creation. An array
  index is the canonical decimal text of an integer below 4294967295.
\<close>

definition is_digit :: "char \<Rightarrow> bool" where
  "is_digit c \<longleftrightarrow> c \<in> set ''0123456789''"

definition decimal :: "string \<Rightarrow> nat" where
  "decimal s = foldl (\<lambda>n c. 10 * n + (of_char c - 48)) 0 s"

definition index_of :: "string \<Rightarrow> nat option" where
  "index_of key =
     (case key of
        [] \<Rightarrow> None
      | c # cs \<Rightarrow>
          if list_all is_digit key \<and> (c \<noteq> CHR ''0'' \<or> cs = []) \<and> decimal key < 4294967295
          then Some (decimal key)
          else None)"

definition precedes :: "string \<Rightarrow> string \<Rightarrow> bool" where
  "precedes key k =
     (case index_of key of
        None \<Rightarrow> False
      | Some i \<Rightarrow> (case index_of k of None \<Rightarrow> True | Some j \<Rightarrow> i < j))"

text \<open>
  Defining a property: the value of a key that is there is replaced where it stands, and
  a new key takes its place in the enumeration order.
\<close>

fun set_prop :: "jsobj \<Rightarrow> string \<Rightarrow> jsval \<Rightarrow> jsobj" where
  "set_prop [] key v = [(key, v)]"
| "set_prop ((k, w) # ps) key v =
     (if k = key then (k, v) # ps
      else if precedes key k then (key, v) # (k, w) # ps
      else (k, w) # set_prop ps key v)"

text \<open>
  An object literal \<^verbatim>\<open>{ key: value, ...extra }\<close>: the spread defines each own key of
  \<^verbatim>\<open>extra\<close> on the new object, in the enumeration order of \<^verbatim>\<open>extra\<close>. An omitted
  \<^verbatim>\<open>extra\<close> (\<^verbatim>\<open>undefined\<close>) spreads nothing.
\<close>

fun spread_keys :: "jsobj \<Rightarrow> jsobj \<Rightarrow> string list \<Rightarrow> jsobj" where
  "spread_keys target src [] = target"
| "spread_keys target src (key # keys) =
     spread_keys (set_prop target key (lookup src key)) src keys"

definition spread :: "jsobj \<Rightarrow> jsobj option \<Rightarrow> jsobj" where
  "spread target extra =
     (case extra of
        None \<Rightarrow> target
      | Some src \<Rightarrow> spread_keys target src (map fst src))"

subsection \<open>The operations\<close>

definition answerInlineQuery :: "Context \<Rightarrow> jsval list \<Rightarrow> call result" where
  "answerInlineQuery ctx args =
     and_then (assert ctx (inlineQuery ctx) ''answerInlineQuery'') (\<lambda>_.
     and_then (get_member (inlineQuery ctx) ''id'') (\<lambda>ident.
     telegram ''answerInlineQuery'' (ident # args)))"

definition answerCbQuery :: "Context \<Rightarrow> jsval list \<Rightarrow> call result" where
  "answerCbQuery ctx args =
     and_then (assert ctx (callbackQuery ctx) ''answerCbQuery'') (\<lambda>_.
     and_then (get_member (callbackQuery ctx) ''id'') (\<lambda>ident.
     telegram ''answerCbQuery'' (ident # args)))"

definition answerGameQuery :: "Context \<Rightarrow> jsval list \<Rightarrow> call result" where
  "answerGameQuery ctx args =
     and_then (assert ctx (callbackQuery ctx) ''answerGameQuery'') (\<lambda>_.
     and_then (get_member (callbackQuery ctx) ''id'') (\<lambda>ident.
     telegram ''answerGameQuery'' (ident # args)))"

definition answerShippingQuery :: "Context \<Rightarrow> jsval list \<Rightarrow> call result" where
  "answerShippingQuery ctx args =
     and_then (assert ctx (shippingQuery ctx) ''answerShippingQuery'') (\<lambda>_.
     and_then (get_member (shippingQuery ctx) ''id'') (\<lambda>ident.
     telegram ''answerShippingQuery'' (ident # args)))"

definition answerPreCheckoutQuery :: "Context \<Rightarrow> jsval list \<Rightarrow> call result" where
  "answerPreCheckoutQuery ctx args =
     and_then (assert ctx (preCheckoutQuery ctx) ''answerPreCheckoutQuery'') (\<lambda>_.
     and_then (get_member (preCheckoutQuery ctx) ''id'') (\<lambda>ident.
     telegram ''answerPreCheckoutQuery'' (ident # args)))"

definition editMessageText :: "Context \<Rightarrow> jsval \<Rightarrow> jsval \<Rightarrow> call result" where
  "editMessageText ctx text extra =
     and_then (assert ctx (coalesce (callbackQuery ctx) (inlineMessageId ctx))
                 ''editMessageText'') (\<lambda>_.
     telegram ''editMessageText''
       [opt_member (chat ctx) ''id'',
        opt_member (opt_member (callbackQuery ctx) ''message'') ''message_id'',
        inlineMessageId ctx, text, extra])"

definition editMessageCaption :: "Context \<Rightarrow> jsval \<Rightarrow> jsval \<Rightarrow> call result" where
  "editMessageCaption ctx caption extra =
     and_then (assert ctx (coalesce (callbackQuery ctx) (inlineMessageId ctx))
                 ''editMessageCaption'') (\<lambda>_.
     telegram ''editMessageCaption''
       [opt_member (chat ctx) ''id'',
        opt_member (opt_member (callbackQuery ctx) ''message'') ''message_id'',
        inlineMessageId ctx, caption, extra])"

definition editMessageMedia :: "Context \<Rightarrow> jsval \<Rightarrow> jsval \<Rightarrow> call result" where
  "editMessageMedia ctx media extra =
     and_then (assert ctx (coalesce (callbackQuery ctx) (inlineMessageId ctx))
                 ''editMessageMedia'') (\<lambda>_.
     telegram ''editMessageMedia''
       [opt_member (chat ctx) ''id'',
        opt_member (opt_member (callbackQuery ctx) ''message'') ''message_id'',
        inlineMessageId ctx, media, extra])"

definition editMessageReplyMarkup :: "Context \<Rightarrow> jsval \<Rightarrow> call result" where
  "editMessageReplyMarkup ctx markup =
     and_then (assert ctx (coalesce (callbackQuery ctx) (inlineMessageId ctx))
                 ''editMessageReplyMarkup'') (\<lambda>_.
     telegram ''editMessageReplyMarkup''
       [opt_member (chat ctx) ''id'',
        opt_member (opt_member (callbackQuery ctx) ''message'') ''message_id'',
        inlineMessageId ctx, markup])"

definition editMessageLiveLocation :: "Context \<Rightarrow> jsval \<Rightarrow> jsval \<Rightarrow> jsval \<Rightarrow> call result" where
  "editMessageLiveLocation ctx latitude longitude extra =
     and_then (assert ctx (coalesce (callbackQuery ctx) (inlineMessageId ctx))
                 ''editMessageLiveLocation'') (\<lambda>_.
     telegram ''editMessageLiveLocation''
       [opt_member (chat ctx) ''id'',
        opt_member (opt_member (callbackQuery ctx) ''message'') ''message_id'',
        inlineMessageId ctx, latitude, longitude, extra])"

definition stopMessageLiveLocation :: "Context \<Rightarrow> jsval \<Rightarrow> call result" where
  "stopMessageLiveLocation ctx markup =
     and_then (assert ctx (coalesce (callbackQuery ctx) (inlineMessageId ctx))
                 ''stopMessageLiveLocation'') (\<lambda>_.
     telegram ''stopMessageLiveLocation''
       [opt_member (chat ctx) ''id'',
        opt_member (opt_member (callbackQuery ctx) ''message'') ''message_id'',
        inlineMessageId ctx, markup])"

definition sendMessage :: "Context \<Rightarrow> jsval \<Rightarrow> jsobj option \<Rightarrow> call result" where
  "sendMessage ctx text extra =
     and_then (assert ctx (chat ctx) ''sendMessage'') (\<lambda>_.
     and_then (get_member (chat ctx) ''id'') (\<lambda>ident.
     and_then (getThreadId (message ctx)) (\<lambda>thread.
     telegram ''sendMessage''
       [ident, text, JObj (spread [(''message_thread_id'', thread)] extra)])))"

definition reply :: "Context \<Rightarrow> jsval \<Rightarrow> jsobj option \<Rightarrow> call result" where
  "reply ctx text extra =
     (let reply_to_message_id = opt_member (getMessageFromAnySource ctx) ''message_id''
      in sendMessage ctx text
           (Some (spread [(''reply_to_message_id'', reply_to_message_id)] extra)))"

definition getChat :: "Context \<Rightarrow> jsval list \<Rightarrow> call result" where
  "getChat ctx args =
     and_then (assert ctx (chat ctx) ''getChat'') (\<lambda>_.
     and_then (get_member (chat ctx) ''id'') (\<lambda>ident.
     telegram ''getChat'' (ident # args)))"

definition exportChatInviteLink :: "Context \<Rightarrow> jsval list \<Rightarrow> call result" where
  "exportChatInviteLink ctx args =
     and_then (assert ctx (chat ctx) ''exportChatInviteLink'') (\<lambda>_.
     and_then (get_member (chat ctx) ''id'') (\<lambda>ident.
     telegram ''exportChatInviteLink'' (ident # args)))"

definition createChatInviteLink :: "Context \<Rightarrow> jsval list \<Rightarrow> call result" where
  "createChatInviteLink ctx args =
     and_then (assert ctx (chat ctx) ''createChatInviteLink'') (\<lambda>_.
     and_then (get_member (chat ctx) ''id'') (\<lambda>ident.
     telegram ''createChatInviteLink'' (ident # args)))"

definition editChatInviteLink :: "Context \<Rightarrow> jsval list \<Rightarrow> call result" where
  "editChatInviteLink ctx args =
     and_then (assert ctx (chat ctx) ''editChatInviteLink'') (\<lambda>_.
     and_then (get_member (chat ctx) ''id'') (\<lambda>ident.
     telegram ''editChatInviteLink'' (ident # args)))"

definition revokeChatInviteLink :: "Context \<Rightarrow> jsval list \<Rightarrow> call result" where
  "revokeChatInviteLink ctx args =
     and_then (assert ctx (chat ctx) ''revokeChatInviteLink'') (\<lambda>_.
     and_then (get_member (chat ctx) ''id'') (\<lambda>ident.
     telegram ''revokeChatInviteLink'' (ident # args)))"

definition banChatMember :: "Context \<Rightarrow> jsval list \<Rightarrow> call result" where
  "banChatMember ctx args =
     and_then (assert ctx (chat ctx) ''banChatMember'') (\<lambda>_.
     and_then (get_member (chat ctx) ''id'') (\<lambda>ident.
     telegram ''banChatMember'' (ident # args)))"

definition unbanChatMember :: "Context \<Rightarrow> jsval list \<Rightarrow> call result" where
  "unbanChatMember ctx args =
     and_then (assert ctx (chat ctx) ''unbanChatMember'') (\<lambda>_.
     and_then (get_member (chat ctx) ''id'') (\<lambda>ident.
     telegram ''unbanChatMember'' (ident # args)))"

definition restrictChatMember :: "Context \<Rightarrow> jsval list \<Rightarrow> call result" where
  "restrictChatMember ctx args =
     and_then (assert ctx (chat ctx) ''restrictChatMember'') (\<lambda>_.
     and_then (get_member (chat ctx) ''id'') (\<lambda>ident.
     telegram ''restrictChatMember'' (ident # args)))"

definition promoteChatMember :: "Context \<Rightarrow> jsval list \<Rightarrow> call result" where
  "promoteChatMember ctx args =
     and_then (assert ctx (chat ctx) ''promoteChatMember'') (\<lambda>_.
     and_then (get_member (chat ctx) ''id'') (\<lambda>ident.
     telegram ''promoteChatMember'' (ident # args)))"

definition setChatAdministratorCustomTitle :: "Context \<Rightarrow> jsval list \<Rightarrow> call result" where
  "setChatAdministratorCustomTitle ctx args =
     and_then (assert ctx (chat ctx) ''setChatAdministratorCustomTitle'') (\<lambda>_.
     and_then (get_member (chat ctx) ''id'') (\<lambda>ident.
     telegram ''setChatAdministratorCustomTitle'' (ident # args)))"

definition setChatPhoto :: "Context \<Rightarrow> jsval list \<Rightarrow> call result" where
  "setChatPhoto ctx args =
     and_then (assert ctx (chat ctx) ''setChatPhoto'') (\<lambda>_.
     and_then (get_member (chat ctx) ''id'') (\<lambda>ident.
     telegram ''setChatPhoto'' (ident # args)))"

definition deleteChatPhoto :: "Context \<Rightarrow> jsval list \<Rightarrow> call result" where
  "deleteChatPhoto ctx args =
     and_then (assert ctx (chat ctx) ''deleteChatPhoto'') (\<lambda>_.
     and_then (get_member (chat ctx) ''id'') (\<lambda>ident.
     telegram ''deleteChatPhoto'' (ident # args)))"

definition setChatTitle :: "Context \<Rightarrow> jsval list \<Rightarrow> call result" where
  "setChatTitle ctx args =
     and_then (assert ctx (chat ctx) ''setChatTitle'') (\<lambda>_.
     and_then (get_member (chat ctx) ''id'') (\<lambda>ident.
     telegram ''setChatTitle'' (ident # args)))"

definition setChatDescription :: "Context \<Rightarrow> jsval list \<Rightarrow> call result" where
  "setChatDescription ctx args =
     and_then (assert ctx (chat ctx) ''setChatDescription'') (\<lambda>_.
     and_then (get_member (chat ctx) ''id'') (\<lambda>ident.
     telegram ''setChatDescription'' (ident # args)))"

definition pinChatMessage :: "Context \<Rightarrow> jsval list \<Rightarrow> call result" where
  "pinChatMessage ctx args =
     and_then (assert ctx (chat ctx) ''pinChatMessage'') (\<lambda>_.
     and_then (get_member (chat ctx) ''id'') (\<lambda>ident.
     telegram ''pinChatMessage'' (ident # args)))"

definition unpinChatMessage :: "Context \<Rightarrow> jsval list \<Rightarrow> call result" where
  "unpinChatMessage ctx args =
     and_then (assert ctx (chat ctx) ''unpinChatMessage'') (\<lambda>_.
     and_then (get_member (chat ctx) ''id'') (\<lambda>ident.
     telegram ''unpinChatMessage'' (ident # args)))"

definition unpinAllChatMessages :: "Context \<Rightarrow> jsval list \<Rightarrow> call result" where
  "unpinAllChatMessages ctx args =
     and_then (assert ctx (chat ctx) ''unpinAllChatMessages'') (\<lambda>_.
     and_then (get_member (chat ctx) ''id'') (\<lambda>ident.
     telegram ''unpinAllChatMessages'' (ident # args)))"

definition leaveChat :: "Context \<Rightarrow> jsval list \<Rightarrow> call result" where
  "leaveChat ctx args =
     and_then (assert ctx (chat ctx) ''leaveChat'') (\<lambda>_.
     and_then (get_member (chat ctx) ''id'') (\<lambda>ident.
     telegram ''leaveChat'' (ident # args)))"

definition setChatPermissions :: "Context \<Rightarrow> jsval list \<Rightarrow> call result" where
  "setChatPermissions ctx args =
     and_then (assert ctx (chat ctx) ''setChatPermissions'') (\<lambda>_.
     and_then (get_member (chat ctx) ''id'') (\<lambda>ident.
     telegram ''setChatPermissions'' (ident # args)))"

definition getChatAdministrators :: "Context \<Rightarrow> jsval list \<Rightarrow> call result" where
  "getChatAdministrators ctx args =
     and_then (assert ctx (chat ctx) ''getChatAdministrators'') (\<lambda>_.
     and_then (get_member (chat ctx) ''id'') (\<lambda>ident.
     telegram ''getChatAdministrators'' (ident # args)))"

definition getChatMember :: "Context \<Rightarrow> jsval list \<Rightarrow> call result" where
  "getChatMember ctx args =
     and_then (assert ctx (chat ctx) ''getChatMember'') (\<lambda>_.
     and_then (get_member (chat ctx) ''id'') (\<lambda>ident.
     telegram ''getChatMember'' (ident # args)))"

definition getChatMembersCount :: "Context \<Rightarrow> jsval list \<Rightarrow> call result" where
  "getChatMembersCount ctx args =
     and_then (assert ctx (chat ctx) ''getChatMembersCount'') (\<lambda>_.
     and_then (get_member (chat ctx) ''id'') (\<lambda>ident.
     telegram ''getChatMembersCount'' (ident # args)))"

definition setPassportDataErrors :: "Context \<Rightarrow> jsval \<Rightarrow> call result" where
  "setPassportDataErrors ctx errors =
     and_then (assert ctx (from' ctx) ''setPassportDataErrors'') (\<lambda>_.
     and_then (get_member (from' ctx) ''id'') (\<lambda>ident.
     telegram ''setPassportDataErrors'' [ident, errors]))"

definition sendPhoto :: "Context \<Rightarrow> jsval \<Rightarrow> jsobj option \<Rightarrow> call result" where
  "sendPhoto ctx photo extra =
     and_then (assert ctx (chat ctx) ''sendPhoto'') (\<lambda>_.
     and_then (get_member (chat ctx) ''id'') (\<lambda>ident.
     and_then (getThreadId (message ctx)) (\<lambda>thread.
     telegram ''sendPhoto''
       [ident, photo, JObj (spread [(''message_thread_id'', thread)] extra)])))"

definition replyWithPhoto :: "Context \<Rightarrow> jsval \<Rightarrow> jsobj option \<Rightarrow> call result" where
  "replyWithPhoto ctx photo extra =
     (let reply_to_message_id = opt_member (getMessageFromAnySource ctx) ''message_id''
      in sendPhoto ctx photo
           (Some (spread [(''reply_to_message_id'', reply_to_message_id)] extra)))"

definition sendMediaGroup :: "Context \<Rightarrow> jsval \<Rightarrow> jsobj option \<Rightarrow> call result" where
  "sendMediaGroup ctx media extra =
     and_then (assert ctx (chat ctx) ''sendMediaGroup'') (\<lambda>_.
     and_then (get_member (chat ctx) ''id'') (\<lambda>ident.
     and_then (getThreadId (message ctx)) (\<lambda>thread.
     telegram ''sendMediaGroup''
       [ident, media, JObj (spread [(''message_thread_id'', thread)] extra)])))"

definition replyWithMediaGroup :: "Context \<Rightarrow> jsval \<Rightarrow> jsobj option \<Rightarrow> call result" where
  "replyWithMediaGroup ctx media extra =
     (let reply_to_message_id = opt_member (getMessageFromAnySource ctx) ''message_id''
      in sendMediaGroup ctx media
           (Some (spread [(''reply_to_message_id'', reply_to_message_id)] extra)))"

definition sendAudio :: "Context \<Rightarrow> jsval \<Rightarrow> jsobj option \<Rightarrow> call result" where
  "sendAudio ctx audio extra =
     and_then (assert ctx (chat ctx) ''sendAudio'') (\<lambda>_.
     and_then (get_member (chat ctx) ''id'') (\<lambda>ident.
     and_then (getThreadId (message ctx)) (\<lambda>thread.
     telegram ''sendAudio''
       [ident, audio, JObj (spread [(''message_thread_id'', thread)] extra)])))"

definition replyWithAudio :: "Context \<Rightarrow> jsval \<Rightarrow> jsobj option \<Rightarrow> call result" where
  "replyWithAudio ctx audio extra =
     (let reply_to_message_id = opt_member (getMessageFromAnySource ctx) ''message_id''
      in sendAudio ctx audio
           (Some (spread [(''reply_to_message_id'', reply_to_message_id)] extra)))"

definition sendDice :: "Context \<Rightarrow> jsobj option \<Rightarrow> call result" where
  "sendDice ctx extra =
     and_then (assert ctx (chat ctx) ''sendDice'') (\<lambda>_.
     and_then (get_member (chat ctx) ''id'') (\<lambda>ident.
     and_then (getThreadId (message ctx)) (\<lambda>thread.
     telegram ''sendDice''
       [ident, JObj (spread [(''message_thread_id'', thread)] extra)])))"

definition replyWithDice :: "Context \<Rightarrow> jsobj option \<Rightarrow> call result" where
  "replyWithDice ctx extra =
     (let reply_to_message_id = opt_member (getMessageFromAnySource ctx) ''message_id''
      in sendDice ctx
           (Some (spread [(''reply_to_message_id'', reply_to_message_id)] extra)))"

definition sendDocument :: "Context \<Rightarrow> jsval \<Rightarrow> jsobj option \<Rightarrow> call result" where
  "sendDocument ctx document extra =
     and_then (assert ctx (chat ctx) ''sendDocument'') (\<lambda>_.
     and_then (get_member (chat ctx) ''id'') (\<lambda>ident.
     and_then (getThreadId (message ctx)) (\<lambda>thread.
     telegram ''sendDocument''
       [ident, document, JObj (spread [(''message_thread_id'', thread)] extra)])))"

definition replyWithDocument :: "Context \<Rightarrow> jsval \<Rightarrow> jsobj option \<Rightarrow> call result" where
  "replyWithDocument ctx document extra =
     (let reply_to_message_id = opt_member (getMessageFromAnySource ctx) ''message_id''
      in sendDocument ctx document
           (Some (spread [(''reply_to_message_id'', reply_to_message_id)] extra)))"

definition sendSticker :: "Context \<Rightarrow> jsval \<Rightarrow> jsobj option \<Rightarrow> call result" where
  "sendSticker ctx sticker extra =
     and_then (assert ctx (chat ctx) ''sendSticker'') (\<lambda>_.
     and_then (get_member (chat ctx) ''id'') (\<lambda>ident.
     and_then (getThreadId (message ctx)) (\<lambda>thread.
     telegram ''sendSticker''
       [ident, sticker, JObj (spread [(''message_thread_id'', thread)] extra)])))"

definition replyWithSticker :: "Context \<Rightarrow> jsval \<Rightarrow> jsobj option \<Rightarrow> call result" where
  "replyWithSticker ctx sticker extra =
     (let reply_to_message_id = opt_member (getMessageFromAnySource ctx) ''message_id''
      in sendSticker ctx sticker
           (Some (spread [(''reply_to_message_id'', reply_to_message_id)] extra)))"

definition sendVideo :: "Context \<Rightarrow> jsval \<Rightarrow> jsobj option \<Rightarrow> call result" where
  "sendVideo ctx video extra =
     and_then (assert ctx (chat ctx) ''sendVideo'') (\<lambda>_.
     and_then (get_member (chat ctx) ''id'') (\<lambda>ident.
     and_then (getThreadId (message ctx)) (\<lambda>thread.
     telegram ''sendVideo''
       [ident, video, JObj (spread [(''message_thread_id'', thread)] extra)])))"

definition replyWithVideo :: "Context \<Rightarrow> jsval \<Rightarrow> jsobj option \<Rightarrow> call result" where
  "replyWithVideo ctx video extra =
     (let reply_to_message_id = opt_member (getMessageFromAnySource ctx) ''message_id''
      in sendVideo ctx video
           (Some (spread [(''reply_to_message_id'', reply_to_message_id)] extra)))"

definition sendAnimation :: "Context \<Rightarrow> jsval \<Rightarrow> jsobj option \<Rightarrow> call result" where
  "sendAnimation ctx animation extra =
     and_then (assert ctx (chat ctx) ''sendAnimation'') (\<lambda>_.
     and_then (get_member (chat ctx) ''id'') (\<lambda>ident.
     and_then (getThreadId (message ctx)) (\<lambda>thread.
     telegram ''sendAnimation''
       [ident, animation, JObj (spread [(''message_thread_id'', thread)] extra)])))"

definition replyWithAnimation :: "Context \<Rightarrow> jsval \<Rightarrow> jsobj option \<Rightarrow> call result" where
  "replyWithAnimation ctx animation extra =
     (let reply_to_message_id = opt_member (getMessageFromAnySource ctx) ''message_id''
      in sendAnimation ctx animation
           (Some (spread [(''reply_to_message_id'', reply_to_message_id)] extra)))"

definition sendVideoNote :: "Context \<Rightarrow> jsval \<Rightarrow> jsobj option \<Rightarrow> call result" where
  "sendVideoNote ctx videoNote extra =
     and_then (assert ctx (chat ctx) ''sendVideoNote'') (\<lambda>_.
     and_then (get_member (chat ctx) ''id'') (\<lambda>ident.
     and_then (getThreadId (message ctx)) (\<lambda>thread.
     telegram ''sendVideoNote''
       [ident, videoNote, JObj (spread [(''message_thread_id'', thread)] extra)])))"

definition replyWithVideoNote :: "Context \<Rightarrow> jsval \<Rightarrow> jsobj option \<Rightarrow> call result" where
  "replyWithVideoNote ctx videoNote extra =
     (let reply_to_message_id = opt_member (getMessageFromAnySource ctx) ''message_id''
      in sendVideoNote ctx videoNote
           (Some (spread [(''reply_to_message_id'', reply_to_message_id)] extra)))"

definition sendInvoice :: "Context \<Rightarrow> jsval \<Rightarrow> jsobj option \<Rightarrow> call result" where
  "sendInvoice ctx invoice extra =
     and_then (assert ctx (chat ctx) ''sendInvoice'') (\<lambda>_.
     and_then (get_member (chat ctx) ''id'') (\<lambda>ident.
     and_then (getThreadId (message ctx)) (\<lambda>thread.
     telegram ''sendInvoice''
       [ident, invoice, JObj (spread [(''message_thread_id'', thread)] extra)])))"

definition replyWithInvoice :: "Context \<Rightarrow> jsval \<Rightarrow> jsobj option \<Rightarrow> call result" where
  "replyWithInvoice ctx invoice extra =
     (let reply_to_message_id = opt_member (getMessageFromAnySource ctx) ''message_id''
      in sendInvoice ctx invoice
           (Some (spread [(''reply_to_message_id'', reply_to_message_id)] extra)))"

definition sendGame :: "Context \<Rightarrow> jsval \<Rightarrow> jsobj option \<Rightarrow> call result" where
  "sendGame ctx game extra =
     and_then (assert ctx (chat ctx) ''sendGame'') (\<lambda>_.
     and_then (get_member (chat ctx) ''id'') (\<lambda>ident.
     and_then (getThreadId (message ctx)) (\<lambda>thread.
     telegram ''sendGame''
       [ident, game, JObj (spread [(''message_thread_id'', thread)] extra)])))"

definition replyWithGame :: "Context \<Rightarrow> jsval \<Rightarrow> jsobj option \<Rightarrow> call result" where
  "replyWithGame ctx gameName extra =
     (let reply_to_message_id = opt_member (getMessageFromAnySource ctx) ''message_id''
      in sendGame ctx gameName
           (Some (spread [(''reply_to_message_id'', reply_to_message_id)] extra)))"

definition sendVoice :: "Context \<Rightarrow> jsval \<Rightarrow> jsobj option \<Rightarrow> call result" where
  "sendVoice ctx voice extra =
     and_then (assert ctx (chat ctx) ''sendVoice'') (\<lambda>_.
     and_then (get_member (chat ctx) ''id'') (\<lambda>ident.
     and_then (getThreadId (message ctx)) (\<lambda>thread.
     telegram ''sendVoice''
       [ident, voice, JObj (spread [(''message_thread_id'', thread)] extra)])))"

definition replyWithVoice :: "Context \<Rightarrow> jsval \<Rightarrow> jsobj option \<Rightarrow> call result" where
  "replyWithVoice ctx voice extra =
     (let reply_to_message_id = opt_member (getMessageFromAnySource ctx) ''message_id''
      in sendVoice ctx voice
           (Some (spread [(''reply_to_message_id'', reply_to_message_id)] extra)))"

definition sendPoll :: "Context \<Rightarrow> jsval \<Rightarrow> jsval \<Rightarrow> jsobj option \<Rightarrow> call result" where
  "sendPoll ctx poll_question options extra =
     and_then (assert ctx (chat ctx) ''sendPoll'') (\<lambda>_.
     and_then (get_member (chat ctx) ''id'') (\<lambda>ident.
     and_then (getThreadId (message ctx)) (\<lambda>thread.
     telegram ''sendPoll''
       [ident, poll_question, options, JObj (spread [(''message_thread_id'', thread)] extra)])))"

definition replyWithPoll :: "Context \<Rightarrow> jsval \<Rightarrow> jsval \<Rightarrow> jsobj option \<Rightarrow> call result" where
  "replyWithPoll ctx question options extra =
     (let reply_to_message_id = opt_member (getMessageFromAnySource ctx) ''message_id''
      in sendPoll ctx question options
           (Some (spread [(''reply_to_message_id'', reply_to_message_id)] extra)))"

definition sendQuiz :: "Context \<Rightarrow> jsval \<Rightarrow> jsval \<Rightarrow> jsobj option \<Rightarrow> call result" where
  "sendQuiz ctx quiz options extra =
     and_then (assert ctx (chat ctx) ''sendQuiz'') (\<lambda>_.
     and_then (get_member (chat ctx) ''id'') (\<lambda>ident.
     and_then (getThreadId (message ctx)) (\<lambda>thread.
     telegram ''sendQuiz''
       [ident, quiz, options, JObj (spread [(''message_thread_id'', thread)] extra)])))"

definition replyWithQuiz :: "Context \<Rightarrow> jsval \<Rightarrow> jsval \<Rightarrow> jsobj option \<Rightarrow> call result" where
  "replyWithQuiz ctx question options extra =
     (let reply_to_message_id = opt_member (getMessageFromAnySource ctx) ''message_id''
      in sendQuiz ctx question options
           (Some (spread [(''reply_to_message_id'', reply_to_message_id)] extra)))"

definition stopPoll :: "Context \<Rightarrow> jsval list \<Rightarrow> call result" where
  "stopPoll ctx args =
     and_then (assert ctx (chat ctx) ''stopPoll'') (\<lambda>_.
     and_then (get_member (chat ctx) ''id'') (\<lambda>ident.
     telegram ''stopPoll'' (ident # args)))"

definition sendChatAction :: "Context \<Rightarrow> jsval list \<Rightarrow> call result" where
  "sendChatAction ctx args =
     and_then (assert ctx (chat ctx) ''sendChatAction'') (\<lambda>_.
     and_then (get_member (chat ctx) ''id'') (\<lambda>ident.
     telegram ''sendChatAction'' (ident # args)))"

definition sendLocation :: "Context \<Rightarrow> jsval \<Rightarrow> jsval \<Rightarrow> jsobj option \<Rightarrow> call result" where
  "sendLocation ctx latitude longitude extra =
     and_then (assert ctx (chat ctx) ''sendLocation'') (\<lambda>_.
     and_then (get_member (chat ctx) ''id'') (\<lambda>ident.
     and_then (getThreadId (message ctx)) (\<lambda>thread.
     telegram ''sendLocation''
       [ident, latitude, longitude, JObj (spread [(''message_thread_id'', thread)] extra)])))"

definition replyWithLocation :: "Context \<Rightarrow> jsval \<Rightarrow> jsval \<Rightarrow> jsobj option \<Rightarrow> call result" where
  "replyWithLocation ctx latitude longitude extra =
     (let reply_to_message_id = opt_member (getMessageFromAnySource ctx) ''message_id''
      in sendLocation ctx latitude longitude
           (Some (spread [(''reply_to_message_id'', reply_to_message_id)] extra)))"

definition sendVenue :: "Context \<Rightarrow> jsval \<Rightarrow> jsval \<Rightarrow> jsval \<Rightarrow> jsval \<Rightarrow> jsobj option \<Rightarrow> call result" where
  "sendVenue ctx latitude longitude title address extra =
     and_then (assert ctx (chat ctx) ''sendVenue'') (\<lambda>_.
     and_then (get_member (chat ctx) ''id'') (\<lambda>ident.
     and_then (getThreadId (message ctx)) (\<lambda>thread.
     telegram ''sendVenue''
       [ident, latitude, longitude, title, address, JObj (spread [(''message_thread_id'', thread)] extra)])))"

definition replyWithVenue :: "Context \<Rightarrow> jsval \<Rightarrow> jsval \<Rightarrow> jsval \<Rightarrow> jsval \<Rightarrow> jsobj option \<Rightarrow> call result" where
  "replyWithVenue ctx latitude longitude title address extra =
     (let reply_to_message_id = opt_member (getMessageFromAnySource ctx) ''message_id''
      in sendVenue ctx latitude longitude title address
           (Some (spread [(''reply_to_message_id'', reply_to_message_id)] extra)))"

definition sendContact :: "Context \<Rightarrow> jsval \<Rightarrow> jsval \<Rightarrow> jsobj option \<Rightarrow> call result" where
  "sendContact ctx phoneNumber firstName extra =
     and_then (assert ctx (chat ctx) ''sendContact'') (\<lambda>_.
     and_then (get_member (chat ctx) ''id'') (\<lambda>ident.
     and_then (getThreadId (message ctx)) (\<lambda>thread.
     telegram ''sendContact''
       [ident, phoneNumber, firstName, JObj (spread [(''message_thread_id'', thread)] extra)])))"

definition replyWithContact :: "Context \<Rightarrow> jsval \<Rightarrow> jsval \<Rightarrow> jsobj option \<Rightarrow> call result" where
  "replyWithContact ctx phoneNumber firstName extra =
     (let reply_to_message_id = opt_member (getMessageFromAnySource ctx) ''message_id''
      in sendContact ctx phoneNumber firstName
           (Some (spread [(''reply_to_message_id'', reply_to_message_id)] extra)))"

definition setChatStickerSet :: "Context \<Rightarrow> jsval \<Rightarrow> call result" where
  "setChatStickerSet ctx setName =
     and_then (assert ctx (chat ctx) ''setChatStickerSet'') (\<lambda>_.
     and_then (get_member (chat ctx) ''id'') (\<lambda>ident.
     telegram ''setChatStickerSet'' [ident, setName]))"

definition deleteChatStickerSet :: "Context \<Rightarrow> call result" where
  "deleteChatStickerSet ctx =
     and_then (assert ctx (chat ctx) ''deleteChatStickerSet'') (\<lambda>_.
     and_then (get_member (chat ctx) ''id'') (\<lambda>ident.
     telegram ''deleteChatStickerSet'' [ident]))"

definition createForumTopic :: "Context \<Rightarrow> jsval list \<Rightarrow> call result" where
  "createForumTopic ctx args =
     and_then (assert ctx (chat ctx) ''createForumTopic'') (\<lambda>_.
     and_then (get_member (chat ctx) ''id'') (\<lambda>ident.
     telegram ''createForumTopic'' (ident # args)))"

definition editForumTopic :: "Context \<Rightarrow> jsval \<Rightarrow> call result" where
  "editForumTopic ctx extra =
     and_then (assert ctx (chat ctx) ''editForumTopic'') (\<lambda>_.
     and_then (assert ctx (opt_member (message ctx) ''message_thread_id'')
                 ''editForumTopic'') (\<lambda>_.
     and_then (get_member (chat ctx) ''id'') (\<lambda>ident.
     and_then (get_member (message ctx) ''message_thread_id'') (\<lambda>thread.
     telegram ''editForumTopic'' [ident, thread, extra]))))"

definition closeForumTopic :: "Context \<Rightarrow> call result" where
  "closeForumTopic ctx =
     and_then (assert ctx (chat ctx) ''closeForumTopic'') (\<lambda>_.
     and_then (assert ctx (opt_member (message ctx) ''message_thread_id'')
                 ''closeForumTopic'') (\<lambda>_.
     and_then (get_member (chat ctx) ''id'') (\<lambda>ident.
     and_then (get_member (message ctx) ''message_thread_id'') (\<lambda>thread.
     telegram ''closeForumTopic'' [ident, thread]))))"

definition reopenForumTopic :: "Context \<Rightarrow> call result" where
  "reopenForumTopic ctx =
     and_then (assert ctx (chat ctx) ''reopenForumTopic'') (\<lambda>_.
     and_then (assert ctx (opt_member (message ctx) ''message_thread_id'')
                 ''reopenForumTopic'') (\<lambda>_.
     and_then (get_member (chat ctx) ''id'') (\<lambda>ident.
     and_then (get_member (message ctx) ''message_thread_id'') (\<lambda>thread.
     telegram ''reopenForumTopic'' [ident, thread]))))"

definition deleteForumTopic :: "Context \<Rightarrow> call result" where
  "deleteForumTopic ctx =
     and_then (assert ctx (chat ctx) ''deleteForumTopic'') (\<lambda>_.
     and_then (assert ctx (opt_member (message ctx) ''message_thread_id'')
                 ''deleteForumTopic'') (\<lambda>_.
     and_then (get_member (chat ctx) ''id'') (\<lambda>ident.
     and_then (get_member (message ctx) ''message_thread_id'') (\<lambda>thread.
     telegram ''deleteForumTopic'' [ident, thread]))))"

definition unpinAllForumTopicMessages :: "Context \<Rightarrow> call result" where
  "unpinAllForumTopicMessages ctx =
     and_then (assert ctx (chat ctx) ''unpinAllForumTopicMessages'') (\<lambda>_.
     and_then (assert ctx (opt_member (message ctx) ''message_thread_id'')
                 ''unpinAllForumTopicMessages'') (\<lambda>_.
     and_then (get_member (chat ctx) ''id'') (\<lambda>ident.
     and_then (get_member (message ctx) ''message_thread_id'') (\<lambda>thread.
     telegram ''unpinAllForumTopicMessages'' [ident, thread]))))"

definition uploadStickerFile :: "Context \<Rightarrow> jsval list \<Rightarrow> call result" where
  "uploadStickerFile ctx args =
     and_then (assert ctx (from' ctx) ''uploadStickerFile'') (\<lambda>_.
     and_then (get_member (from' ctx) ''id'') (\<lambda>ident.
     telegram ''uploadStickerFile'' (ident # args)))"

definition createNewStickerSet :: "Context \<Rightarrow> jsval list \<Rightarrow> call result" where
  "createNewStickerSet ctx args =
     and_then (assert ctx (from' ctx) ''createNewStickerSet'') (\<lambda>_.
     and_then (get_member (from' ctx) ''id'') (\<lambda>ident.
     telegram ''createNewStickerSet'' (ident # args)))"

definition addStickerToSet :: "Context \<Rightarrow> jsval list \<Rightarrow> call result" where
  "addStickerToSet ctx args =
     and_then (assert ctx (from' ctx) ''addStickerToSet'') (\<lambda>_.
     and_then (get_member (from' ctx) ''id'') (\<lambda>ident.
     telegram ''addStickerToSet'' (ident # args)))"

definition replyWithMarkdown :: "Context \<Rightarrow> jsval \<Rightarrow> jsobj option \<Rightarrow> call result" where
  "replyWithMarkdown ctx markdown extra =
     reply ctx markdown (Some (spread [(''parse_mode'', JStr ''Markdown'')] extra))"

definition replyWithMarkdownV2 :: "Context \<Rightarrow> jsval \<Rightarrow> jsobj option \<Rightarrow> call result" where
  "replyWithMarkdownV2 ctx markdown extra =
     reply ctx markdown (Some (spread [(''parse_mode'', JStr ''MarkdownV2'')] extra))"

definition replyWithHTML :: "Context \<Rightarrow> jsval \<Rightarrow> jsobj option \<Rightarrow> call result" where
  "replyWithHTML ctx html extra =
     reply ctx html (Some (spread [(''parse_mode'', JStr ''HTML'')] extra))"

definition deleteMessage :: "Context \<Rightarrow> jsval \<Rightarrow> call result" where
  "deleteMessage ctx messageId =
     and_then (assert ctx (chat ctx) ''deleteMessage'') (\<lambda>_.
     if messageId \<noteq> JUndefined
     then and_then (get_member (chat ctx) ''id'') (\<lambda>ident.
            telegram ''deleteMessage'' [ident, messageId])
     else and_then (assert ctx (getMessageFromAnySource ctx) ''deleteMessage'') (\<lambda>_.
          and_then (get_member (chat ctx) ''id'') (\<lambda>ident.
          and_then (get_member (getMessageFromAnySource ctx) ''message_id'') (\<lambda>message_id.
          telegram ''deleteMessage'' [ident, message_id]))))"

definition forwardMessage :: "Context \<Rightarrow> jsval \<Rightarrow> jsval \<Rightarrow> call result" where
  "forwardMessage ctx chatId extra =
     and_then (assert ctx (getMessageFromAnySource ctx) ''forwardMessage'') (\<lambda>_.
     and_then (get_member (getMessageFromAnySource ctx) ''chat'') (\<lambda>message_chat.
     and_then (get_member message_chat ''id'') (\<lambda>ident.
     and_then (get_member (getMessageFromAnySource ctx) ''message_id'') (\<lambda>message_id.
     telegram ''forwardMessage'' [chatId, ident, message_id, extra]))))"

definition copyMessage :: "Context \<Rightarrow> jsval \<Rightarrow> jsval \<Rightarrow> call result" where
  "copyMessage ctx chatId extra =
     and_then (assert ctx (getMessageFromAnySource ctx) ''copyMessage'') (\<lambda>_.
     and_then (get_member (getMessageFromAnySource ctx) ''chat'') (\<lambda>message_chat.
     and_then (get_member message_chat ''id'') (\<lambda>ident.
     and_then (get_member (getMessageFromAnySource ctx) ''message_id'') (\<lambda>message_id.
     telegram ''copyMessage'' [chatId, ident, message_id, extra]))))"

definition approveChatJoinRequest :: "Context \<Rightarrow> jsval \<Rightarrow> call result" where
  "approveChatJoinRequest ctx userId =
     and_then (assert ctx (chat ctx) ''approveChatJoinRequest'') (\<lambda>_.
     and_then (get_member (chat ctx) ''id'') (\<lambda>ident.
     telegram ''approveChatJoinRequest'' [ident, userId]))"

definition declineChatJoinRequest :: "Context \<Rightarrow> jsval \<Rightarrow> call result" where
  "declineChatJoinRequest ctx userId =
     and_then (assert ctx (chat ctx) ''declineChatJoinRequest'') (\<lambda>_.
     and_then (get_member (chat ctx) ''id'') (\<lambda>ident.
     telegram ''declineChatJoinRequest'' [ident, userId]))"

definition banChatSenderChat :: "Context \<Rightarrow> jsval \<Rightarrow> call result" where
  "banChatSenderChat ctx senderChatId =
     and_then (assert ctx (chat ctx) ''banChatSenderChat'') (\<lambda>_.
     and_then (get_member (chat ctx) ''id'') (\<lambda>ident.
     telegram ''banChatSenderChat'' [ident, senderChatId]))"

definition unbanChatSenderChat :: "Context \<Rightarrow> jsval \<Rightarrow> call result" where
  "unbanChatSenderChat ctx senderChatId =
     and_then (assert ctx (chat ctx) ''unbanChatSenderChat'') (\<lambda>_.
     and_then (get_member (chat ctx) ''id'') (\<lambda>ident.
     telegram ''unbanChatSenderChat'' [ident, senderChatId]))"

definition setChatMenuButton :: "Context \<Rightarrow> jsval \<Rightarrow> call result" where
  "setChatMenuButton ctx menuButton =
     and_then (assert ctx (chat ctx) ''setChatMenuButton'') (\<lambda>_.
     and_then (get_member (chat ctx) ''id'') (\<lambda>ident.
     telegram ''setChatMenuButton'' [JObj [(''chatId'', ident), (''menuButton'', menuButton)]]))"

definition getChatMenuButton :: "Context \<Rightarrow> call result" where
  "getChatMenuButton ctx =
     and_then (assert ctx (chat ctx) ''getChatMenuButton'') (\<lambda>_.
     and_then (get_member (chat ctx) ''id'') (\<lambda>ident.
     telegram ''getChatMenuButton'' [JObj [(''chatId'', ident)]]))"

subsection \<open>The contract of a guarded operation\<close>

text \<open>
  The thread identifier that a send operation adds by default: that of the message, when
  the message is a topic message.
\<close>

definition default_thread_id :: "jsval \<Rightarrow> jsval" where
  "default_thread_id msg =
     (if truthy (opt_member msg ''is_topic_message'')
      then opt_member msg ''message_thread_id''
      else JUndefined)"

text \<open>
  The outcome of the operation \<open>method\<close> follows the guarded delegation pattern: when what
  it requires is \<open>missing\<close>, it fails before the transport is reached, and on an Update that
  has a kind it fails with the usage error whose message reads
  \<^verbatim>\<open>Telegraf: "method" isn't available for "kind"\<close>; when what it requires is
  \<open>resolved\<close>, it makes the call \<open>delegated\<close>.
\<close>

definition guarded :: "Context \<Rightarrow> string \<Rightarrow> call result \<Rightarrow> bool \<Rightarrow> bool \<Rightarrow> call \<Rightarrow> bool" where
  "guarded ctx method outcome missing resolved delegated \<longleftrightarrow>
     (missing \<longrightarrow>
        (case updateType ctx of
           Inr kind \<Rightarrow>
             outcome =
               Inl (TypeError
                 (''Telegraf: '' @ [CHR 0x22] @ method @ [CHR 0x22] @
                  '' isn't available for '' @ [CHR 0x22] @ kind @ [CHR 0x22]))
         | Inl e \<Rightarrow> isl outcome)) \<and>
     (resolved \<longrightarrow> outcome = Inr delegated)"

text \<open>
  The inline message identifier of an Update is that of its callback query or, without a
  callback query, that of its chosen inline result. An Update is addressable for an edit
  when its callback query or its inline message identifier is present, that is, neither
  \<^verbatim>\<open>undefined\<close> nor \<^verbatim>\<open>null\<close>.
\<close>

definition inline_id :: "Context \<Rightarrow> jsval" where
  "inline_id ctx =
     (case first_defined
             [lookup (update ctx) ''callback_query'',
              lookup (update ctx) ''chosen_inline_result''] of
        Some q \<Rightarrow> opt_member q ''inline_message_id''
      | None \<Rightarrow> JUndefined)"



text \<open>
  The value of \<open>key\<close> in the caller's extras merged over default parameters: the
  caller's value when the extras have the key, the default otherwise.
\<close>

definition merged_over :: "jsobj option \<Rightarrow> jsobj \<Rightarrow> string \<Rightarrow> jsval" where
  "merged_over extra defaults key =
     (case extra of
        None \<Rightarrow> lookup defaults key
      | Some e \<Rightarrow> if key \<in> set (map fst e) then lookup e key else lookup defaults key)"

text \<open>
  A reply operation reaches the transport when the chat is resolved, and whenever it
  reaches it, it calls \<open>method\<close> with the chat identifier, its \<open>leading\<close> arguments and a
  parameter object that reads, at every key, as the caller's extras merged over
  \<open>defaults\<close>.
\<close>

definition replies ::
  "Context \<Rightarrow> call result \<Rightarrow> string \<Rightarrow> jsval list \<Rightarrow> jsobj option \<Rightarrow> jsobj \<Rightarrow> bool" where
  "replies ctx outcome method leading extra defaults \<longleftrightarrow>
     (\<not> nullish (chat ctx) \<longrightarrow> \<not> isl outcome) \<and>
     (\<forall>c. outcome = Inr c \<longrightarrow>
        (\<exists>params.
           c = Call method (opt_member (chat ctx) ''id'' # leading @ [JObj params]) \<and>
           (\<forall>key. lookup params key = merged_over extra defaults key)))"

text \<open>
  The defaults of a reply operation: the reply target, which is the identifier of the
  message resolved from any message-bearing update, and the default thread identifier.
\<close>

definition reply_defaults :: "Context \<Rightarrow> jsobj" where
  "reply_defaults ctx =
     [(''reply_to_message_id'', opt_member (getMessageFromAnySource ctx) ''message_id''),
      (''message_thread_id'', default_thread_id (message ctx))]"

section \<open>The webhook ingestion adapter\<close>

text \<open>
  Modelled from the spec: the response object of the platform's http module, which is
  not among the sources. It is reduced to what the adapter reads and writes: the status
  code, whether the headers have been sent, the \<^verbatim>\<open>writableEnded\<close> flag and, to count
  finalizations, the number of calls of \<^verbatim>\<open>end\<close>. The response changes only through its
  own methods. \<^verbatim>\<open>writeHead\<close> sends the headers and throws when they have been sent
  already; \<^verbatim>\<open>end\<close> sends them if need be and does not throw.
\<close>

record response =
  statusCode :: nat
  headersSent :: bool
  writableEnded :: bool
  end_calls :: nat

definition res_end :: "response \<Rightarrow> response" where
  "res_end res = res\<lparr>headersSent := True, writableEnded := True, end_calls := end_calls res + 1\<rparr>"

definition writeHead :: "'x \<Rightarrow> nat \<Rightarrow> response \<Rightarrow> 'x + response" where
  "writeHead headers_sent_error code res =
     (if headersSent res then Inl headers_sent_error
      else Inr (res\<lparr>statusCode := code, headersSent := True\<rparr>))"

text \<open>
  What a handler does to the response. A \<^verbatim>\<open>writeHead\<close> that the response refuses leaves
  it as it is; what the handler makes of the exception shows in how it settles.
\<close>

datatype res_action = SetStatusCode nat | WriteHead nat | End

fun perform :: "response \<Rightarrow> res_action \<Rightarrow> response" where
  "perform res (SetStatusCode code) = res\<lparr>statusCode := code\<rparr>"
| "perform res (WriteHead code) =
     (case writeHead () code res of Inl e \<Rightarrow> res | Inr res' \<Rightarrow> res')"
| "perform res End = res_end res"

text \<open>
  The request: its pre-attached \<^verbatim>\<open>body\<close>, which is a Buffer of bytes or any other value
  (\<^verbatim>\<open>undefined\<close> when nothing is attached), and the bytes of its body stream.
\<close>

datatype req_body = Buffer "char list" | Value jsval

record request =
  body :: req_body
  stream :: "char list"

text \<open>
  What awaiting a promise gives: it resolves, it rejects with a thrown value, or it never
  settles. The update handler and a custom \<^verbatim>\<open>next\<close> are supplied by the embedding
  application: each is known by what it does to the response and by how it settles.
\<close>

datatype 'x settles = Resolved | Rejected 'x | Pending

text \<open>
  What one run of the adapter leaves behind: how its promise settles, the response, and
  the Update that the handler was invoked with, if it was invoked.
\<close>

record 'x run =
  settled :: "'x settles"
  res_after :: response
  dispatched :: "jsval option"

text \<open>
  The functions of the platform that the adapter calls and the sources do not define:
  \<^verbatim>\<open>String(buffer)\<close>, \<^verbatim>\<open>JSON.parse\<close> and the stream consumer \<^verbatim>\<open>json\<close>, each of
  which throws, or rejects, on an input it cannot handle; and the error that
  \<^verbatim>\<open>writeHead\<close> throws once the headers are sent.
\<close>

record 'x platform =
  String_of_buffer :: "char list \<Rightarrow> 'x + string"
  JSON_parse :: "string \<Rightarrow> 'x + jsval"
  json :: "request \<Rightarrow> 'x + jsval"
  ERR_HTTP_HEADERS_SENT :: 'x

text \<open>The first \<^verbatim>\<open>try\<close> block of the adapter: the Update, or what was thrown.\<close>

definition parse_body :: "'x platform \<Rightarrow> request \<Rightarrow> 'x + jsval" where
  "parse_body p req =
     (case body req of
        Buffer bytes \<Rightarrow>
          (case String_of_buffer p bytes of
             Inl error \<Rightarrow> Inl error
           | Inr s \<Rightarrow> JSON_parse p s)
      | Value v \<Rightarrow>
          if \<not> nullish v
          then (case v of JStr s \<Rightarrow> JSON_parse p s | _ \<Rightarrow> Inr v)
          else json p req)"

text \<open>The default \<^verbatim>\<open>next\<close>: status 403, and the response is ended.\<close>

definition default_next :: "response \<Rightarrow> 'x run" where
  "default_next res =
     \<lparr>settled = Resolved, res_after = res_end (res\<lparr>statusCode := 403\<rparr>), dispatched = None\<rparr>"

text \<open>
  The adapter. Its \<^verbatim>\<open>catch\<close> block calls \<^verbatim>\<open>res.writeHead(415, {}).end()\<close> outside any
  \<^verbatim>\<open>try\<close>, so that what \<^verbatim>\<open>writeHead\<close> throws there rejects the adapter's promise.
\<close>

definition generateWebhook ::
  "'x platform \<Rightarrow> (request \<Rightarrow> bool) \<Rightarrow> (jsval \<Rightarrow> res_action list \<times> 'x settles) \<Rightarrow>
   request \<Rightarrow> response \<Rightarrow> (res_action list \<times> 'x settles) option \<Rightarrow> 'x run" where
  "generateWebhook p filter' updateHandler req res next' =
     (if \<not> filter' req
      then (case next' of
              None \<Rightarrow> default_next res
            | Some (actions, outcome) \<Rightarrow>
                \<lparr>settled = outcome, res_after = foldl perform res actions, dispatched = None\<rparr>)
      else
        (case parse_body p req of
           Inl error \<Rightarrow>
             (case writeHead (ERR_HTTP_HEADERS_SENT p) 415 res of
                Inl thrown \<Rightarrow> \<lparr>settled = Rejected thrown, res_after = res, dispatched = None\<rparr>
              | Inr res' \<Rightarrow>
                  \<lparr>settled = Resolved, res_after = res_end res', dispatched = None\<rparr>)
         | Inr upd \<Rightarrow>
             (case updateHandler upd of (actions, outcome) \<Rightarrow>
                (let res1 = foldl perform res actions
                 in if outcome = Pending
                    then \<lparr>settled = Pending, res_after = res1, dispatched = Some upd\<rparr>
                    else \<lparr>settled = outcome,
                          res_after = (if \<not> writableEnded res1 then res_end res1 else res1),
                          dispatched = Some upd\<rparr>))))"

subsection \<open>The words of the specification\<close>

text \<open>
  The response is finalized exactly once when \<^verbatim>\<open>end\<close> has been called once on it. A
  response is fresh when it has not been ended, and a handler is orderly when it ends the
  response at most once.
\<close>

definition finalized_once :: "response \<Rightarrow> bool" where
  "finalized_once res \<longleftrightarrow> writableEnded res \<and> end_calls res = 1"

definition fresh :: "response \<Rightarrow> bool" where
  "fresh res \<longleftrightarrow> \<not> writableEnded res \<and> end_calls res = 0"

definition ends :: "res_action list \<Rightarrow> nat" where
  "ends actions = length (filter (\<lambda>a. a = End) actions)"

section \<open>Basic facts about the JavaScript operators\<close>

lemma typeof_object_iff: "typeof v = ''object'' \<longleftrightarrow> is_object v \<or> v = JNull"
  by (cases v) simp_all

lemma nullish_iff: "nullish v \<longleftrightarrow> v = JUndefined \<or> v = JNull"
  by (cases v) simp_all

lemma opt_member_nullish: "nullish v \<Longrightarrow> opt_member v key = JUndefined"
  by (cases v) simp_all

lemma get_member_defined: "\<not> nullish v \<Longrightarrow> get_member v key = Inr (opt_member v key)"
  by (cases v) simp_all

lemma opt_member_defined_object: "opt_member v key \<noteq> JUndefined \<Longrightarrow> \<exists>ps. v = JObj ps"
  by (cases v) simp_all

lemma coalesce_nullish: "nullish a \<Longrightarrow> coalesce a b = b"
  by (simp add: coalesce_def)

lemma coalesce_defined: "\<not> nullish a \<Longrightarrow> coalesce a b = a"
  by (simp add: coalesce_def)

lemma first_defined_Nil: "first_defined [] = None"
  by (simp add: first_defined_def)

lemma first_defined_Cons:
  "first_defined (c # cs) = (if nullish c then first_defined cs else Some c)"
  by (simp add: first_defined_def)

section \<open>The Update classifier\<close>

lemma updateType_loop_find:
  "updateType_loop u keys = find (\<lambda>key. typeof (lookup u key) = ''object'') keys"
  by (induction keys) simp_all

lemma find_typeof_is_object:
  "list_all (\<lambda>key. lookup u key \<noteq> JNull) keys \<Longrightarrow>
   find (\<lambda>key. typeof (lookup u key) = ''object'') keys = find (\<lambda>key. is_object (lookup u key)) keys"
  by (induction keys) (simp_all add: typeof_object_iff)

lemma find_filter_single: "filter P xs = [x] \<Longrightarrow> find P xs = Some x"
  by (induction xs) (auto split: if_splits)

lemma find_filter_empty: "filter P xs = [] \<Longrightarrow> find P xs = None"
  by (induction xs) (auto split: if_splits)

lemma updateType_fails_iff:
  "(\<exists>e. updateType ctx = Inl e) \<longleftrightarrow>
   list_all (\<lambda>key. typeof (lookup (update ctx) key) \<noteq> ''object'') (map fst (update ctx))"
proof -
  have "updateType_loop u keys = None \<longleftrightarrow>
        list_all (\<lambda>key. typeof (lookup u key) \<noteq> ''object'') keys" for u keys
    by (induction keys) simp_all
  from this [of "update ctx" "map fst (update ctx)", symmetric] show ?thesis
    by (cases "updateType_loop (update ctx) (map fst (update ctx))")
      (simp_all add: updateType_def)
qed

lemma updateType_single:
  assumes "no_null_field ctx" and "populated_fields ctx = [field]"
  shows "updateType ctx = Inr field"
proof -
  have "find (\<lambda>key. is_object (lookup (update ctx) key)) (map fst (update ctx)) = Some field"
    using assms(2) unfolding populated_fields_def by (rule find_filter_single)
  with assms(1) show ?thesis
    by (simp add: updateType_def updateType_loop_find no_null_field_def find_typeof_is_object)
qed

lemma updateType_none:
  assumes "no_null_field ctx" and "populated_fields ctx = []"
  shows "updateType ctx = Inl (CannotDetermineUpdateType (update ctx))"
proof -
  have "find (\<lambda>key. is_object (lookup (update ctx) key)) (map fst (update ctx)) = None"
    using assms(2) unfolding populated_fields_def by (rule find_filter_empty)
  with assms(1) show ?thesis
    by (simp add: updateType_def updateType_loop_find no_null_field_def find_typeof_is_object)
qed

lemma updateType_error_is_classification:
  "updateType ctx = Inl e \<Longrightarrow> e = CannotDetermineUpdateType (update ctx)"
  by (auto simp: updateType_def split: option.splits)

lemma updateType_fails_unpopulated:
  assumes "isl (updateType ctx)"
  shows "populated_fields ctx = []"
proof -
  from assms obtain e where "updateType ctx = Inl e"
    by (cases "updateType ctx") simp_all
  then have "list_all (\<lambda>key. typeof (lookup (update ctx) key) \<noteq> ''object'')
      (map fst (update ctx))"
    using updateType_fails_iff [of ctx] by blast
  then show ?thesis
    by (simp add: populated_fields_def filter_empty_conv list_all_iff typeof_object_iff)
qed

text \<open>
  C1, as amended. For every Update none of whose top-level values is \<^verbatim>\<open>null\<close>: with
  exactly one populated top-level field the classifier returns that field's name;
  classification raises an error if and only if no field is populated; and the error it
  raises is the classification error.
\<close>

theorem updateType_classifies:
  "no_null_field ctx \<longrightarrow>
     (\<forall>field. populated_fields ctx = [field] \<longrightarrow> updateType ctx = Inr field) \<and>
     (populated_fields ctx = [] \<longleftrightarrow> isl (updateType ctx)) \<and>
     (\<forall>e. updateType ctx = Inl e \<longrightarrow> e = CannotDetermineUpdateType (update ctx))"
proof
  assume n: "no_null_field ctx"
  have one: "\<forall>field. populated_fields ctx = [field] \<longrightarrow> updateType ctx = Inr field"
    using n updateType_single [of ctx] by blast
  have none: "populated_fields ctx = [] \<longleftrightarrow> isl (updateType ctx)"
    using n updateType_none [of ctx] updateType_fails_unpopulated [of ctx] by auto
  have err: "\<forall>e. updateType ctx = Inl e \<longrightarrow> e = CannotDetermineUpdateType (update ctx)"
    using updateType_error_is_classification [of ctx] by blast
  from one none err show
    "(\<forall>field. populated_fields ctx = [field] \<longrightarrow> updateType ctx = Inr field) \<and>
     (populated_fields ctx = [] \<longleftrightarrow> isl (updateType ctx)) \<and>
     (\<forall>e. updateType ctx = Inl e \<longrightarrow> e = CannotDetermineUpdateType (update ctx))"
    by blast
qed

theorem updateType_classifies_witness:
  "no_null_field \<lparr>update = [(''update_id'', JNum 7), (''poll'', JObj [(''id'', JStr ''p'')])],
      botInfo = JUndefined\<rparr> \<and>
   populated_fields \<lparr>update = [(''update_id'', JNum 7), (''poll'', JObj [(''id'', JStr ''p'')])],
      botInfo = JUndefined\<rparr> = [''poll''] \<and>
   updateType \<lparr>update = [(''update_id'', JNum 7), (''poll'', JObj [(''id'', JStr ''p'')])],
      botInfo = JUndefined\<rparr> = Inr ''poll'' \<and>
   no_null_field \<lparr>update = [(''update_id'', JNum 7)], botInfo = JUndefined\<rparr> \<and>
   populated_fields \<lparr>update = [(''update_id'', JNum 7)], botInfo = JUndefined\<rparr> = [] \<and>
   updateType \<lparr>update = [(''update_id'', JNum 7)], botInfo = JUndefined\<rparr> =
     Inl (CannotDetermineUpdateType [(''update_id'', JNum 7)])"
proof -
  let ?one = "\<lparr>update = [(''update_id'', JNum 7), (''poll'', JObj [(''id'', JStr ''p'')])],
      botInfo = JUndefined\<rparr>"
  let ?none = "\<lparr>update = [(''update_id'', JNum 7)], botInfo = JUndefined\<rparr>"
  have n1: "no_null_field ?one" and n0: "no_null_field ?none"
    by (simp_all add: no_null_field_def)
  have p1: "populated_fields ?one = [''poll'']" and p0: "populated_fields ?none = []"
    by (simp_all add: populated_fields_def)
  have r1: "updateType ?one = Inr ''poll''"
    using updateType_classifies [of ?one] n1 p1 by blast
  have "isl (updateType ?none)"
    using updateType_classifies [of ?none] n0 p0 by blast
  then obtain e where e: "updateType ?none = Inl e"
    by (cases "updateType ?none") simp_all
  then have "e = CannotDetermineUpdateType (update ?none)"
    using updateType_classifies [of ?none] n0 by blast
  with e have r0: "updateType ?none = Inl (CannotDetermineUpdateType [(''update_id'', JNum 7)])"
    by simp
  from n1 p1 r1 n0 p0 r0 show ?thesis by blast
qed

text \<open>
  C1 as stated fails on a \<^verbatim>\<open>null\<close> field: with no populated field the classifier
  returns the key of the \<^verbatim>\<open>null\<close> instead of raising, and with exactly one populated
  field it returns the key of a \<^verbatim>\<open>null\<close> enumerated before it.
\<close>

theorem updateType_null_counterexample:
  "populated_fields \<lparr>update = [(''update_id'', JNum 7), (''message'', JNull)],
      botInfo = JUndefined\<rparr> = [] \<and>
   updateType \<lparr>update = [(''update_id'', JNum 7), (''message'', JNull)],
      botInfo = JUndefined\<rparr> = Inr ''message'' \<and>
   populated_fields \<lparr>update = [(''update_id'', JNum 7), (''message'', JNull),
      (''poll'', JObj [(''id'', JStr ''p'')])], botInfo = JUndefined\<rparr> = [''poll''] \<and>
   updateType \<lparr>update = [(''update_id'', JNum 7), (''message'', JNull),
      (''poll'', JObj [(''id'', JStr ''p'')])], botInfo = JUndefined\<rparr> = Inr ''message''"
  by (simp add: populated_fields_def updateType_def)

section \<open>Derived accessors\<close>

lemmas getter_defs = message_def editedMessage_def inlineQuery_def shippingQuery_def
  preCheckoutQuery_def chosenInlineResult_def channelPost_def editedChannelPost_def
  callbackQuery_def myChatMember_def chatMember_def chatJoinRequest_def

lemma getMessageFromAnySource_first_defined:
  "case first_defined [lookup (update ctx) ''message'',
                      lookup (update ctx) ''edited_message'',
                      opt_member (lookup (update ctx) ''callback_query'') ''message'',
                      lookup (update ctx) ''channel_post'',
                      lookup (update ctx) ''edited_channel_post''] of
     Some m \<Rightarrow> getMessageFromAnySource ctx = m
   | None \<Rightarrow> nullish (getMessageFromAnySource ctx)"
  by (simp add: getMessageFromAnySource_def getter_defs first_defined_Cons first_defined_Nil
      coalesce_def)

lemma chat_first_defined:
  "chat ctx =
     (case first_defined
             [lookup (update ctx) ''chat_member'',
             lookup (update ctx) ''my_chat_member'',
             lookup (update ctx) ''chat_join_request'',
             getMessageFromAnySource ctx] of
        Some c \<Rightarrow> opt_member c ''chat''
      | None \<Rightarrow> JUndefined)"
  by (simp add: chat_def getter_defs first_defined_Cons first_defined_Nil coalesce_def
      opt_member_nullish)

lemma chat_first_defined_field:
  "chat ctx =
     (case first_defined
             [lookup (update ctx) ''chat_member'',
             lookup (update ctx) ''my_chat_member'',
             lookup (update ctx) ''chat_join_request'',
             lookup (update ctx) ''message'',
             lookup (update ctx) ''edited_message'',
             opt_member (lookup (update ctx) ''callback_query'') ''message'',
             lookup (update ctx) ''channel_post'',
             lookup (update ctx) ''edited_channel_post''] of
        Some c \<Rightarrow> opt_member c ''chat''
      | None \<Rightarrow> JUndefined)"
  by (simp add: chat_def getMessageFromAnySource_def getter_defs first_defined_Cons
      first_defined_Nil coalesce_def opt_member_nullish)

lemma from_first_defined:
  "from' ctx =
     (case first_defined
             [lookup (update ctx) ''callback_query'',
             lookup (update ctx) ''inline_query'',
             lookup (update ctx) ''shipping_query'',
             lookup (update ctx) ''pre_checkout_query'',
             lookup (update ctx) ''chosen_inline_result'',
             lookup (update ctx) ''chat_member'',
             lookup (update ctx) ''my_chat_member'',
             lookup (update ctx) ''chat_join_request'',
             getMessageFromAnySource ctx] of
        Some c \<Rightarrow> opt_member c ''from''
      | None \<Rightarrow> JUndefined)"
  by (simp add: from'_def getter_defs first_defined_Cons first_defined_Nil coalesce_def
      opt_member_nullish)

lemma from_first_defined_field:
  "from' ctx =
     (case first_defined
             [lookup (update ctx) ''callback_query'',
             lookup (update ctx) ''inline_query'',
             lookup (update ctx) ''shipping_query'',
             lookup (update ctx) ''pre_checkout_query'',
             lookup (update ctx) ''chosen_inline_result'',
             lookup (update ctx) ''chat_member'',
             lookup (update ctx) ''my_chat_member'',
             lookup (update ctx) ''chat_join_request'',
             lookup (update ctx) ''message'',
             lookup (update ctx) ''edited_message'',
             opt_member (lookup (update ctx) ''callback_query'') ''message'',
             lookup (update ctx) ''channel_post'',
             lookup (update ctx) ''edited_channel_post''] of
        Some c \<Rightarrow> opt_member c ''from''
      | None \<Rightarrow> JUndefined)"
  by (simp add: from'_def getMessageFromAnySource_def getter_defs first_defined_Cons
      first_defined_Nil coalesce_def opt_member_nullish)

lemma populated_only_others:
  assumes "populated_only ctx field" and "key \<in> set update_fields" and "key \<noteq> field"
  shows "nullish (lookup (update ctx) key)"
  using assms by (auto simp: populated_only_def list_all_iff)

lemma populated_only_nullish:
  assumes "populated_only ctx field"
  shows "field \<noteq> ''chat_member'' \<longrightarrow> nullish (lookup (update ctx) ''chat_member'')"
    and "field \<noteq> ''my_chat_member'' \<longrightarrow> nullish (lookup (update ctx) ''my_chat_member'')"
    and "field \<noteq> ''chat_join_request'' \<longrightarrow> nullish (lookup (update ctx) ''chat_join_request'')"
    and "field \<noteq> ''message'' \<longrightarrow> nullish (lookup (update ctx) ''message'')"
    and "field \<noteq> ''edited_message'' \<longrightarrow> nullish (lookup (update ctx) ''edited_message'')"
    and "field \<noteq> ''callback_query'' \<longrightarrow> nullish (lookup (update ctx) ''callback_query'')"
    and "field \<noteq> ''channel_post'' \<longrightarrow> nullish (lookup (update ctx) ''channel_post'')"
    and "field \<noteq> ''edited_channel_post'' \<longrightarrow>
           nullish (lookup (update ctx) ''edited_channel_post'')"
  using assms by (auto simp: populated_only_def update_fields_def)

lemma chat_only_chat_join_request:
  assumes "populated_only ctx ''chat_join_request''"
  shows "chat ctx = opt_member (lookup (update ctx) ''chat_join_request'') ''chat''"
  using populated_only_nullish [OF assms]
  by (simp add: chat_first_defined_field first_defined_Cons first_defined_Nil opt_member_nullish)

lemma chat_only_message:
  assumes "populated_only ctx ''message''"
  shows "chat ctx = opt_member (lookup (update ctx) ''message'') ''chat''"
  using populated_only_nullish [OF assms]
  by (simp add: chat_first_defined_field first_defined_Cons first_defined_Nil opt_member_nullish)

lemma chat_only_callback_query:
  assumes "populated_only ctx ''callback_query''"
  shows "chat ctx = opt_member (opt_member (lookup (update ctx) ''callback_query'') ''message'') ''chat''"
  using populated_only_nullish [OF assms]
  by (simp add: chat_first_defined_field first_defined_Cons first_defined_Nil opt_member_nullish)

lemma from_callback_query_first:
  assumes "opt_member (lookup (update ctx) ''callback_query'') ''from'' \<noteq> JUndefined"
  shows "from' ctx = opt_member (lookup (update ctx) ''callback_query'') ''from''"
proof -
  from assms obtain ps where "lookup (update ctx) ''callback_query'' = JObj ps"
    using opt_member_defined_object by blast
  then show ?thesis
    by (simp add: from_first_defined_field first_defined_Cons)
qed

text \<open>
  C2. The \<^verbatim>\<open>chat\<close> accessor is the \<^verbatim>\<open>chat\<close> sub-field of the first candidate that is
  neither \<^verbatim>\<open>null\<close> nor \<^verbatim>\<open>undefined\<close>, the candidates being the fields \<^verbatim>\<open>chat_member\<close>,
  \<^verbatim>\<open>my_chat_member\<close> and \<^verbatim>\<open>chat_join_request\<close> of the Update, in this order, and then
  the message resolved from any message-bearing update, that is, the fields \<^verbatim>\<open>message\<close>,
  \<^verbatim>\<open>edited_message\<close>, the message of \<^verbatim>\<open>callback_query\<close>, \<^verbatim>\<open>channel_post\<close> and
  \<^verbatim>\<open>edited_channel_post\<close>; it is \<^verbatim>\<open>undefined\<close> when there is no such candidate. For an
  Update populated only with \<^verbatim>\<open>chat_join_request\<close> it is that request's \<^verbatim>\<open>chat\<close>, for
  one populated only with \<^verbatim>\<open>message\<close> it is the message's \<^verbatim>\<open>chat\<close>, and for one
  populated only with \<^verbatim>\<open>callback_query\<close> it is \<^verbatim>\<open>callback_query.message.chat\<close>.
\<close>

theorem chat_resolution_order:
  "chat ctx =
     (case first_defined
             [lookup (update ctx) ''chat_member'',
             lookup (update ctx) ''my_chat_member'',
             lookup (update ctx) ''chat_join_request'',
             getMessageFromAnySource ctx] of
        Some c \<Rightarrow> opt_member c ''chat''
      | None \<Rightarrow> JUndefined) \<and>
   chat ctx =
     (case first_defined
             [lookup (update ctx) ''chat_member'',
             lookup (update ctx) ''my_chat_member'',
             lookup (update ctx) ''chat_join_request'',
             lookup (update ctx) ''message'',
             lookup (update ctx) ''edited_message'',
             opt_member (lookup (update ctx) ''callback_query'') ''message'',
             lookup (update ctx) ''channel_post'',
             lookup (update ctx) ''edited_channel_post''] of
        Some c \<Rightarrow> opt_member c ''chat''
      | None \<Rightarrow> JUndefined) \<and>
   (populated_only ctx ''chat_join_request'' \<longrightarrow>
      chat ctx = opt_member (lookup (update ctx) ''chat_join_request'') ''chat'') \<and>
   (populated_only ctx ''message'' \<longrightarrow>
      chat ctx = opt_member (lookup (update ctx) ''message'') ''chat'') \<and>
   (populated_only ctx ''callback_query'' \<longrightarrow>
      chat ctx = opt_member (opt_member (lookup (update ctx) ''callback_query'') ''message'') ''chat'')"
  using chat_first_defined [of ctx] chat_first_defined_field [of ctx]
    chat_only_chat_join_request [of ctx] chat_only_message [of ctx]
    chat_only_callback_query [of ctx]
  by blast

theorem chat_resolution_order_witness:
  "populated_only \<lparr>update = [(''update_id'', JNum 7), (''chat_join_request'', JObj [(''chat'', JObj [(''id'', JNum 42)]), (''from'', JObj [(''id'', JNum 5)])])], botInfo = JUndefined\<rparr> ''chat_join_request'' \<and>
   chat \<lparr>update = [(''update_id'', JNum 7), (''chat_join_request'', JObj [(''chat'', JObj [(''id'', JNum 42)]), (''from'', JObj [(''id'', JNum 5)])])], botInfo = JUndefined\<rparr> = JObj [(''id'', JNum 42)] \<and>
   populated_only \<lparr>update = [(''update_id'', JNum 8), (''message'', JObj [(''message_id'', JNum 3), (''chat'', JObj [(''id'', JNum 43)])])], botInfo = JUndefined\<rparr> ''message'' \<and>
   chat \<lparr>update = [(''update_id'', JNum 8), (''message'', JObj [(''message_id'', JNum 3), (''chat'', JObj [(''id'', JNum 43)])])], botInfo = JUndefined\<rparr> = JObj [(''id'', JNum 43)] \<and>
   populated_only \<lparr>update = [(''update_id'', JNum 9), (''callback_query'', JObj [(''id'', JStr ''q''), (''from'', JObj [(''id'', JNum 5)]), (''message'', JObj [(''message_id'', JNum 3), (''chat'', JObj [(''id'', JNum 44)])])])], botInfo = JUndefined\<rparr> ''callback_query'' \<and>
   chat \<lparr>update = [(''update_id'', JNum 9), (''callback_query'', JObj [(''id'', JStr ''q''), (''from'', JObj [(''id'', JNum 5)]), (''message'', JObj [(''message_id'', JNum 3), (''chat'', JObj [(''id'', JNum 44)])])])], botInfo = JUndefined\<rparr> = JObj [(''id'', JNum 44)] \<and>
   chat \<lparr>update = [(''update_id'', JNum 10), (''message'', JObj [(''message_id'', JNum 3), (''chat'', JObj [(''id'', JNum 3)])]), (''chat_join_request'', JObj [(''chat'', JObj [(''id'', JNum 2)])]), (''my_chat_member'', JObj [(''chat'', JObj [(''id'', JNum 1)])]), (''chat_member'', JObj [(''chat'', JObj [(''id'', JNum 0)])])], botInfo = JUndefined\<rparr> = JObj [(''id'', JNum 0)] \<and>
   chat \<lparr>update = [(''update_id'', JNum 10), (''message'', JObj [(''message_id'', JNum 3), (''chat'', JObj [(''id'', JNum 3)])]), (''chat_join_request'', JObj [(''chat'', JObj [(''id'', JNum 2)])]), (''my_chat_member'', JObj [(''chat'', JObj [(''id'', JNum 1)])])], botInfo = JUndefined\<rparr> = JObj [(''id'', JNum 1)] \<and>
   chat \<lparr>update = [(''update_id'', JNum 10), (''message'', JObj [(''message_id'', JNum 3), (''chat'', JObj [(''id'', JNum 3)])]), (''chat_join_request'', JObj [(''chat'', JObj [(''id'', JNum 2)])])], botInfo = JUndefined\<rparr> = JObj [(''id'', JNum 2)]"
proof -
  let ?j = "\<lparr>update = [(''update_id'', JNum 7), (''chat_join_request'', JObj [(''chat'', JObj [(''id'', JNum 42)]), (''from'', JObj [(''id'', JNum 5)])])], botInfo = JUndefined\<rparr>"
  let ?m = "\<lparr>update = [(''update_id'', JNum 8), (''message'', JObj [(''message_id'', JNum 3), (''chat'', JObj [(''id'', JNum 43)])])], botInfo = JUndefined\<rparr>"
  let ?q = "\<lparr>update = [(''update_id'', JNum 9), (''callback_query'', JObj [(''id'', JStr ''q''), (''from'', JObj [(''id'', JNum 5)]), (''message'', JObj [(''message_id'', JNum 3), (''chat'', JObj [(''id'', JNum 44)])])])], botInfo = JUndefined\<rparr>"
  let ?a = "\<lparr>update = [(''update_id'', JNum 10), (''message'', JObj [(''message_id'', JNum 3), (''chat'', JObj [(''id'', JNum 3)])]), (''chat_join_request'', JObj [(''chat'', JObj [(''id'', JNum 2)])]), (''my_chat_member'', JObj [(''chat'', JObj [(''id'', JNum 1)])]), (''chat_member'', JObj [(''chat'', JObj [(''id'', JNum 0)])])], botInfo = JUndefined\<rparr>"
  let ?b = "\<lparr>update = [(''update_id'', JNum 10), (''message'', JObj [(''message_id'', JNum 3), (''chat'', JObj [(''id'', JNum 3)])]), (''chat_join_request'', JObj [(''chat'', JObj [(''id'', JNum 2)])]), (''my_chat_member'', JObj [(''chat'', JObj [(''id'', JNum 1)])])], botInfo = JUndefined\<rparr>"
  let ?c = "\<lparr>update = [(''update_id'', JNum 10), (''message'', JObj [(''message_id'', JNum 3), (''chat'', JObj [(''id'', JNum 3)])]), (''chat_join_request'', JObj [(''chat'', JObj [(''id'', JNum 2)])])], botInfo = JUndefined\<rparr>"
  have hj: "populated_only ?j ''chat_join_request''"
    and hm: "populated_only ?m ''message''"
    and hq: "populated_only ?q ''callback_query''"
    by (simp_all add: populated_only_def update_fields_def)
  have "chat ?j = opt_member (lookup (update ?j) ''chat_join_request'') ''chat''"
    using chat_resolution_order [of ?j] hj by blast
  then have cj: "chat ?j = JObj [(''id'', JNum 42)]"
    by simp
  have "chat ?m = opt_member (lookup (update ?m) ''message'') ''chat''"
    using chat_resolution_order [of ?m] hm by blast
  then have cm: "chat ?m = JObj [(''id'', JNum 43)]"
    by simp
  have "chat ?q = opt_member (opt_member (lookup (update ?q) ''callback_query'') ''message'') ''chat''"
    using chat_resolution_order [of ?q] hq by blast
  then have cq: "chat ?q = JObj [(''id'', JNum 44)]"
    by simp
  have ca: "chat ?a = JObj [(''id'', JNum 0)]"
    by (simp add: chat_resolution_order [of ?a, THEN conjunct2, THEN conjunct1]
        first_defined_Cons)
  have cb: "chat ?b = JObj [(''id'', JNum 1)]"
    by (simp add: chat_resolution_order [of ?b, THEN conjunct2, THEN conjunct1]
        first_defined_Cons)
  have cc: "chat ?c = JObj [(''id'', JNum 2)]"
    by (simp add: chat_resolution_order [of ?c, THEN conjunct2, THEN conjunct1]
        first_defined_Cons)
  from hj cj hm cm hq cq ca cb cc show ?thesis by blast
qed

text \<open>
  C3. The \<^verbatim>\<open>from\<close> accessor is the \<^verbatim>\<open>from\<close> sub-field of the first candidate that is
  neither \<^verbatim>\<open>null\<close> nor \<^verbatim>\<open>undefined\<close>, the candidates being the fields
  \<^verbatim>\<open>callback_query\<close>, \<^verbatim>\<open>inline_query\<close>, \<^verbatim>\<open>shipping_query\<close>, \<^verbatim>\<open>pre_checkout_query\<close>,
  \<^verbatim>\<open>chosen_inline_result\<close>, \<^verbatim>\<open>chat_member\<close>, \<^verbatim>\<open>my_chat_member\<close> and
  \<^verbatim>\<open>chat_join_request\<close> of the Update, in this order, and then the message resolved from
  any message-bearing update. An Update that carries both \<^verbatim>\<open>callback_query.from\<close> and
  \<^verbatim>\<open>message.from\<close> resolves to the callback query's.
\<close>

theorem from_resolution_order:
  "from' ctx =
     (case first_defined
             [lookup (update ctx) ''callback_query'',
             lookup (update ctx) ''inline_query'',
             lookup (update ctx) ''shipping_query'',
             lookup (update ctx) ''pre_checkout_query'',
             lookup (update ctx) ''chosen_inline_result'',
             lookup (update ctx) ''chat_member'',
             lookup (update ctx) ''my_chat_member'',
             lookup (update ctx) ''chat_join_request'',
             getMessageFromAnySource ctx] of
        Some c \<Rightarrow> opt_member c ''from''
      | None \<Rightarrow> JUndefined) \<and>
   from' ctx =
     (case first_defined
             [lookup (update ctx) ''callback_query'',
             lookup (update ctx) ''inline_query'',
             lookup (update ctx) ''shipping_query'',
             lookup (update ctx) ''pre_checkout_query'',
             lookup (update ctx) ''chosen_inline_result'',
             lookup (update ctx) ''chat_member'',
             lookup (update ctx) ''my_chat_member'',
             lookup (update ctx) ''chat_join_request'',
             lookup (update ctx) ''message'',
             lookup (update ctx) ''edited_message'',
             opt_member (lookup (update ctx) ''callback_query'') ''message'',
             lookup (update ctx) ''channel_post'',
             lookup (update ctx) ''edited_channel_post''] of
        Some c \<Rightarrow> opt_member c ''from''
      | None \<Rightarrow> JUndefined) \<and>
   (opt_member (lookup (update ctx) ''callback_query'') ''from'' \<noteq> JUndefined \<and>
    opt_member (lookup (update ctx) ''message'') ''from'' \<noteq> JUndefined \<longrightarrow>
      from' ctx = opt_member (lookup (update ctx) ''callback_query'') ''from'')"
  using from_first_defined [of ctx] from_first_defined_field [of ctx]
    from_callback_query_first [of ctx]
  by blast

theorem from_resolution_order_witness:
  "opt_member (lookup (update \<lparr>update = [(''update_id'', JNum 7), (''message'', JObj [(''message_id'', JNum 3), (''from'', JObj [(''id'', JNum 1)])]), (''callback_query'', JObj [(''id'', JStr ''q''), (''from'', JObj [(''id'', JNum 2)])])], botInfo = JUndefined\<rparr>) ''callback_query'') ''from'' \<noteq> JUndefined \<and>
   opt_member (lookup (update \<lparr>update = [(''update_id'', JNum 7), (''message'', JObj [(''message_id'', JNum 3), (''from'', JObj [(''id'', JNum 1)])]), (''callback_query'', JObj [(''id'', JStr ''q''), (''from'', JObj [(''id'', JNum 2)])])], botInfo = JUndefined\<rparr>) ''message'') ''from'' \<noteq> JUndefined \<and>
   from' \<lparr>update = [(''update_id'', JNum 7), (''message'', JObj [(''message_id'', JNum 3), (''from'', JObj [(''id'', JNum 1)])]), (''callback_query'', JObj [(''id'', JStr ''q''), (''from'', JObj [(''id'', JNum 2)])])], botInfo = JUndefined\<rparr> = JObj [(''id'', JNum 2)] \<and>
   from' \<lparr>update = [(''update_id'', JNum 11), (''message'', JObj [(''message_id'', JNum 3), (''from'', JObj [(''id'', JNum 29)])]), (''chat_join_request'', JObj [(''from'', JObj [(''id'', JNum 28)])]), (''my_chat_member'', JObj [(''from'', JObj [(''id'', JNum 27)])]), (''chat_member'', JObj [(''from'', JObj [(''id'', JNum 26)])]), (''chosen_inline_result'', JObj [(''from'', JObj [(''id'', JNum 25)])]), (''pre_checkout_query'', JObj [(''from'', JObj [(''id'', JNum 24)])]), (''shipping_query'', JObj [(''from'', JObj [(''id'', JNum 23)])]), (''inline_query'', JObj [(''from'', JObj [(''id'', JNum 22)])]), (''callback_query'', JObj [(''from'', JObj [(''id'', JNum 21)])])], botInfo = JUndefined\<rparr> = JObj [(''id'', JNum 21)] \<and>
   from' \<lparr>update = [(''update_id'', JNum 11), (''message'', JObj [(''message_id'', JNum 3), (''from'', JObj [(''id'', JNum 29)])]), (''chat_join_request'', JObj [(''from'', JObj [(''id'', JNum 28)])]), (''my_chat_member'', JObj [(''from'', JObj [(''id'', JNum 27)])]), (''chat_member'', JObj [(''from'', JObj [(''id'', JNum 26)])]), (''chosen_inline_result'', JObj [(''from'', JObj [(''id'', JNum 25)])]), (''pre_checkout_query'', JObj [(''from'', JObj [(''id'', JNum 24)])]), (''shipping_query'', JObj [(''from'', JObj [(''id'', JNum 23)])]), (''inline_query'', JObj [(''from'', JObj [(''id'', JNum 22)])])], botInfo = JUndefined\<rparr> = JObj [(''id'', JNum 22)] \<and>
   from' \<lparr>update = [(''update_id'', JNum 11), (''message'', JObj [(''message_id'', JNum 3), (''from'', JObj [(''id'', JNum 29)])]), (''chat_join_request'', JObj [(''from'', JObj [(''id'', JNum 28)])]), (''my_chat_member'', JObj [(''from'', JObj [(''id'', JNum 27)])]), (''chat_member'', JObj [(''from'', JObj [(''id'', JNum 26)])]), (''chosen_inline_result'', JObj [(''from'', JObj [(''id'', JNum 25)])]), (''pre_checkout_query'', JObj [(''from'', JObj [(''id'', JNum 24)])]), (''shipping_query'', JObj [(''from'', JObj [(''id'', JNum 23)])])], botInfo = JUndefined\<rparr> = JObj [(''id'', JNum 23)] \<and>
   from' \<lparr>update = [(''update_id'', JNum 11), (''message'', JObj [(''message_id'', JNum 3), (''from'', JObj [(''id'', JNum 29)])]), (''chat_join_request'', JObj [(''from'', JObj [(''id'', JNum 28)])]), (''my_chat_member'', JObj [(''from'', JObj [(''id'', JNum 27)])]), (''chat_member'', JObj [(''from'', JObj [(''id'', JNum 26)])]), (''chosen_inline_result'', JObj [(''from'', JObj [(''id'', JNum 25)])]), (''pre_checkout_query'', JObj [(''from'', JObj [(''id'', JNum 24)])])], botInfo = JUndefined\<rparr> = JObj [(''id'', JNum 24)] \<and>
   from' \<lparr>update = [(''update_id'', JNum 11), (''message'', JObj [(''message_id'', JNum 3), (''from'', JObj [(''id'', JNum 29)])]), (''chat_join_request'', JObj [(''from'', JObj [(''id'', JNum 28)])]), (''my_chat_member'', JObj [(''from'', JObj [(''id'', JNum 27)])]), (''chat_member'', JObj [(''from'', JObj [(''id'', JNum 26)])]), (''chosen_inline_result'', JObj [(''from'', JObj [(''id'', JNum 25)])])], botInfo = JUndefined\<rparr> = JObj [(''id'', JNum 25)] \<and>
   from' \<lparr>update = [(''update_id'', JNum 11), (''message'', JObj [(''message_id'', JNum 3), (''from'', JObj [(''id'', JNum 29)])]), (''chat_join_request'', JObj [(''from'', JObj [(''id'', JNum 28)])]), (''my_chat_member'', JObj [(''from'', JObj [(''id'', JNum 27)])]), (''chat_member'', JObj [(''from'', JObj [(''id'', JNum 26)])])], botInfo = JUndefined\<rparr> = JObj [(''id'', JNum 26)] \<and>
   from' \<lparr>update = [(''update_id'', JNum 11), (''message'', JObj [(''message_id'', JNum 3), (''from'', JObj [(''id'', JNum 29)])]), (''chat_join_request'', JObj [(''from'', JObj [(''id'', JNum 28)])]), (''my_chat_member'', JObj [(''from'', JObj [(''id'', JNum 27)])])], botInfo = JUndefined\<rparr> = JObj [(''id'', JNum 27)] \<and>
   from' \<lparr>update = [(''update_id'', JNum 11), (''message'', JObj [(''message_id'', JNum 3), (''from'', JObj [(''id'', JNum 29)])]), (''chat_join_request'', JObj [(''from'', JObj [(''id'', JNum 28)])])], botInfo = JUndefined\<rparr> = JObj [(''id'', JNum 28)] \<and>
   from' \<lparr>update = [(''update_id'', JNum 11), (''message'', JObj [(''message_id'', JNum 3), (''from'', JObj [(''id'', JNum 29)])])], botInfo = JUndefined\<rparr> = JObj [(''id'', JNum 29)]"
proof -
  let ?c = "\<lparr>update = [(''update_id'', JNum 7), (''message'', JObj [(''message_id'', JNum 3), (''from'', JObj [(''id'', JNum 1)])]), (''callback_query'', JObj [(''id'', JStr ''q''), (''from'', JObj [(''id'', JNum 2)])])], botInfo = JUndefined\<rparr>"
  have q: "opt_member (lookup (update ?c) ''callback_query'') ''from'' = JObj [(''id'', JNum 2)]"
    by simp
  have m: "opt_member (lookup (update ?c) ''message'') ''from'' = JObj [(''id'', JNum 1)]"
    by simp
  have "from' ?c = opt_member (lookup (update ?c) ''callback_query'') ''from''"
    using from_resolution_order [of ?c, THEN conjunct2, THEN conjunct2] q m by simp
  with q have b: "from' ?c = JObj [(''id'', JNum 2)]"
    by simp
  have f0: "from' \<lparr>update = [(''update_id'', JNum 11), (''message'', JObj [(''message_id'', JNum 3), (''from'', JObj [(''id'', JNum 29)])]), (''chat_join_request'', JObj [(''from'', JObj [(''id'', JNum 28)])]), (''my_chat_member'', JObj [(''from'', JObj [(''id'', JNum 27)])]), (''chat_member'', JObj [(''from'', JObj [(''id'', JNum 26)])]), (''chosen_inline_result'', JObj [(''from'', JObj [(''id'', JNum 25)])]), (''pre_checkout_query'', JObj [(''from'', JObj [(''id'', JNum 24)])]), (''shipping_query'', JObj [(''from'', JObj [(''id'', JNum 23)])]), (''inline_query'', JObj [(''from'', JObj [(''id'', JNum 22)])]), (''callback_query'', JObj [(''from'', JObj [(''id'', JNum 21)])])], botInfo = JUndefined\<rparr> = JObj [(''id'', JNum 21)]"
    by (simp add: from_resolution_order [of "\<lparr>update = [(''update_id'', JNum 11), (''message'', JObj [(''message_id'', JNum 3), (''from'', JObj [(''id'', JNum 29)])]), (''chat_join_request'', JObj [(''from'', JObj [(''id'', JNum 28)])]), (''my_chat_member'', JObj [(''from'', JObj [(''id'', JNum 27)])]), (''chat_member'', JObj [(''from'', JObj [(''id'', JNum 26)])]), (''chosen_inline_result'', JObj [(''from'', JObj [(''id'', JNum 25)])]), (''pre_checkout_query'', JObj [(''from'', JObj [(''id'', JNum 24)])]), (''shipping_query'', JObj [(''from'', JObj [(''id'', JNum 23)])]), (''inline_query'', JObj [(''from'', JObj [(''id'', JNum 22)])]), (''callback_query'', JObj [(''from'', JObj [(''id'', JNum 21)])])], botInfo = JUndefined\<rparr>", THEN conjunct2, THEN conjunct1]
        first_defined_Cons)
  have f1: "from' \<lparr>update = [(''update_id'', JNum 11), (''message'', JObj [(''message_id'', JNum 3), (''from'', JObj [(''id'', JNum 29)])]), (''chat_join_request'', JObj [(''from'', JObj [(''id'', JNum 28)])]), (''my_chat_member'', JObj [(''from'', JObj [(''id'', JNum 27)])]), (''chat_member'', JObj [(''from'', JObj [(''id'', JNum 26)])]), (''chosen_inline_result'', JObj [(''from'', JObj [(''id'', JNum 25)])]), (''pre_checkout_query'', JObj [(''from'', JObj [(''id'', JNum 24)])]), (''shipping_query'', JObj [(''from'', JObj [(''id'', JNum 23)])]), (''inline_query'', JObj [(''from'', JObj [(''id'', JNum 22)])])], botInfo = JUndefined\<rparr> = JObj [(''id'', JNum 22)]"
    by (simp add: from_resolution_order [of "\<lparr>update = [(''update_id'', JNum 11), (''message'', JObj [(''message_id'', JNum 3), (''from'', JObj [(''id'', JNum 29)])]), (''chat_join_request'', JObj [(''from'', JObj [(''id'', JNum 28)])]), (''my_chat_member'', JObj [(''from'', JObj [(''id'', JNum 27)])]), (''chat_member'', JObj [(''from'', JObj [(''id'', JNum 26)])]), (''chosen_inline_result'', JObj [(''from'', JObj [(''id'', JNum 25)])]), (''pre_checkout_query'', JObj [(''from'', JObj [(''id'', JNum 24)])]), (''shipping_query'', JObj [(''from'', JObj [(''id'', JNum 23)])]), (''inline_query'', JObj [(''from'', JObj [(''id'', JNum 22)])])], botInfo = JUndefined\<rparr>", THEN conjunct2, THEN conjunct1]
        first_defined_Cons)
  have f2: "from' \<lparr>update = [(''update_id'', JNum 11), (''message'', JObj [(''message_id'', JNum 3), (''from'', JObj [(''id'', JNum 29)])]), (''chat_join_request'', JObj [(''from'', JObj [(''id'', JNum 28)])]), (''my_chat_member'', JObj [(''from'', JObj [(''id'', JNum 27)])]), (''chat_member'', JObj [(''from'', JObj [(''id'', JNum 26)])]), (''chosen_inline_result'', JObj [(''from'', JObj [(''id'', JNum 25)])]), (''pre_checkout_query'', JObj [(''from'', JObj [(''id'', JNum 24)])]), (''shipping_query'', JObj [(''from'', JObj [(''id'', JNum 23)])])], botInfo = JUndefined\<rparr> = JObj [(''id'', JNum 23)]"
    by (simp add: from_resolution_order [of "\<lparr>update = [(''update_id'', JNum 11), (''message'', JObj [(''message_id'', JNum 3), (''from'', JObj [(''id'', JNum 29)])]), (''chat_join_request'', JObj [(''from'', JObj [(''id'', JNum 28)])]), (''my_chat_member'', JObj [(''from'', JObj [(''id'', JNum 27)])]), (''chat_member'', JObj [(''from'', JObj [(''id'', JNum 26)])]), (''chosen_inline_result'', JObj [(''from'', JObj [(''id'', JNum 25)])]), (''pre_checkout_query'', JObj [(''from'', JObj [(''id'', JNum 24)])]), (''shipping_query'', JObj [(''from'', JObj [(''id'', JNum 23)])])], botInfo = JUndefined\<rparr>", THEN conjunct2, THEN conjunct1]
        first_defined_Cons)
  have f3: "from' \<lparr>update = [(''update_id'', JNum 11), (''message'', JObj [(''message_id'', JNum 3), (''from'', JObj [(''id'', JNum 29)])]), (''chat_join_request'', JObj [(''from'', JObj [(''id'', JNum 28)])]), (''my_chat_member'', JObj [(''from'', JObj [(''id'', JNum 27)])]), (''chat_member'', JObj [(''from'', JObj [(''id'', JNum 26)])]), (''chosen_inline_result'', JObj [(''from'', JObj [(''id'', JNum 25)])]), (''pre_checkout_query'', JObj [(''from'', JObj [(''id'', JNum 24)])])], botInfo = JUndefined\<rparr> = JObj [(''id'', JNum 24)]"
    by (simp add: from_resolution_order [of "\<lparr>update = [(''update_id'', JNum 11), (''message'', JObj [(''message_id'', JNum 3), (''from'', JObj [(''id'', JNum 29)])]), (''chat_join_request'', JObj [(''from'', JObj [(''id'', JNum 28)])]), (''my_chat_member'', JObj [(''from'', JObj [(''id'', JNum 27)])]), (''chat_member'', JObj [(''from'', JObj [(''id'', JNum 26)])]), (''chosen_inline_result'', JObj [(''from'', JObj [(''id'', JNum 25)])]), (''pre_checkout_query'', JObj [(''from'', JObj [(''id'', JNum 24)])])], botInfo = JUndefined\<rparr>", THEN conjunct2, THEN conjunct1]
        first_defined_Cons)
  have f4: "from' \<lparr>update = [(''update_id'', JNum 11), (''message'', JObj [(''message_id'', JNum 3), (''from'', JObj [(''id'', JNum 29)])]), (''chat_join_request'', JObj [(''from'', JObj [(''id'', JNum 28)])]), (''my_chat_member'', JObj [(''from'', JObj [(''id'', JNum 27)])]), (''chat_member'', JObj [(''from'', JObj [(''id'', JNum 26)])]), (''chosen_inline_result'', JObj [(''from'', JObj [(''id'', JNum 25)])])], botInfo = JUndefined\<rparr> = JObj [(''id'', JNum 25)]"
    by (simp add: from_resolution_order [of "\<lparr>update = [(''update_id'', JNum 11), (''message'', JObj [(''message_id'', JNum 3), (''from'', JObj [(''id'', JNum 29)])]), (''chat_join_request'', JObj [(''from'', JObj [(''id'', JNum 28)])]), (''my_chat_member'', JObj [(''from'', JObj [(''id'', JNum 27)])]), (''chat_member'', JObj [(''from'', JObj [(''id'', JNum 26)])]), (''chosen_inline_result'', JObj [(''from'', JObj [(''id'', JNum 25)])])], botInfo = JUndefined\<rparr>", THEN conjunct2, THEN conjunct1]
        first_defined_Cons)
  have f5: "from' \<lparr>update = [(''update_id'', JNum 11), (''message'', JObj [(''message_id'', JNum 3), (''from'', JObj [(''id'', JNum 29)])]), (''chat_join_request'', JObj [(''from'', JObj [(''id'', JNum 28)])]), (''my_chat_member'', JObj [(''from'', JObj [(''id'', JNum 27)])]), (''chat_member'', JObj [(''from'', JObj [(''id'', JNum 26)])])], botInfo = JUndefined\<rparr> = JObj [(''id'', JNum 26)]"
    by (simp add: from_resolution_order [of "\<lparr>update = [(''update_id'', JNum 11), (''message'', JObj [(''message_id'', JNum 3), (''from'', JObj [(''id'', JNum 29)])]), (''chat_join_request'', JObj [(''from'', JObj [(''id'', JNum 28)])]), (''my_chat_member'', JObj [(''from'', JObj [(''id'', JNum 27)])]), (''chat_member'', JObj [(''from'', JObj [(''id'', JNum 26)])])], botInfo = JUndefined\<rparr>", THEN conjunct2, THEN conjunct1]
        first_defined_Cons)
  have f6: "from' \<lparr>update = [(''update_id'', JNum 11), (''message'', JObj [(''message_id'', JNum 3), (''from'', JObj [(''id'', JNum 29)])]), (''chat_join_request'', JObj [(''from'', JObj [(''id'', JNum 28)])]), (''my_chat_member'', JObj [(''from'', JObj [(''id'', JNum 27)])])], botInfo = JUndefined\<rparr> = JObj [(''id'', JNum 27)]"
    by (simp add: from_resolution_order [of "\<lparr>update = [(''update_id'', JNum 11), (''message'', JObj [(''message_id'', JNum 3), (''from'', JObj [(''id'', JNum 29)])]), (''chat_join_request'', JObj [(''from'', JObj [(''id'', JNum 28)])]), (''my_chat_member'', JObj [(''from'', JObj [(''id'', JNum 27)])])], botInfo = JUndefined\<rparr>", THEN conjunct2, THEN conjunct1]
        first_defined_Cons)
  have f7: "from' \<lparr>update = [(''update_id'', JNum 11), (''message'', JObj [(''message_id'', JNum 3), (''from'', JObj [(''id'', JNum 29)])]), (''chat_join_request'', JObj [(''from'', JObj [(''id'', JNum 28)])])], botInfo = JUndefined\<rparr> = JObj [(''id'', JNum 28)]"
    by (simp add: from_resolution_order [of "\<lparr>update = [(''update_id'', JNum 11), (''message'', JObj [(''message_id'', JNum 3), (''from'', JObj [(''id'', JNum 29)])]), (''chat_join_request'', JObj [(''from'', JObj [(''id'', JNum 28)])])], botInfo = JUndefined\<rparr>", THEN conjunct2, THEN conjunct1]
        first_defined_Cons)
  have f8: "from' \<lparr>update = [(''update_id'', JNum 11), (''message'', JObj [(''message_id'', JNum 3), (''from'', JObj [(''id'', JNum 29)])])], botInfo = JUndefined\<rparr> = JObj [(''id'', JNum 29)]"
    by (simp add: from_resolution_order [of "\<lparr>update = [(''update_id'', JNum 11), (''message'', JObj [(''message_id'', JNum 3), (''from'', JObj [(''id'', JNum 29)])])], botInfo = JUndefined\<rparr>", THEN conjunct2, THEN conjunct1]
        first_defined_Cons)
  from q m b f0 f1 f2 f3 f4 f5 f6 f7 f8 show ?thesis by simp
qed

section \<open>Guarded delegation\<close>

lemma and_then_Inr: "and_then (Inr x) f = f x"
  by (simp add: and_then_def)

lemma and_then_Inl: "and_then (Inl e) f = Inl e"
  by (simp add: and_then_def)

lemma and_then_assert_missing:
  "and_then (assert ctx JUndefined method) f =
     (case updateType ctx of
        Inr kind \<Rightarrow> Inl (TypeError (usage_message method kind))
      | Inl e \<Rightarrow> Inl e)"
  by (simp add: assert_def and_then_def split: sum.split)

lemma assert_present: "v \<noteq> JUndefined \<Longrightarrow> assert ctx v method = Inr ()"
  by (simp add: assert_def)

lemma not_nullish_defined: "\<not> nullish v \<Longrightarrow> v \<noteq> JUndefined"
  by (cases v) simp_all

lemma getThreadId_value: "getThreadId msg = Inr (default_thread_id msg)"
proof (cases "truthy (opt_member msg ''is_topic_message'')")
  case True
  then have "\<not> nullish msg" by (cases msg) simp_all
  with True show ?thesis
    by (simp add: getThreadId_def default_thread_id_def get_member_defined)
next
  case False
  then show ?thesis by (simp add: getThreadId_def default_thread_id_def)
qed

lemma thread_id_message:
  "\<not> nullish (opt_member msg ''message_thread_id'') \<Longrightarrow> \<not> nullish msg"
  by (cases msg) simp_all

lemma member_chat_message: "\<not> nullish (opt_member v ''chat'') \<Longrightarrow> \<not> nullish v"
  by (cases v) simp_all

lemma outcome_unavailable:
  "(case updateType ctx of
      Inr kind \<Rightarrow> Inl (TypeError (usage_message method kind))
    | Inl e \<Rightarrow> Inl e) \<noteq> Inr c"
  by (simp split: sum.split)

lemma outcome_unavailable_isl:
  "isl (case updateType ctx of
      Inr kind \<Rightarrow> Inl (TypeError (usage_message method kind))
    | Inl e \<Rightarrow> (Inl e :: call result))"
  by (simp split: sum.split)

lemma inlineMessageId_inline_id: "inlineMessageId ctx = inline_id ctx"
  by (simp add: inlineMessageId_def inline_id_def callbackQuery_def chosenInlineResult_def
      coalesce_def first_defined_Cons first_defined_Nil opt_member_nullish)

lemma edit_guard_missing:
  "coalesce (lookup (update ctx) ''callback_query'') (inline_id ctx) = JUndefined \<longleftrightarrow>
   nullish (lookup (update ctx) ''callback_query'') \<and> inline_id ctx = JUndefined"
  by (auto simp: coalesce_def nullish_iff)

lemmas edit_guard_simps = inlineMessageId_inline_id callbackQuery_def

lemmas reply_simps = and_then_assert_missing and_then_Inr assert_present get_member_defined
  not_nullish_defined getThreadId_value telegram_def

lemmas guarded_simps = reply_simps usage_message_def message_def inlineQuery_def
  shippingQuery_def preCheckoutQuery_def callbackQuery_def



lemma guarded_weaken:
  assumes "guarded ctx method outcome missing resolved delegated"
    and "missing' \<Longrightarrow> missing" and "resolved' \<Longrightarrow> resolved"
  shows "guarded ctx method outcome missing' resolved' delegated"
  using assms by (auto simp: guarded_def)

subsection \<open>Object spread\<close>

lemma lookup_set_prop:
  "lookup (set_prop ps k v) key = (if key = k then v else lookup ps key)"
  by (induction ps) auto

lemma keys_set_prop: "fst ` set (set_prop ps k v) = insert k (fst ` set ps)"
  by (induction ps k v rule: set_prop.induct) auto

lemma lookup_spread_keys:
  "lookup (spread_keys target src keys) key =
     (if key \<in> set keys then lookup src key else lookup target key)"
  by (induction keys arbitrary: target) (auto simp: lookup_set_prop)

lemma keys_spread_keys:
  "fst ` set (spread_keys target src keys) = fst ` set target \<union> set keys"
  by (induction keys arbitrary: target) (simp_all add: keys_set_prop)

lemma lookup_spread: "lookup (spread target extra) key = merged_over extra target key"
  by (cases extra) (simp_all add: spread_def merged_over_def lookup_spread_keys)

text \<open>
  The order of the keys: an assignment to a key the object has keeps the key's place,
  an array index is placed before every name, and a new name is placed last.
\<close>

lemma set_prop_present: "set_prop ((k, w) # ps) k v = (k, v) # ps"
  by simp

lemma set_prop_index_first:
  "index_of key = Some i \<Longrightarrow> index_of k = None \<Longrightarrow>
   set_prop ((k, w) # ps) key v = (key, v) # (k, w) # ps"
  by (auto simp: precedes_def)

lemma set_prop_name_last:
  "index_of key = None \<Longrightarrow> key \<notin> fst ` set ps \<Longrightarrow> set_prop ps key v = ps @ [(key, v)]"
  by (induction ps) (auto simp: precedes_def)

lemma spread_index_first:
  "spread [(''message_thread_id'', thread)] (Some [(''7'', a), (''parse_mode'', b)]) =
     [(''7'', a), (''message_thread_id'', thread), (''parse_mode'', b)]"
  by (simp add: spread_def precedes_def index_of_def is_digit_def decimal_def)

lemma lookup_append:
  "lookup (ps @ qs) key = (if key \<in> fst ` set ps then lookup ps key else lookup qs key)"
  by (induction ps key rule: lookup.induct) auto

lemma merged_over_spread:
  "merged_over (Some (spread target extra)) defaults key =
     merged_over extra (target @ defaults) key"
  by (cases extra)
    (simp_all add: spread_def merged_over_def lookup_spread_keys keys_spread_keys lookup_append)

lemma reply_params:
  "lookup (spread [(''message_thread_id'', default_thread_id (message ctx))]
             (Some (spread [(''reply_to_message_id'',
                             opt_member (getMessageFromAnySource ctx) ''message_id'')] extra))) key =
   merged_over extra (reply_defaults ctx) key"
  by (simp only: lookup_spread merged_over_spread reply_defaults_def append.simps)

lemma reply_params_parse_mode:
  "lookup (spread [(''message_thread_id'', default_thread_id (message ctx))]
             (Some (spread [(''reply_to_message_id'',
                             opt_member (getMessageFromAnySource ctx) ''message_id'')]
                (Some (spread [(''parse_mode'', mode)] extra))))) key =
   merged_over extra ((''parse_mode'', mode) # reply_defaults ctx) key"
  by (simp only: lookup_spread merged_over_spread reply_defaults_def append.simps)

subsection \<open>Each guarded operation\<close>

lemma answerInlineQuery_guarded:
  "guarded ctx ''answerInlineQuery'' (answerInlineQuery ctx args)
     (lookup (update ctx) ''inline_query'' = JUndefined) (\<not> nullish (lookup (update ctx) ''inline_query''))
     (Call ''answerInlineQuery'' (opt_member (lookup (update ctx) ''inline_query'') ''id'' # args))"
  unfolding guarded_def answerInlineQuery_def by (simp add: guarded_simps split: sum.split)

lemma answerCbQuery_guarded:
  "guarded ctx ''answerCbQuery'' (answerCbQuery ctx args)
     (lookup (update ctx) ''callback_query'' = JUndefined) (\<not> nullish (lookup (update ctx) ''callback_query''))
     (Call ''answerCbQuery'' (opt_member (lookup (update ctx) ''callback_query'') ''id'' # args))"
  unfolding guarded_def answerCbQuery_def by (simp add: guarded_simps split: sum.split)

lemma answerGameQuery_guarded:
  "guarded ctx ''answerGameQuery'' (answerGameQuery ctx args)
     (lookup (update ctx) ''callback_query'' = JUndefined) (\<not> nullish (lookup (update ctx) ''callback_query''))
     (Call ''answerGameQuery'' (opt_member (lookup (update ctx) ''callback_query'') ''id'' # args))"
  unfolding guarded_def answerGameQuery_def by (simp add: guarded_simps split: sum.split)

lemma answerShippingQuery_guarded:
  "guarded ctx ''answerShippingQuery'' (answerShippingQuery ctx args)
     (lookup (update ctx) ''shipping_query'' = JUndefined) (\<not> nullish (lookup (update ctx) ''shipping_query''))
     (Call ''answerShippingQuery'' (opt_member (lookup (update ctx) ''shipping_query'') ''id'' # args))"
  unfolding guarded_def answerShippingQuery_def by (simp add: guarded_simps split: sum.split)

lemma answerPreCheckoutQuery_guarded:
  "guarded ctx ''answerPreCheckoutQuery'' (answerPreCheckoutQuery ctx args)
     (lookup (update ctx) ''pre_checkout_query'' = JUndefined) (\<not> nullish (lookup (update ctx) ''pre_checkout_query''))
     (Call ''answerPreCheckoutQuery'' (opt_member (lookup (update ctx) ''pre_checkout_query'') ''id'' # args))"
  unfolding guarded_def answerPreCheckoutQuery_def by (simp add: guarded_simps split: sum.split)

lemma editMessageText_guarded:
  "guarded ctx ''editMessageText'' (editMessageText ctx text extra')
     (nullish (lookup (update ctx) ''callback_query'') \<and> inline_id ctx = JUndefined)
     (\<not> nullish (lookup (update ctx) ''callback_query'') \<or> \<not> nullish (inline_id ctx))
     (Call ''editMessageText''
        ([opt_member (chat ctx) ''id'',
          opt_member (opt_member (lookup (update ctx) ''callback_query'') ''message'') ''message_id'',
          inline_id ctx] @ [text, extra']))"
  unfolding guarded_def editMessageText_def
  by (cases "nullish (lookup (update ctx) ''callback_query'')";
      cases "inline_id ctx = JUndefined")
    (auto simp: guarded_simps edit_guard_simps coalesce_nullish coalesce_defined
      split: sum.split)


lemma editMessageCaption_guarded:
  "guarded ctx ''editMessageCaption'' (editMessageCaption ctx caption extra')
     (nullish (lookup (update ctx) ''callback_query'') \<and> inline_id ctx = JUndefined)
     (\<not> nullish (lookup (update ctx) ''callback_query'') \<or> \<not> nullish (inline_id ctx))
     (Call ''editMessageCaption''
        ([opt_member (chat ctx) ''id'',
          opt_member (opt_member (lookup (update ctx) ''callback_query'') ''message'') ''message_id'',
          inline_id ctx] @ [caption, extra']))"
  unfolding guarded_def editMessageCaption_def
  by (cases "nullish (lookup (update ctx) ''callback_query'')";
      cases "inline_id ctx = JUndefined")
    (auto simp: guarded_simps edit_guard_simps coalesce_nullish coalesce_defined
      split: sum.split)


lemma editMessageMedia_guarded:
  "guarded ctx ''editMessageMedia'' (editMessageMedia ctx media extra')
     (nullish (lookup (update ctx) ''callback_query'') \<and> inline_id ctx = JUndefined)
     (\<not> nullish (lookup (update ctx) ''callback_query'') \<or> \<not> nullish (inline_id ctx))
     (Call ''editMessageMedia''
        ([opt_member (chat ctx) ''id'',
          opt_member (opt_member (lookup (update ctx) ''callback_query'') ''message'') ''message_id'',
          inline_id ctx] @ [media, extra']))"
  unfolding guarded_def editMessageMedia_def
  by (cases "nullish (lookup (update ctx) ''callback_query'')";
      cases "inline_id ctx = JUndefined")
    (auto simp: guarded_simps edit_guard_simps coalesce_nullish coalesce_defined
      split: sum.split)


lemma editMessageReplyMarkup_guarded:
  "guarded ctx ''editMessageReplyMarkup'' (editMessageReplyMarkup ctx markup)
     (nullish (lookup (update ctx) ''callback_query'') \<and> inline_id ctx = JUndefined)
     (\<not> nullish (lookup (update ctx) ''callback_query'') \<or> \<not> nullish (inline_id ctx))
     (Call ''editMessageReplyMarkup''
        ([opt_member (chat ctx) ''id'',
          opt_member (opt_member (lookup (update ctx) ''callback_query'') ''message'') ''message_id'',
          inline_id ctx] @ [markup]))"
  unfolding guarded_def editMessageReplyMarkup_def
  by (cases "nullish (lookup (update ctx) ''callback_query'')";
      cases "inline_id ctx = JUndefined")
    (auto simp: guarded_simps edit_guard_simps coalesce_nullish coalesce_defined
      split: sum.split)


lemma editMessageLiveLocation_guarded:
  "guarded ctx ''editMessageLiveLocation'' (editMessageLiveLocation ctx latitude longitude extra')
     (nullish (lookup (update ctx) ''callback_query'') \<and> inline_id ctx = JUndefined)
     (\<not> nullish (lookup (update ctx) ''callback_query'') \<or> \<not> nullish (inline_id ctx))
     (Call ''editMessageLiveLocation''
        ([opt_member (chat ctx) ''id'',
          opt_member (opt_member (lookup (update ctx) ''callback_query'') ''message'') ''message_id'',
          inline_id ctx] @ [latitude, longitude, extra']))"
  unfolding guarded_def editMessageLiveLocation_def
  by (cases "nullish (lookup (update ctx) ''callback_query'')";
      cases "inline_id ctx = JUndefined")
    (auto simp: guarded_simps edit_guard_simps coalesce_nullish coalesce_defined
      split: sum.split)


lemma stopMessageLiveLocation_guarded:
  "guarded ctx ''stopMessageLiveLocation'' (stopMessageLiveLocation ctx markup)
     (nullish (lookup (update ctx) ''callback_query'') \<and> inline_id ctx = JUndefined)
     (\<not> nullish (lookup (update ctx) ''callback_query'') \<or> \<not> nullish (inline_id ctx))
     (Call ''stopMessageLiveLocation''
        ([opt_member (chat ctx) ''id'',
          opt_member (opt_member (lookup (update ctx) ''callback_query'') ''message'') ''message_id'',
          inline_id ctx] @ [markup]))"
  unfolding guarded_def stopMessageLiveLocation_def
  by (cases "nullish (lookup (update ctx) ''callback_query'')";
      cases "inline_id ctx = JUndefined")
    (auto simp: guarded_simps edit_guard_simps coalesce_nullish coalesce_defined
      split: sum.split)


lemma sendMessage_guarded:
  "guarded ctx ''sendMessage'' (sendMessage ctx text extra)
     (chat ctx = JUndefined) (\<not> nullish (chat ctx))
     (Call ''sendMessage''
        [opt_member (chat ctx) ''id'', text,
         JObj (spread [(''message_thread_id'', default_thread_id (lookup (update ctx) ''message''))] extra)])"
  unfolding guarded_def sendMessage_def by (simp add: guarded_simps split: sum.split)

lemma reply_guarded:
  "guarded ctx ''sendMessage'' (reply ctx text extra)
     (chat ctx = JUndefined) (\<not> nullish (chat ctx))
     (Call ''sendMessage''
        [opt_member (chat ctx) ''id'', text,
         JObj (spread [(''message_thread_id'', default_thread_id (lookup (update ctx) ''message''))]
                (Some (spread [(''reply_to_message_id'', opt_member (getMessageFromAnySource ctx) ''message_id'')] extra)))])"
  unfolding guarded_def reply_def sendMessage_def Let_def
  by (simp add: guarded_simps split: sum.split)

lemma getChat_guarded:
  "guarded ctx ''getChat'' (getChat ctx args)
     (chat ctx = JUndefined) (\<not> nullish (chat ctx))
     (Call ''getChat'' (opt_member (chat ctx) ''id'' # args))"
  unfolding guarded_def getChat_def by (simp add: guarded_simps split: sum.split)

lemma exportChatInviteLink_guarded:
  "guarded ctx ''exportChatInviteLink'' (exportChatInviteLink ctx args)
     (chat ctx = JUndefined) (\<not> nullish (chat ctx))
     (Call ''exportChatInviteLink'' (opt_member (chat ctx) ''id'' # args))"
  unfolding guarded_def exportChatInviteLink_def by (simp add: guarded_simps split: sum.split)

lemma createChatInviteLink_guarded:
  "guarded ctx ''createChatInviteLink'' (createChatInviteLink ctx args)
     (chat ctx = JUndefined) (\<not> nullish (chat ctx))
     (Call ''createChatInviteLink'' (opt_member (chat ctx) ''id'' # args))"
  unfolding guarded_def createChatInviteLink_def by (simp add: guarded_simps split: sum.split)

lemma editChatInviteLink_guarded:
  "guarded ctx ''editChatInviteLink'' (editChatInviteLink ctx args)
     (chat ctx = JUndefined) (\<not> nullish (chat ctx))
     (Call ''editChatInviteLink'' (opt_member (chat ctx) ''id'' # args))"
  unfolding guarded_def editChatInviteLink_def by (simp add: guarded_simps split: sum.split)

lemma revokeChatInviteLink_guarded:
  "guarded ctx ''revokeChatInviteLink'' (revokeChatInviteLink ctx args)
     (chat ctx = JUndefined) (\<not> nullish (chat ctx))
     (Call ''revokeChatInviteLink'' (opt_member (chat ctx) ''id'' # args))"
  unfolding guarded_def revokeChatInviteLink_def by (simp add: guarded_simps split: sum.split)

lemma banChatMember_guarded:
  "guarded ctx ''banChatMember'' (banChatMember ctx args)
     (chat ctx = JUndefined) (\<not> nullish (chat ctx))
     (Call ''banChatMember'' (opt_member (chat ctx) ''id'' # args))"
  unfolding guarded_def banChatMember_def by (simp add: guarded_simps split: sum.split)

lemma unbanChatMember_guarded:
  "guarded ctx ''unbanChatMember'' (unbanChatMember ctx args)
     (chat ctx = JUndefined) (\<not> nullish (chat ctx))
     (Call ''unbanChatMember'' (opt_member (chat ctx) ''id'' # args))"
  unfolding guarded_def unbanChatMember_def by (simp add: guarded_simps split: sum.split)

lemma restrictChatMember_guarded:
  "guarded ctx ''restrictChatMember'' (restrictChatMember ctx args)
     (chat ctx = JUndefined) (\<not> nullish (chat ctx))
     (Call ''restrictChatMember'' (opt_member (chat ctx) ''id'' # args))"
  unfolding guarded_def restrictChatMember_def by (simp add: guarded_simps split: sum.split)

lemma promoteChatMember_guarded:
  "guarded ctx ''promoteChatMember'' (promoteChatMember ctx args)
     (chat ctx = JUndefined) (\<not> nullish (chat ctx))
     (Call ''promoteChatMember'' (opt_member (chat ctx) ''id'' # args))"
  unfolding guarded_def promoteChatMember_def by (simp add: guarded_simps split: sum.split)

lemma setChatAdministratorCustomTitle_guarded:
  "guarded ctx ''setChatAdministratorCustomTitle'' (setChatAdministratorCustomTitle ctx args)
     (chat ctx = JUndefined) (\<not> nullish (chat ctx))
     (Call ''setChatAdministratorCustomTitle'' (opt_member (chat ctx) ''id'' # args))"
  unfolding guarded_def setChatAdministratorCustomTitle_def by (simp add: guarded_simps split: sum.split)

lemma setChatPhoto_guarded:
  "guarded ctx ''setChatPhoto'' (setChatPhoto ctx args)
     (chat ctx = JUndefined) (\<not> nullish (chat ctx))
     (Call ''setChatPhoto'' (opt_member (chat ctx) ''id'' # args))"
  unfolding guarded_def setChatPhoto_def by (simp add: guarded_simps split: sum.split)

lemma deleteChatPhoto_guarded:
  "guarded ctx ''deleteChatPhoto'' (deleteChatPhoto ctx args)
     (chat ctx = JUndefined) (\<not> nullish (chat ctx))
     (Call ''deleteChatPhoto'' (opt_member (chat ctx) ''id'' # args))"
  unfolding guarded_def deleteChatPhoto_def by (simp add: guarded_simps split: sum.split)

lemma setChatTitle_guarded:
  "guarded ctx ''setChatTitle'' (setChatTitle ctx args)
     (chat ctx = JUndefined) (\<not> nullish (chat ctx))
     (Call ''setChatTitle'' (opt_member (chat ctx) ''id'' # args))"
  unfolding guarded_def setChatTitle_def by (simp add: guarded_simps split: sum.split)

lemma setChatDescription_guarded:
  "guarded ctx ''setChatDescription'' (setChatDescription ctx args)
     (chat ctx = JUndefined) (\<not> nullish (chat ctx))
     (Call ''setChatDescription'' (opt_member (chat ctx) ''id'' # args))"
  unfolding guarded_def setChatDescription_def by (simp add: guarded_simps split: sum.split)

lemma pinChatMessage_guarded:
  "guarded ctx ''pinChatMessage'' (pinChatMessage ctx args)
     (chat ctx = JUndefined) (\<not> nullish (chat ctx))
     (Call ''pinChatMessage'' (opt_member (chat ctx) ''id'' # args))"
  unfolding guarded_def pinChatMessage_def by (simp add: guarded_simps split: sum.split)

lemma unpinChatMessage_guarded:
  "guarded ctx ''unpinChatMessage'' (unpinChatMessage ctx args)
     (chat ctx = JUndefined) (\<not> nullish (chat ctx))
     (Call ''unpinChatMessage'' (opt_member (chat ctx) ''id'' # args))"
  unfolding guarded_def unpinChatMessage_def by (simp add: guarded_simps split: sum.split)

lemma unpinAllChatMessages_guarded:
  "guarded ctx ''unpinAllChatMessages'' (unpinAllChatMessages ctx args)
     (chat ctx = JUndefined) (\<not> nullish (chat ctx))
     (Call ''unpinAllChatMessages'' (opt_member (chat ctx) ''id'' # args))"
  unfolding guarded_def unpinAllChatMessages_def by (simp add: guarded_simps split: sum.split)

lemma leaveChat_guarded:
  "guarded ctx ''leaveChat'' (leaveChat ctx args)
     (chat ctx = JUndefined) (\<not> nullish (chat ctx))
     (Call ''leaveChat'' (opt_member (chat ctx) ''id'' # args))"
  unfolding guarded_def leaveChat_def by (simp add: guarded_simps split: sum.split)

lemma setChatPermissions_guarded:
  "guarded ctx ''setChatPermissions'' (setChatPermissions ctx args)
     (chat ctx = JUndefined) (\<not> nullish (chat ctx))
     (Call ''setChatPermissions'' (opt_member (chat ctx) ''id'' # args))"
  unfolding guarded_def setChatPermissions_def by (simp add: guarded_simps split: sum.split)

lemma getChatAdministrators_guarded:
  "guarded ctx ''getChatAdministrators'' (getChatAdministrators ctx args)
     (chat ctx = JUndefined) (\<not> nullish (chat ctx))
     (Call ''getChatAdministrators'' (opt_member (chat ctx) ''id'' # args))"
  unfolding guarded_def getChatAdministrators_def by (simp add: guarded_simps split: sum.split)

lemma getChatMember_guarded:
  "guarded ctx ''getChatMember'' (getChatMember ctx args)
     (chat ctx = JUndefined) (\<not> nullish (chat ctx))
     (Call ''getChatMember'' (opt_member (chat ctx) ''id'' # args))"
  unfolding guarded_def getChatMember_def by (simp add: guarded_simps split: sum.split)

lemma getChatMembersCount_guarded:
  "guarded ctx ''getChatMembersCount'' (getChatMembersCount ctx args)
     (chat ctx = JUndefined) (\<not> nullish (chat ctx))
     (Call ''getChatMembersCount'' (opt_member (chat ctx) ''id'' # args))"
  unfolding guarded_def getChatMembersCount_def by (simp add: guarded_simps split: sum.split)

lemma setPassportDataErrors_guarded:
  "guarded ctx ''setPassportDataErrors'' (setPassportDataErrors ctx errors)
     (from' ctx = JUndefined) (\<not> nullish (from' ctx))
     (Call ''setPassportDataErrors'' [opt_member (from' ctx) ''id'', errors])"
  unfolding guarded_def setPassportDataErrors_def by (simp add: guarded_simps split: sum.split)

lemma sendPhoto_guarded:
  "guarded ctx ''sendPhoto'' (sendPhoto ctx photo extra)
     (chat ctx = JUndefined) (\<not> nullish (chat ctx))
     (Call ''sendPhoto''
        [opt_member (chat ctx) ''id'', photo,
         JObj (spread [(''message_thread_id'', default_thread_id (lookup (update ctx) ''message''))] extra)])"
  unfolding guarded_def sendPhoto_def by (simp add: guarded_simps split: sum.split)

lemma replyWithPhoto_guarded:
  "guarded ctx ''sendPhoto'' (replyWithPhoto ctx photo extra)
     (chat ctx = JUndefined) (\<not> nullish (chat ctx))
     (Call ''sendPhoto''
        [opt_member (chat ctx) ''id'', photo,
         JObj (spread [(''message_thread_id'', default_thread_id (lookup (update ctx) ''message''))]
                (Some (spread [(''reply_to_message_id'', opt_member (getMessageFromAnySource ctx) ''message_id'')] extra)))])"
  unfolding guarded_def replyWithPhoto_def sendPhoto_def Let_def
  by (simp add: guarded_simps split: sum.split)

lemma sendMediaGroup_guarded:
  "guarded ctx ''sendMediaGroup'' (sendMediaGroup ctx media extra)
     (chat ctx = JUndefined) (\<not> nullish (chat ctx))
     (Call ''sendMediaGroup''
        [opt_member (chat ctx) ''id'', media,
         JObj (spread [(''message_thread_id'', default_thread_id (lookup (update ctx) ''message''))] extra)])"
  unfolding guarded_def sendMediaGroup_def by (simp add: guarded_simps split: sum.split)

lemma replyWithMediaGroup_guarded:
  "guarded ctx ''sendMediaGroup'' (replyWithMediaGroup ctx media extra)
     (chat ctx = JUndefined) (\<not> nullish (chat ctx))
     (Call ''sendMediaGroup''
        [opt_member (chat ctx) ''id'', media,
         JObj (spread [(''message_thread_id'', default_thread_id (lookup (update ctx) ''message''))]
                (Some (spread [(''reply_to_message_id'', opt_member (getMessageFromAnySource ctx) ''message_id'')] extra)))])"
  unfolding guarded_def replyWithMediaGroup_def sendMediaGroup_def Let_def
  by (simp add: guarded_simps split: sum.split)

lemma sendAudio_guarded:
  "guarded ctx ''sendAudio'' (sendAudio ctx audio extra)
     (chat ctx = JUndefined) (\<not> nullish (chat ctx))
     (Call ''sendAudio''
        [opt_member (chat ctx) ''id'', audio,
         JObj (spread [(''message_thread_id'', default_thread_id (lookup (update ctx) ''message''))] extra)])"
  unfolding guarded_def sendAudio_def by (simp add: guarded_simps split: sum.split)

lemma replyWithAudio_guarded:
  "guarded ctx ''sendAudio'' (replyWithAudio ctx audio extra)
     (chat ctx = JUndefined) (\<not> nullish (chat ctx))
     (Call ''sendAudio''
        [opt_member (chat ctx) ''id'', audio,
         JObj (spread [(''message_thread_id'', default_thread_id (lookup (update ctx) ''message''))]
                (Some (spread [(''reply_to_message_id'', opt_member (getMessageFromAnySource ctx) ''message_id'')] extra)))])"
  unfolding guarded_def replyWithAudio_def sendAudio_def Let_def
  by (simp add: guarded_simps split: sum.split)

lemma sendDice_guarded:
  "guarded ctx ''sendDice'' (sendDice ctx extra)
     (chat ctx = JUndefined) (\<not> nullish (chat ctx))
     (Call ''sendDice''
        [opt_member (chat ctx) ''id'',
         JObj (spread [(''message_thread_id'', default_thread_id (lookup (update ctx) ''message''))] extra)])"
  unfolding guarded_def sendDice_def by (simp add: guarded_simps split: sum.split)

lemma replyWithDice_guarded:
  "guarded ctx ''sendDice'' (replyWithDice ctx extra)
     (chat ctx = JUndefined) (\<not> nullish (chat ctx))
     (Call ''sendDice''
        [opt_member (chat ctx) ''id'',
         JObj (spread [(''message_thread_id'', default_thread_id (lookup (update ctx) ''message''))]
                (Some (spread [(''reply_to_message_id'', opt_member (getMessageFromAnySource ctx) ''message_id'')] extra)))])"
  unfolding guarded_def replyWithDice_def sendDice_def Let_def
  by (simp add: guarded_simps split: sum.split)

lemma sendDocument_guarded:
  "guarded ctx ''sendDocument'' (sendDocument ctx document extra)
     (chat ctx = JUndefined) (\<not> nullish (chat ctx))
     (Call ''sendDocument''
        [opt_member (chat ctx) ''id'', document,
         JObj (spread [(''message_thread_id'', default_thread_id (lookup (update ctx) ''message''))] extra)])"
  unfolding guarded_def sendDocument_def by (simp add: guarded_simps split: sum.split)

lemma replyWithDocument_guarded:
  "guarded ctx ''sendDocument'' (replyWithDocument ctx document extra)
     (chat ctx = JUndefined) (\<not> nullish (chat ctx))
     (Call ''sendDocument''
        [opt_member (chat ctx) ''id'', document,
         JObj (spread [(''message_thread_id'', default_thread_id (lookup (update ctx) ''message''))]
                (Some (spread [(''reply_to_message_id'', opt_member (getMessageFromAnySource ctx) ''message_id'')] extra)))])"
  unfolding guarded_def replyWithDocument_def sendDocument_def Let_def
  by (simp add: guarded_simps split: sum.split)

lemma sendSticker_guarded:
  "guarded ctx ''sendSticker'' (sendSticker ctx sticker extra)
     (chat ctx = JUndefined) (\<not> nullish (chat ctx))
     (Call ''sendSticker''
        [opt_member (chat ctx) ''id'', sticker,
         JObj (spread [(''message_thread_id'', default_thread_id (lookup (update ctx) ''message''))] extra)])"
  unfolding guarded_def sendSticker_def by (simp add: guarded_simps split: sum.split)

lemma replyWithSticker_guarded:
  "guarded ctx ''sendSticker'' (replyWithSticker ctx sticker extra)
     (chat ctx = JUndefined) (\<not> nullish (chat ctx))
     (Call ''sendSticker''
        [opt_member (chat ctx) ''id'', sticker,
         JObj (spread [(''message_thread_id'', default_thread_id (lookup (update ctx) ''message''))]
                (Some (spread [(''reply_to_message_id'', opt_member (getMessageFromAnySource ctx) ''message_id'')] extra)))])"
  unfolding guarded_def replyWithSticker_def sendSticker_def Let_def
  by (simp add: guarded_simps split: sum.split)

lemma sendVideo_guarded:
  "guarded ctx ''sendVideo'' (sendVideo ctx video extra)
     (chat ctx = JUndefined) (\<not> nullish (chat ctx))
     (Call ''sendVideo''
        [opt_member (chat ctx) ''id'', video,
         JObj (spread [(''message_thread_id'', default_thread_id (lookup (update ctx) ''message''))] extra)])"
  unfolding guarded_def sendVideo_def by (simp add: guarded_simps split: sum.split)

lemma replyWithVideo_guarded:
  "guarded ctx ''sendVideo'' (replyWithVideo ctx video extra)
     (chat ctx = JUndefined) (\<not> nullish (chat ctx))
     (Call ''sendVideo''
        [opt_member (chat ctx) ''id'', video,
         JObj (spread [(''message_thread_id'', default_thread_id (lookup (update ctx) ''message''))]
                (Some (spread [(''reply_to_message_id'', opt_member (getMessageFromAnySource ctx) ''message_id'')] extra)))])"
  unfolding guarded_def replyWithVideo_def sendVideo_def Let_def
  by (simp add: guarded_simps split: sum.split)

lemma sendAnimation_guarded:
  "guarded ctx ''sendAnimation'' (sendAnimation ctx animation extra)
     (chat ctx = JUndefined) (\<not> nullish (chat ctx))
     (Call ''sendAnimation''
        [opt_member (chat ctx) ''id'', animation,
         JObj (spread [(''message_thread_id'', default_thread_id (lookup (update ctx) ''message''))] extra)])"
  unfolding guarded_def sendAnimation_def by (simp add: guarded_simps split: sum.split)

lemma replyWithAnimation_guarded:
  "guarded ctx ''sendAnimation'' (replyWithAnimation ctx animation extra)
     (chat ctx = JUndefined) (\<not> nullish (chat ctx))
     (Call ''sendAnimation''
        [opt_member (chat ctx) ''id'', animation,
         JObj (spread [(''message_thread_id'', default_thread_id (lookup (update ctx) ''message''))]
                (Some (spread [(''reply_to_message_id'', opt_member (getMessageFromAnySource ctx) ''message_id'')] extra)))])"
  unfolding guarded_def replyWithAnimation_def sendAnimation_def Let_def
  by (simp add: guarded_simps split: sum.split)

lemma sendVideoNote_guarded:
  "guarded ctx ''sendVideoNote'' (sendVideoNote ctx videoNote extra)
     (chat ctx = JUndefined) (\<not> nullish (chat ctx))
     (Call ''sendVideoNote''
        [opt_member (chat ctx) ''id'', videoNote,
         JObj (spread [(''message_thread_id'', default_thread_id (lookup (update ctx) ''message''))] extra)])"
  unfolding guarded_def sendVideoNote_def by (simp add: guarded_simps split: sum.split)

lemma replyWithVideoNote_guarded:
  "guarded ctx ''sendVideoNote'' (replyWithVideoNote ctx videoNote extra)
     (chat ctx = JUndefined) (\<not> nullish (chat ctx))
     (Call ''sendVideoNote''
        [opt_member (chat ctx) ''id'', videoNote,
         JObj (spread [(''message_thread_id'', default_thread_id (lookup (update ctx) ''message''))]
                (Some (spread [(''reply_to_message_id'', opt_member (getMessageFromAnySource ctx) ''message_id'')] extra)))])"
  unfolding guarded_def replyWithVideoNote_def sendVideoNote_def Let_def
  by (simp add: guarded_simps split: sum.split)

lemma sendInvoice_guarded:
  "guarded ctx ''sendInvoice'' (sendInvoice ctx invoice extra)
     (chat ctx = JUndefined) (\<not> nullish (chat ctx))
     (Call ''sendInvoice''
        [opt_member (chat ctx) ''id'', invoice,
         JObj (spread [(''message_thread_id'', default_thread_id (lookup (update ctx) ''message''))] extra)])"
  unfolding guarded_def sendInvoice_def by (simp add: guarded_simps split: sum.split)

lemma replyWithInvoice_guarded:
  "guarded ctx ''sendInvoice'' (replyWithInvoice ctx invoice extra)
     (chat ctx = JUndefined) (\<not> nullish (chat ctx))
     (Call ''sendInvoice''
        [opt_member (chat ctx) ''id'', invoice,
         JObj (spread [(''message_thread_id'', default_thread_id (lookup (update ctx) ''message''))]
                (Some (spread [(''reply_to_message_id'', opt_member (getMessageFromAnySource ctx) ''message_id'')] extra)))])"
  unfolding guarded_def replyWithInvoice_def sendInvoice_def Let_def
  by (simp add: guarded_simps split: sum.split)

lemma sendGame_guarded:
  "guarded ctx ''sendGame'' (sendGame ctx game extra)
     (chat ctx = JUndefined) (\<not> nullish (chat ctx))
     (Call ''sendGame''
        [opt_member (chat ctx) ''id'', game,
         JObj (spread [(''message_thread_id'', default_thread_id (lookup (update ctx) ''message''))] extra)])"
  unfolding guarded_def sendGame_def by (simp add: guarded_simps split: sum.split)

lemma replyWithGame_guarded:
  "guarded ctx ''sendGame'' (replyWithGame ctx gameName extra)
     (chat ctx = JUndefined) (\<not> nullish (chat ctx))
     (Call ''sendGame''
        [opt_member (chat ctx) ''id'', gameName,
         JObj (spread [(''message_thread_id'', default_thread_id (lookup (update ctx) ''message''))]
                (Some (spread [(''reply_to_message_id'', opt_member (getMessageFromAnySource ctx) ''message_id'')] extra)))])"
  unfolding guarded_def replyWithGame_def sendGame_def Let_def
  by (simp add: guarded_simps split: sum.split)

lemma sendVoice_guarded:
  "guarded ctx ''sendVoice'' (sendVoice ctx voice extra)
     (chat ctx = JUndefined) (\<not> nullish (chat ctx))
     (Call ''sendVoice''
        [opt_member (chat ctx) ''id'', voice,
         JObj (spread [(''message_thread_id'', default_thread_id (lookup (update ctx) ''message''))] extra)])"
  unfolding guarded_def sendVoice_def by (simp add: guarded_simps split: sum.split)

lemma replyWithVoice_guarded:
  "guarded ctx ''sendVoice'' (replyWithVoice ctx voice extra)
     (chat ctx = JUndefined) (\<not> nullish (chat ctx))
     (Call ''sendVoice''
        [opt_member (chat ctx) ''id'', voice,
         JObj (spread [(''message_thread_id'', default_thread_id (lookup (update ctx) ''message''))]
                (Some (spread [(''reply_to_message_id'', opt_member (getMessageFromAnySource ctx) ''message_id'')] extra)))])"
  unfolding guarded_def replyWithVoice_def sendVoice_def Let_def
  by (simp add: guarded_simps split: sum.split)

lemma sendPoll_guarded:
  "guarded ctx ''sendPoll'' (sendPoll ctx poll_question options extra)
     (chat ctx = JUndefined) (\<not> nullish (chat ctx))
     (Call ''sendPoll''
        [opt_member (chat ctx) ''id'', poll_question, options,
         JObj (spread [(''message_thread_id'', default_thread_id (lookup (update ctx) ''message''))] extra)])"
  unfolding guarded_def sendPoll_def by (simp add: guarded_simps split: sum.split)

lemma replyWithPoll_guarded:
  "guarded ctx ''sendPoll'' (replyWithPoll ctx question options extra)
     (chat ctx = JUndefined) (\<not> nullish (chat ctx))
     (Call ''sendPoll''
        [opt_member (chat ctx) ''id'', question, options,
         JObj (spread [(''message_thread_id'', default_thread_id (lookup (update ctx) ''message''))]
                (Some (spread [(''reply_to_message_id'', opt_member (getMessageFromAnySource ctx) ''message_id'')] extra)))])"
  unfolding guarded_def replyWithPoll_def sendPoll_def Let_def
  by (simp add: guarded_simps split: sum.split)

lemma sendQuiz_guarded:
  "guarded ctx ''sendQuiz'' (sendQuiz ctx quiz options extra)
     (chat ctx = JUndefined) (\<not> nullish (chat ctx))
     (Call ''sendQuiz''
        [opt_member (chat ctx) ''id'', quiz, options,
         JObj (spread [(''message_thread_id'', default_thread_id (lookup (update ctx) ''message''))] extra)])"
  unfolding guarded_def sendQuiz_def by (simp add: guarded_simps split: sum.split)

lemma replyWithQuiz_guarded:
  "guarded ctx ''sendQuiz'' (replyWithQuiz ctx question options extra)
     (chat ctx = JUndefined) (\<not> nullish (chat ctx))
     (Call ''sendQuiz''
        [opt_member (chat ctx) ''id'', question, options,
         JObj (spread [(''message_thread_id'', default_thread_id (lookup (update ctx) ''message''))]
                (Some (spread [(''reply_to_message_id'', opt_member (getMessageFromAnySource ctx) ''message_id'')] extra)))])"
  unfolding guarded_def replyWithQuiz_def sendQuiz_def Let_def
  by (simp add: guarded_simps split: sum.split)

lemma stopPoll_guarded:
  "guarded ctx ''stopPoll'' (stopPoll ctx args)
     (chat ctx = JUndefined) (\<not> nullish (chat ctx))
     (Call ''stopPoll'' (opt_member (chat ctx) ''id'' # args))"
  unfolding guarded_def stopPoll_def by (simp add: guarded_simps split: sum.split)

lemma sendChatAction_guarded:
  "guarded ctx ''sendChatAction'' (sendChatAction ctx args)
     (chat ctx = JUndefined) (\<not> nullish (chat ctx))
     (Call ''sendChatAction'' (opt_member (chat ctx) ''id'' # args))"
  unfolding guarded_def sendChatAction_def by (simp add: guarded_simps split: sum.split)

lemma sendLocation_guarded:
  "guarded ctx ''sendLocation'' (sendLocation ctx latitude longitude extra)
     (chat ctx = JUndefined) (\<not> nullish (chat ctx))
     (Call ''sendLocation''
        [opt_member (chat ctx) ''id'', latitude, longitude,
         JObj (spread [(''message_thread_id'', default_thread_id (lookup (update ctx) ''message''))] extra)])"
  unfolding guarded_def sendLocation_def by (simp add: guarded_simps split: sum.split)

lemma replyWithLocation_guarded:
  "guarded ctx ''sendLocation'' (replyWithLocation ctx latitude longitude extra)
     (chat ctx = JUndefined) (\<not> nullish (chat ctx))
     (Call ''sendLocation''
        [opt_member (chat ctx) ''id'', latitude, longitude,
         JObj (spread [(''message_thread_id'', default_thread_id (lookup (update ctx) ''message''))]
                (Some (spread [(''reply_to_message_id'', opt_member (getMessageFromAnySource ctx) ''message_id'')] extra)))])"
  unfolding guarded_def replyWithLocation_def sendLocation_def Let_def
  by (simp add: guarded_simps split: sum.split)

lemma sendVenue_guarded:
  "guarded ctx ''sendVenue'' (sendVenue ctx latitude longitude title address extra)
     (chat ctx = JUndefined) (\<not> nullish (chat ctx))
     (Call ''sendVenue''
        [opt_member (chat ctx) ''id'', latitude, longitude, title, address,
         JObj (spread [(''message_thread_id'', default_thread_id (lookup (update ctx) ''message''))] extra)])"
  unfolding guarded_def sendVenue_def by (simp add: guarded_simps split: sum.split)

lemma replyWithVenue_guarded:
  "guarded ctx ''sendVenue'' (replyWithVenue ctx latitude longitude title address extra)
     (chat ctx = JUndefined) (\<not> nullish (chat ctx))
     (Call ''sendVenue''
        [opt_member (chat ctx) ''id'', latitude, longitude, title, address,
         JObj (spread [(''message_thread_id'', default_thread_id (lookup (update ctx) ''message''))]
                (Some (spread [(''reply_to_message_id'', opt_member (getMessageFromAnySource ctx) ''message_id'')] extra)))])"
  unfolding guarded_def replyWithVenue_def sendVenue_def Let_def
  by (simp add: guarded_simps split: sum.split)

lemma sendContact_guarded:
  "guarded ctx ''sendContact'' (sendContact ctx phoneNumber firstName extra)
     (chat ctx = JUndefined) (\<not> nullish (chat ctx))
     (Call ''sendContact''
        [opt_member (chat ctx) ''id'', phoneNumber, firstName,
         JObj (spread [(''message_thread_id'', default_thread_id (lookup (update ctx) ''message''))] extra)])"
  unfolding guarded_def sendContact_def by (simp add: guarded_simps split: sum.split)

lemma replyWithContact_guarded:
  "guarded ctx ''sendContact'' (replyWithContact ctx phoneNumber firstName extra)
     (chat ctx = JUndefined) (\<not> nullish (chat ctx))
     (Call ''sendContact''
        [opt_member (chat ctx) ''id'', phoneNumber, firstName,
         JObj (spread [(''message_thread_id'', default_thread_id (lookup (update ctx) ''message''))]
                (Some (spread [(''reply_to_message_id'', opt_member (getMessageFromAnySource ctx) ''message_id'')] extra)))])"
  unfolding guarded_def replyWithContact_def sendContact_def Let_def
  by (simp add: guarded_simps split: sum.split)

lemma setChatStickerSet_guarded:
  "guarded ctx ''setChatStickerSet'' (setChatStickerSet ctx setName)
     (chat ctx = JUndefined) (\<not> nullish (chat ctx))
     (Call ''setChatStickerSet'' [opt_member (chat ctx) ''id'', setName])"
  unfolding guarded_def setChatStickerSet_def by (simp add: guarded_simps split: sum.split)

lemma deleteChatStickerSet_guarded:
  "guarded ctx ''deleteChatStickerSet'' (deleteChatStickerSet ctx)
     (chat ctx = JUndefined) (\<not> nullish (chat ctx))
     (Call ''deleteChatStickerSet'' [opt_member (chat ctx) ''id''])"
  unfolding guarded_def deleteChatStickerSet_def by (simp add: guarded_simps split: sum.split)

lemma createForumTopic_guarded:
  "guarded ctx ''createForumTopic'' (createForumTopic ctx args)
     (chat ctx = JUndefined) (\<not> nullish (chat ctx))
     (Call ''createForumTopic'' (opt_member (chat ctx) ''id'' # args))"
  unfolding guarded_def createForumTopic_def by (simp add: guarded_simps split: sum.split)

lemma editForumTopic_guarded:
  "guarded ctx ''editForumTopic'' (editForumTopic ctx extra')
     (chat ctx = JUndefined \<or> opt_member (lookup (update ctx) ''message'') ''message_thread_id'' = JUndefined)
     (\<not> nullish (chat ctx) \<and>
      \<not> nullish (opt_member (lookup (update ctx) ''message'') ''message_thread_id''))
     (Call ''editForumTopic''
        [opt_member (chat ctx) ''id'', opt_member (lookup (update ctx) ''message'') ''message_thread_id'', extra'])"
  unfolding guarded_def editForumTopic_def
  by (cases "chat ctx = JUndefined")
    (auto simp: guarded_simps thread_id_message split: sum.split)

lemma editForumTopic_guarded_chat:
  "guarded ctx ''editForumTopic'' (editForumTopic ctx extra')
     (chat ctx = JUndefined)
     (\<not> nullish (chat ctx) \<and>
      \<not> nullish (opt_member (lookup (update ctx) ''message'') ''message_thread_id''))
     (Call ''editForumTopic''
        [opt_member (chat ctx) ''id'', opt_member (lookup (update ctx) ''message'') ''message_thread_id'', extra'])"
  by (rule guarded_weaken [OF editForumTopic_guarded]) simp_all

lemma editForumTopic_guarded_thread:
  "guarded ctx ''editForumTopic'' (editForumTopic ctx extra')
     (opt_member (lookup (update ctx) ''message'') ''message_thread_id'' = JUndefined)
     (\<not> nullish (chat ctx) \<and>
      \<not> nullish (opt_member (lookup (update ctx) ''message'') ''message_thread_id''))
     (Call ''editForumTopic''
        [opt_member (chat ctx) ''id'', opt_member (lookup (update ctx) ''message'') ''message_thread_id'', extra'])"
  by (rule guarded_weaken [OF editForumTopic_guarded]) simp_all

lemma closeForumTopic_guarded:
  "guarded ctx ''closeForumTopic'' (closeForumTopic ctx)
     (chat ctx = JUndefined \<or> opt_member (lookup (update ctx) ''message'') ''message_thread_id'' = JUndefined)
     (\<not> nullish (chat ctx) \<and>
      \<not> nullish (opt_member (lookup (update ctx) ''message'') ''message_thread_id''))
     (Call ''closeForumTopic''
        [opt_member (chat ctx) ''id'', opt_member (lookup (update ctx) ''message'') ''message_thread_id''])"
  unfolding guarded_def closeForumTopic_def
  by (cases "chat ctx = JUndefined")
    (auto simp: guarded_simps thread_id_message split: sum.split)

lemma closeForumTopic_guarded_chat:
  "guarded ctx ''closeForumTopic'' (closeForumTopic ctx)
     (chat ctx = JUndefined)
     (\<not> nullish (chat ctx) \<and>
      \<not> nullish (opt_member (lookup (update ctx) ''message'') ''message_thread_id''))
     (Call ''closeForumTopic''
        [opt_member (chat ctx) ''id'', opt_member (lookup (update ctx) ''message'') ''message_thread_id''])"
  by (rule guarded_weaken [OF closeForumTopic_guarded]) simp_all

lemma closeForumTopic_guarded_thread:
  "guarded ctx ''closeForumTopic'' (closeForumTopic ctx)
     (opt_member (lookup (update ctx) ''message'') ''message_thread_id'' = JUndefined)
     (\<not> nullish (chat ctx) \<and>
      \<not> nullish (opt_member (lookup (update ctx) ''message'') ''message_thread_id''))
     (Call ''closeForumTopic''
        [opt_member (chat ctx) ''id'', opt_member (lookup (update ctx) ''message'') ''message_thread_id''])"
  by (rule guarded_weaken [OF closeForumTopic_guarded]) simp_all

lemma reopenForumTopic_guarded:
  "guarded ctx ''reopenForumTopic'' (reopenForumTopic ctx)
     (chat ctx = JUndefined \<or> opt_member (lookup (update ctx) ''message'') ''message_thread_id'' = JUndefined)
     (\<not> nullish (chat ctx) \<and>
      \<not> nullish (opt_member (lookup (update ctx) ''message'') ''message_thread_id''))
     (Call ''reopenForumTopic''
        [opt_member (chat ctx) ''id'', opt_member (lookup (update ctx) ''message'') ''message_thread_id''])"
  unfolding guarded_def reopenForumTopic_def
  by (cases "chat ctx = JUndefined")
    (auto simp: guarded_simps thread_id_message split: sum.split)

lemma reopenForumTopic_guarded_chat:
  "guarded ctx ''reopenForumTopic'' (reopenForumTopic ctx)
     (chat ctx = JUndefined)
     (\<not> nullish (chat ctx) \<and>
      \<not> nullish (opt_member (lookup (update ctx) ''message'') ''message_thread_id''))
     (Call ''reopenForumTopic''
        [opt_member (chat ctx) ''id'', opt_member (lookup (update ctx) ''message'') ''message_thread_id''])"
  by (rule guarded_weaken [OF reopenForumTopic_guarded]) simp_all

lemma reopenForumTopic_guarded_thread:
  "guarded ctx ''reopenForumTopic'' (reopenForumTopic ctx)
     (opt_member (lookup (update ctx) ''message'') ''message_thread_id'' = JUndefined)
     (\<not> nullish (chat ctx) \<and>
      \<not> nullish (opt_member (lookup (update ctx) ''message'') ''message_thread_id''))
     (Call ''reopenForumTopic''
        [opt_member (chat ctx) ''id'', opt_member (lookup (update ctx) ''message'') ''message_thread_id''])"
  by (rule guarded_weaken [OF reopenForumTopic_guarded]) simp_all

lemma deleteForumTopic_guarded:
  "guarded ctx ''deleteForumTopic'' (deleteForumTopic ctx)
     (chat ctx = JUndefined \<or> opt_member (lookup (update ctx) ''message'') ''message_thread_id'' = JUndefined)
     (\<not> nullish (chat ctx) \<and>
      \<not> nullish (opt_member (lookup (update ctx) ''message'') ''message_thread_id''))
     (Call ''deleteForumTopic''
        [opt_member (chat ctx) ''id'', opt_member (lookup (update ctx) ''message'') ''message_thread_id''])"
  unfolding guarded_def deleteForumTopic_def
  by (cases "chat ctx = JUndefined")
    (auto simp: guarded_simps thread_id_message split: sum.split)

lemma deleteForumTopic_guarded_chat:
  "guarded ctx ''deleteForumTopic'' (deleteForumTopic ctx)
     (chat ctx = JUndefined)
     (\<not> nullish (chat ctx) \<and>
      \<not> nullish (opt_member (lookup (update ctx) ''message'') ''message_thread_id''))
     (Call ''deleteForumTopic''
        [opt_member (chat ctx) ''id'', opt_member (lookup (update ctx) ''message'') ''message_thread_id''])"
  by (rule guarded_weaken [OF deleteForumTopic_guarded]) simp_all

lemma deleteForumTopic_guarded_thread:
  "guarded ctx ''deleteForumTopic'' (deleteForumTopic ctx)
     (opt_member (lookup (update ctx) ''message'') ''message_thread_id'' = JUndefined)
     (\<not> nullish (chat ctx) \<and>
      \<not> nullish (opt_member (lookup (update ctx) ''message'') ''message_thread_id''))
     (Call ''deleteForumTopic''
        [opt_member (chat ctx) ''id'', opt_member (lookup (update ctx) ''message'') ''message_thread_id''])"
  by (rule guarded_weaken [OF deleteForumTopic_guarded]) simp_all

lemma unpinAllForumTopicMessages_guarded:
  "guarded ctx ''unpinAllForumTopicMessages'' (unpinAllForumTopicMessages ctx)
     (chat ctx = JUndefined \<or> opt_member (lookup (update ctx) ''message'') ''message_thread_id'' = JUndefined)
     (\<not> nullish (chat ctx) \<and>
      \<not> nullish (opt_member (lookup (update ctx) ''message'') ''message_thread_id''))
     (Call ''unpinAllForumTopicMessages''
        [opt_member (chat ctx) ''id'', opt_member (lookup (update ctx) ''message'') ''message_thread_id''])"
  unfolding guarded_def unpinAllForumTopicMessages_def
  by (cases "chat ctx = JUndefined")
    (auto simp: guarded_simps thread_id_message split: sum.split)

lemma unpinAllForumTopicMessages_guarded_chat:
  "guarded ctx ''unpinAllForumTopicMessages'' (unpinAllForumTopicMessages ctx)
     (chat ctx = JUndefined)
     (\<not> nullish (chat ctx) \<and>
      \<not> nullish (opt_member (lookup (update ctx) ''message'') ''message_thread_id''))
     (Call ''unpinAllForumTopicMessages''
        [opt_member (chat ctx) ''id'', opt_member (lookup (update ctx) ''message'') ''message_thread_id''])"
  by (rule guarded_weaken [OF unpinAllForumTopicMessages_guarded]) simp_all

lemma unpinAllForumTopicMessages_guarded_thread:
  "guarded ctx ''unpinAllForumTopicMessages'' (unpinAllForumTopicMessages ctx)
     (opt_member (lookup (update ctx) ''message'') ''message_thread_id'' = JUndefined)
     (\<not> nullish (chat ctx) \<and>
      \<not> nullish (opt_member (lookup (update ctx) ''message'') ''message_thread_id''))
     (Call ''unpinAllForumTopicMessages''
        [opt_member (chat ctx) ''id'', opt_member (lookup (update ctx) ''message'') ''message_thread_id''])"
  by (rule guarded_weaken [OF unpinAllForumTopicMessages_guarded]) simp_all

lemma uploadStickerFile_guarded:
  "guarded ctx ''uploadStickerFile'' (uploadStickerFile ctx args)
     (from' ctx = JUndefined) (\<not> nullish (from' ctx))
     (Call ''uploadStickerFile'' (opt_member (from' ctx) ''id'' # args))"
  unfolding guarded_def uploadStickerFile_def by (simp add: guarded_simps split: sum.split)

lemma createNewStickerSet_guarded:
  "guarded ctx ''createNewStickerSet'' (createNewStickerSet ctx args)
     (from' ctx = JUndefined) (\<not> nullish (from' ctx))
     (Call ''createNewStickerSet'' (opt_member (from' ctx) ''id'' # args))"
  unfolding guarded_def createNewStickerSet_def by (simp add: guarded_simps split: sum.split)

lemma addStickerToSet_guarded:
  "guarded ctx ''addStickerToSet'' (addStickerToSet ctx args)
     (from' ctx = JUndefined) (\<not> nullish (from' ctx))
     (Call ''addStickerToSet'' (opt_member (from' ctx) ''id'' # args))"
  unfolding guarded_def addStickerToSet_def by (simp add: guarded_simps split: sum.split)

lemma replyWithMarkdown_guarded:
  "guarded ctx ''sendMessage'' (replyWithMarkdown ctx markdown extra)
     (chat ctx = JUndefined) (\<not> nullish (chat ctx))
     (Call ''sendMessage''
        [opt_member (chat ctx) ''id'', markdown,
         JObj (spread [(''message_thread_id'', default_thread_id (lookup (update ctx) ''message''))]
                (Some (spread [(''reply_to_message_id'', opt_member (getMessageFromAnySource ctx) ''message_id'')]
                (Some (spread [(''parse_mode'', JStr ''Markdown'')] extra)))))])"
  unfolding guarded_def replyWithMarkdown_def reply_def sendMessage_def Let_def
  by (simp add: guarded_simps split: sum.split)

lemma replyWithMarkdownV2_guarded:
  "guarded ctx ''sendMessage'' (replyWithMarkdownV2 ctx markdown extra)
     (chat ctx = JUndefined) (\<not> nullish (chat ctx))
     (Call ''sendMessage''
        [opt_member (chat ctx) ''id'', markdown,
         JObj (spread [(''message_thread_id'', default_thread_id (lookup (update ctx) ''message''))]
                (Some (spread [(''reply_to_message_id'', opt_member (getMessageFromAnySource ctx) ''message_id'')]
                (Some (spread [(''parse_mode'', JStr ''MarkdownV2'')] extra)))))])"
  unfolding guarded_def replyWithMarkdownV2_def reply_def sendMessage_def Let_def
  by (simp add: guarded_simps split: sum.split)

lemma replyWithHTML_guarded:
  "guarded ctx ''sendMessage'' (replyWithHTML ctx html extra)
     (chat ctx = JUndefined) (\<not> nullish (chat ctx))
     (Call ''sendMessage''
        [opt_member (chat ctx) ''id'', html,
         JObj (spread [(''message_thread_id'', default_thread_id (lookup (update ctx) ''message''))]
                (Some (spread [(''reply_to_message_id'', opt_member (getMessageFromAnySource ctx) ''message_id'')]
                (Some (spread [(''parse_mode'', JStr ''HTML'')] extra)))))])"
  unfolding guarded_def replyWithHTML_def reply_def sendMessage_def Let_def
  by (simp add: guarded_simps split: sum.split)

lemma deleteMessage_guarded:
  "guarded ctx ''deleteMessage'' (deleteMessage ctx messageId)
     (chat ctx = JUndefined \<or> messageId = JUndefined \<and> getMessageFromAnySource ctx = JUndefined)
     (\<not> nullish (chat ctx) \<and> (messageId = JUndefined \<longrightarrow> \<not> nullish (getMessageFromAnySource ctx)))
     (Call ''deleteMessage''
        [opt_member (chat ctx) ''id'',
         if messageId \<noteq> JUndefined then messageId
         else opt_member (getMessageFromAnySource ctx) ''message_id''])"
  unfolding guarded_def deleteMessage_def
  by (cases "chat ctx = JUndefined") (auto simp: guarded_simps split: sum.split)

lemma forwardMessage_guarded:
  "guarded ctx ''forwardMessage'' (forwardMessage ctx chatId extra')
     (getMessageFromAnySource ctx = JUndefined)
     (\<not> nullish (opt_member (getMessageFromAnySource ctx) ''chat''))
     (Call ''forwardMessage''
        [chatId, opt_member (opt_member (getMessageFromAnySource ctx) ''chat'') ''id'',
         opt_member (getMessageFromAnySource ctx) ''message_id'', extra'])"
  unfolding guarded_def forwardMessage_def
  by (auto simp: guarded_simps member_chat_message split: sum.split)

lemma copyMessage_guarded:
  "guarded ctx ''copyMessage'' (copyMessage ctx chatId extra')
     (getMessageFromAnySource ctx = JUndefined)
     (\<not> nullish (opt_member (getMessageFromAnySource ctx) ''chat''))
     (Call ''copyMessage''
        [chatId, opt_member (opt_member (getMessageFromAnySource ctx) ''chat'') ''id'',
         opt_member (getMessageFromAnySource ctx) ''message_id'', extra'])"
  unfolding guarded_def copyMessage_def
  by (auto simp: guarded_simps member_chat_message split: sum.split)

lemma approveChatJoinRequest_guarded:
  "guarded ctx ''approveChatJoinRequest'' (approveChatJoinRequest ctx userId)
     (chat ctx = JUndefined) (\<not> nullish (chat ctx))
     (Call ''approveChatJoinRequest'' [opt_member (chat ctx) ''id'', userId])"
  unfolding guarded_def approveChatJoinRequest_def by (simp add: guarded_simps split: sum.split)

lemma declineChatJoinRequest_guarded:
  "guarded ctx ''declineChatJoinRequest'' (declineChatJoinRequest ctx userId)
     (chat ctx = JUndefined) (\<not> nullish (chat ctx))
     (Call ''declineChatJoinRequest'' [opt_member (chat ctx) ''id'', userId])"
  unfolding guarded_def declineChatJoinRequest_def by (simp add: guarded_simps split: sum.split)

lemma banChatSenderChat_guarded:
  "guarded ctx ''banChatSenderChat'' (banChatSenderChat ctx senderChatId)
     (chat ctx = JUndefined) (\<not> nullish (chat ctx))
     (Call ''banChatSenderChat'' [opt_member (chat ctx) ''id'', senderChatId])"
  unfolding guarded_def banChatSenderChat_def by (simp add: guarded_simps split: sum.split)

lemma unbanChatSenderChat_guarded:
  "guarded ctx ''unbanChatSenderChat'' (unbanChatSenderChat ctx senderChatId)
     (chat ctx = JUndefined) (\<not> nullish (chat ctx))
     (Call ''unbanChatSenderChat'' [opt_member (chat ctx) ''id'', senderChatId])"
  unfolding guarded_def unbanChatSenderChat_def by (simp add: guarded_simps split: sum.split)

lemma setChatMenuButton_guarded:
  "guarded ctx ''setChatMenuButton'' (setChatMenuButton ctx menuButton)
     (chat ctx = JUndefined) (\<not> nullish (chat ctx))
     (Call ''setChatMenuButton''
        [JObj [(''chatId'', opt_member (chat ctx) ''id''), (''menuButton'', menuButton)]])"
  unfolding guarded_def setChatMenuButton_def by (simp add: guarded_simps split: sum.split)

lemma getChatMenuButton_guarded:
  "guarded ctx ''getChatMenuButton'' (getChatMenuButton ctx)
     (chat ctx = JUndefined) (\<not> nullish (chat ctx))
     (Call ''getChatMenuButton'' [JObj [(''chatId'', opt_member (chat ctx) ''id'')]])"
  unfolding guarded_def getChatMenuButton_def by (simp add: guarded_simps split: sum.split)

section \<open>Properties of the operations\<close>

lemmas accessor_defs = message_def editedMessage_def inlineQuery_def shippingQuery_def
  preCheckoutQuery_def chosenInlineResult_def channelPost_def editedChannelPost_def
  callbackQuery_def myChatMember_def chatMember_def chatJoinRequest_def
  getMessageFromAnySource_def chat_def senderChat_def from'_def inlineMessageId_def coalesce_def

text \<open>
  C5, as amended. Every guarded operation of the Context, whether it is guarded by an
  \<^verbatim>\<open>assert\<close> of its own or, as a reply operation is, by that of the send operation it
  goes through, follows the guarded delegation pattern. If the derived field it requires
  is \<^verbatim>\<open>undefined\<close>, it fails synchronously and the transport is not reached; on an
  Update that has a kind the error is the usage error whose message names the update kind
  and the operation whose guard failed, which is the operation itself or, for a reply
  operation, its send operation. If the field is resolved, that is, neither \<^verbatim>\<open>undefined\<close>
  nor \<^verbatim>\<open>null\<close>, the operation delegates to the transport with the identifier read from
  the field. (A forum topic operation also requires a thread identifier,
  \<^verbatim>\<open>deleteMessage\<close> without an argument also a message, and \<^verbatim>\<open>forwardMessage\<close> and
  \<^verbatim>\<open>copyMessage\<close> the chat of the message.)
\<close>

theorem guarded_operations:
  "guarded ctx ''sendMessage'' (sendMessage ctx text extra)
     (chat ctx = JUndefined) (\<not> nullish (chat ctx))
     (Call ''sendMessage''
        [opt_member (chat ctx) ''id'', text,
         JObj (spread [(''message_thread_id'', default_thread_id (lookup (update ctx) ''message''))] extra)]) \<and>
   guarded ctx ''getChat'' (getChat ctx args)
     (chat ctx = JUndefined) (\<not> nullish (chat ctx))
     (Call ''getChat'' (opt_member (chat ctx) ''id'' # args)) \<and>
   guarded ctx ''banChatMember'' (banChatMember ctx args)
     (chat ctx = JUndefined) (\<not> nullish (chat ctx))
     (Call ''banChatMember'' (opt_member (chat ctx) ''id'' # args)) \<and>
   guarded ctx ''sendMessage'' (reply ctx text extra)
     (chat ctx = JUndefined) (\<not> nullish (chat ctx))
     (Call ''sendMessage''
        [opt_member (chat ctx) ''id'', text,
         JObj (spread [(''message_thread_id'', default_thread_id (lookup (update ctx) ''message''))]
                (Some (spread [(''reply_to_message_id'', opt_member (getMessageFromAnySource ctx) ''message_id'')] extra)))]) \<and>
   guarded ctx ''answerInlineQuery'' (answerInlineQuery ctx args)
     (lookup (update ctx) ''inline_query'' = JUndefined) (\<not> nullish (lookup (update ctx) ''inline_query''))
     (Call ''answerInlineQuery'' (opt_member (lookup (update ctx) ''inline_query'') ''id'' # args)) \<and>
   guarded ctx ''answerCbQuery'' (answerCbQuery ctx args)
     (lookup (update ctx) ''callback_query'' = JUndefined) (\<not> nullish (lookup (update ctx) ''callback_query''))
     (Call ''answerCbQuery'' (opt_member (lookup (update ctx) ''callback_query'') ''id'' # args)) \<and>
   guarded ctx ''answerGameQuery'' (answerGameQuery ctx args)
     (lookup (update ctx) ''callback_query'' = JUndefined) (\<not> nullish (lookup (update ctx) ''callback_query''))
     (Call ''answerGameQuery'' (opt_member (lookup (update ctx) ''callback_query'') ''id'' # args)) \<and>
   guarded ctx ''answerShippingQuery'' (answerShippingQuery ctx args)
     (lookup (update ctx) ''shipping_query'' = JUndefined) (\<not> nullish (lookup (update ctx) ''shipping_query''))
     (Call ''answerShippingQuery'' (opt_member (lookup (update ctx) ''shipping_query'') ''id'' # args)) \<and>
   guarded ctx ''answerPreCheckoutQuery'' (answerPreCheckoutQuery ctx args)
     (lookup (update ctx) ''pre_checkout_query'' = JUndefined) (\<not> nullish (lookup (update ctx) ''pre_checkout_query''))
     (Call ''answerPreCheckoutQuery'' (opt_member (lookup (update ctx) ''pre_checkout_query'') ''id'' # args)) \<and>
   guarded ctx ''editMessageText'' (editMessageText ctx text extra')
     (nullish (lookup (update ctx) ''callback_query'') \<and> inline_id ctx = JUndefined)
     (\<not> nullish (lookup (update ctx) ''callback_query'') \<or> \<not> nullish (inline_id ctx))
     (Call ''editMessageText''
        ([opt_member (chat ctx) ''id'',
          opt_member (opt_member (lookup (update ctx) ''callback_query'') ''message'') ''message_id'',
          inline_id ctx] @ [text, extra'])) \<and>
   guarded ctx ''editMessageCaption'' (editMessageCaption ctx caption extra')
     (nullish (lookup (update ctx) ''callback_query'') \<and> inline_id ctx = JUndefined)
     (\<not> nullish (lookup (update ctx) ''callback_query'') \<or> \<not> nullish (inline_id ctx))
     (Call ''editMessageCaption''
        ([opt_member (chat ctx) ''id'',
          opt_member (opt_member (lookup (update ctx) ''callback_query'') ''message'') ''message_id'',
          inline_id ctx] @ [caption, extra'])) \<and>
   guarded ctx ''editMessageMedia'' (editMessageMedia ctx media extra')
     (nullish (lookup (update ctx) ''callback_query'') \<and> inline_id ctx = JUndefined)
     (\<not> nullish (lookup (update ctx) ''callback_query'') \<or> \<not> nullish (inline_id ctx))
     (Call ''editMessageMedia''
        ([opt_member (chat ctx) ''id'',
          opt_member (opt_member (lookup (update ctx) ''callback_query'') ''message'') ''message_id'',
          inline_id ctx] @ [media, extra'])) \<and>
   guarded ctx ''editMessageReplyMarkup'' (editMessageReplyMarkup ctx markup)
     (nullish (lookup (update ctx) ''callback_query'') \<and> inline_id ctx = JUndefined)
     (\<not> nullish (lookup (update ctx) ''callback_query'') \<or> \<not> nullish (inline_id ctx))
     (Call ''editMessageReplyMarkup''
        ([opt_member (chat ctx) ''id'',
          opt_member (opt_member (lookup (update ctx) ''callback_query'') ''message'') ''message_id'',
          inline_id ctx] @ [markup])) \<and>
   guarded ctx ''editMessageLiveLocation'' (editMessageLiveLocation ctx latitude longitude extra')
     (nullish (lookup (update ctx) ''callback_query'') \<and> inline_id ctx = JUndefined)
     (\<not> nullish (lookup (update ctx) ''callback_query'') \<or> \<not> nullish (inline_id ctx))
     (Call ''editMessageLiveLocation''
        ([opt_member (chat ctx) ''id'',
          opt_member (opt_member (lookup (update ctx) ''callback_query'') ''message'') ''message_id'',
          inline_id ctx] @ [latitude, longitude, extra'])) \<and>
   guarded ctx ''stopMessageLiveLocation'' (stopMessageLiveLocation ctx markup)
     (nullish (lookup (update ctx) ''callback_query'') \<and> inline_id ctx = JUndefined)
     (\<not> nullish (lookup (update ctx) ''callback_query'') \<or> \<not> nullish (inline_id ctx))
     (Call ''stopMessageLiveLocation''
        ([opt_member (chat ctx) ''id'',
          opt_member (opt_member (lookup (update ctx) ''callback_query'') ''message'') ''message_id'',
          inline_id ctx] @ [markup])) \<and>
   guarded ctx ''exportChatInviteLink'' (exportChatInviteLink ctx args)
     (chat ctx = JUndefined) (\<not> nullish (chat ctx))
     (Call ''exportChatInviteLink'' (opt_member (chat ctx) ''id'' # args)) \<and>
   guarded ctx ''createChatInviteLink'' (createChatInviteLink ctx args)
     (chat ctx = JUndefined) (\<not> nullish (chat ctx))
     (Call ''createChatInviteLink'' (opt_member (chat ctx) ''id'' # args)) \<and>
   guarded ctx ''editChatInviteLink'' (editChatInviteLink ctx args)
     (chat ctx = JUndefined) (\<not> nullish (chat ctx))
     (Call ''editChatInviteLink'' (opt_member (chat ctx) ''id'' # args)) \<and>
   guarded ctx ''revokeChatInviteLink'' (revokeChatInviteLink ctx args)
     (chat ctx = JUndefined) (\<not> nullish (chat ctx))
     (Call ''revokeChatInviteLink'' (opt_member (chat ctx) ''id'' # args)) \<and>
   guarded ctx ''unbanChatMember'' (unbanChatMember ctx args)
     (chat ctx = JUndefined) (\<not> nullish (chat ctx))
     (Call ''unbanChatMember'' (opt_member (chat ctx) ''id'' # args)) \<and>
   guarded ctx ''restrictChatMember'' (restrictChatMember ctx args)
     (chat ctx = JUndefined) (\<not> nullish (chat ctx))
     (Call ''restrictChatMember'' (opt_member (chat ctx) ''id'' # args)) \<and>
   guarded ctx ''promoteChatMember'' (promoteChatMember ctx args)
     (chat ctx = JUndefined) (\<not> nullish (chat ctx))
     (Call ''promoteChatMember'' (opt_member (chat ctx) ''id'' # args)) \<and>
   guarded ctx ''setChatAdministratorCustomTitle'' (setChatAdministratorCustomTitle ctx args)
     (chat ctx = JUndefined) (\<not> nullish (chat ctx))
     (Call ''setChatAdministratorCustomTitle'' (opt_member (chat ctx) ''id'' # args)) \<and>
   guarded ctx ''setChatPhoto'' (setChatPhoto ctx args)
     (chat ctx = JUndefined) (\<not> nullish (chat ctx))
     (Call ''setChatPhoto'' (opt_member (chat ctx) ''id'' # args)) \<and>
   guarded ctx ''deleteChatPhoto'' (deleteChatPhoto ctx args)
     (chat ctx = JUndefined) (\<not> nullish (chat ctx))
     (Call ''deleteChatPhoto'' (opt_member (chat ctx) ''id'' # args)) \<and>
   guarded ctx ''setChatTitle'' (setChatTitle ctx args)
     (chat ctx = JUndefined) (\<not> nullish (chat ctx))
     (Call ''setChatTitle'' (opt_member (chat ctx) ''id'' # args)) \<and>
   guarded ctx ''setChatDescription'' (setChatDescription ctx args)
     (chat ctx = JUndefined) (\<not> nullish (chat ctx))
     (Call ''setChatDescription'' (opt_member (chat ctx) ''id'' # args)) \<and>
   guarded ctx ''pinChatMessage'' (pinChatMessage ctx args)
     (chat ctx = JUndefined) (\<not> nullish (chat ctx))
     (Call ''pinChatMessage'' (opt_member (chat ctx) ''id'' # args)) \<and>
   guarded ctx ''unpinChatMessage'' (unpinChatMessage ctx args)
     (chat ctx = JUndefined) (\<not> nullish (chat ctx))
     (Call ''unpinChatMessage'' (opt_member (chat ctx) ''id'' # args)) \<and>
   guarded ctx ''unpinAllChatMessages'' (unpinAllChatMessages ctx args)
     (chat ctx = JUndefined) (\<not> nullish (chat ctx))
     (Call ''unpinAllChatMessages'' (opt_member (chat ctx) ''id'' # args)) \<and>
   guarded ctx ''leaveChat'' (leaveChat ctx args)
     (chat ctx = JUndefined) (\<not> nullish (chat ctx))
     (Call ''leaveChat'' (opt_member (chat ctx) ''id'' # args)) \<and>
   guarded ctx ''setChatPermissions'' (setChatPermissions ctx args)
     (chat ctx = JUndefined) (\<not> nullish (chat ctx))
     (Call ''setChatPermissions'' (opt_member (chat ctx) ''id'' # args)) \<and>
   guarded ctx ''getChatAdministrators'' (getChatAdministrators ctx args)
     (chat ctx = JUndefined) (\<not> nullish (chat ctx))
     (Call ''getChatAdministrators'' (opt_member (chat ctx) ''id'' # args)) \<and>
   guarded ctx ''getChatMember'' (getChatMember ctx args)
     (chat ctx = JUndefined) (\<not> nullish (chat ctx))
     (Call ''getChatMember'' (opt_member (chat ctx) ''id'' # args)) \<and>
   guarded ctx ''getChatMembersCount'' (getChatMembersCount ctx args)
     (chat ctx = JUndefined) (\<not> nullish (chat ctx))
     (Call ''getChatMembersCount'' (opt_member (chat ctx) ''id'' # args)) \<and>
   guarded ctx ''setPassportDataErrors'' (setPassportDataErrors ctx errors)
     (from' ctx = JUndefined) (\<not> nullish (from' ctx))
     (Call ''setPassportDataErrors'' [opt_member (from' ctx) ''id'', errors]) \<and>
   guarded ctx ''sendPhoto'' (sendPhoto ctx photo extra)
     (chat ctx = JUndefined) (\<not> nullish (chat ctx))
     (Call ''sendPhoto''
        [opt_member (chat ctx) ''id'', photo,
         JObj (spread [(''message_thread_id'', default_thread_id (lookup (update ctx) ''message''))] extra)]) \<and>
   guarded ctx ''sendPhoto'' (replyWithPhoto ctx photo extra)
     (chat ctx = JUndefined) (\<not> nullish (chat ctx))
     (Call ''sendPhoto''
        [opt_member (chat ctx) ''id'', photo,
         JObj (spread [(''message_thread_id'', default_thread_id (lookup (update ctx) ''message''))]
                (Some (spread [(''reply_to_message_id'', opt_member (getMessageFromAnySource ctx) ''message_id'')] extra)))]) \<and>
   guarded ctx ''sendMediaGroup'' (sendMediaGroup ctx media extra)
     (chat ctx = JUndefined) (\<not> nullish (chat ctx))
     (Call ''sendMediaGroup''
        [opt_member (chat ctx) ''id'', media,
         JObj (spread [(''message_thread_id'', default_thread_id (lookup (update ctx) ''message''))] extra)]) \<and>
   guarded ctx ''sendMediaGroup'' (replyWithMediaGroup ctx media extra)
     (chat ctx = JUndefined) (\<not> nullish (chat ctx))
     (Call ''sendMediaGroup''
        [opt_member (chat ctx) ''id'', media,
         JObj (spread [(''message_thread_id'', default_thread_id (lookup (update ctx) ''message''))]
                (Some (spread [(''reply_to_message_id'', opt_member (getMessageFromAnySource ctx) ''message_id'')] extra)))]) \<and>
   guarded ctx ''sendAudio'' (sendAudio ctx audio extra)
     (chat ctx = JUndefined) (\<not> nullish (chat ctx))
     (Call ''sendAudio''
        [opt_member (chat ctx) ''id'', audio,
         JObj (spread [(''message_thread_id'', default_thread_id (lookup (update ctx) ''message''))] extra)]) \<and>
   guarded ctx ''sendAudio'' (replyWithAudio ctx audio extra)
     (chat ctx = JUndefined) (\<not> nullish (chat ctx))
     (Call ''sendAudio''
        [opt_member (chat ctx) ''id'', audio,
         JObj (spread [(''message_thread_id'', default_thread_id (lookup (update ctx) ''message''))]
                (Some (spread [(''reply_to_message_id'', opt_member (getMessageFromAnySource ctx) ''message_id'')] extra)))]) \<and>
   guarded ctx ''sendDice'' (sendDice ctx extra)
     (chat ctx = JUndefined) (\<not> nullish (chat ctx))
     (Call ''sendDice''
        [opt_member (chat ctx) ''id'',
         JObj (spread [(''message_thread_id'', default_thread_id (lookup (update ctx) ''message''))] extra)]) \<and>
   guarded ctx ''sendDice'' (replyWithDice ctx extra)
     (chat ctx = JUndefined) (\<not> nullish (chat ctx))
     (Call ''sendDice''
        [opt_member (chat ctx) ''id'',
         JObj (spread [(''message_thread_id'', default_thread_id (lookup (update ctx) ''message''))]
                (Some (spread [(''reply_to_message_id'', opt_member (getMessageFromAnySource ctx) ''message_id'')] extra)))]) \<and>
   guarded ctx ''sendDocument'' (sendDocument ctx document extra)
     (chat ctx = JUndefined) (\<not> nullish (chat ctx))
     (Call ''sendDocument''
        [opt_member (chat ctx) ''id'', document,
         JObj (spread [(''message_thread_id'', default_thread_id (lookup (update ctx) ''message''))] extra)]) \<and>
   guarded ctx ''sendDocument'' (replyWithDocument ctx document extra)
     (chat ctx = JUndefined) (\<not> nullish (chat ctx))
     (Call ''sendDocument''
        [opt_member (chat ctx) ''id'', document,
         JObj (spread [(''message_thread_id'', default_thread_id (lookup (update ctx) ''message''))]
                (Some (spread [(''reply_to_message_id'', opt_member (getMessageFromAnySource ctx) ''message_id'')] extra)))]) \<and>
   guarded ctx ''sendSticker'' (sendSticker ctx sticker extra)
     (chat ctx = JUndefined) (\<not> nullish (chat ctx))
     (Call ''sendSticker''
        [opt_member (chat ctx) ''id'', sticker,
         JObj (spread [(''message_thread_id'', default_thread_id (lookup (update ctx) ''message''))] extra)]) \<and>
   guarded ctx ''sendSticker'' (replyWithSticker ctx sticker extra)
     (chat ctx = JUndefined) (\<not> nullish (chat ctx))
     (Call ''sendSticker''
        [opt_member (chat ctx) ''id'', sticker,
         JObj (spread [(''message_thread_id'', default_thread_id (lookup (update ctx) ''message''))]
                (Some (spread [(''reply_to_message_id'', opt_member (getMessageFromAnySource ctx) ''message_id'')] extra)))]) \<and>
   guarded ctx ''sendVideo'' (sendVideo ctx video extra)
     (chat ctx = JUndefined) (\<not> nullish (chat ctx))
     (Call ''sendVideo''
        [opt_member (chat ctx) ''id'', video,
         JObj (spread [(''message_thread_id'', default_thread_id (lookup (update ctx) ''message''))] extra)]) \<and>
   guarded ctx ''sendVideo'' (replyWithVideo ctx video extra)
     (chat ctx = JUndefined) (\<not> nullish (chat ctx))
     (Call ''sendVideo''
        [opt_member (chat ctx) ''id'', video,
         JObj (spread [(''message_thread_id'', default_thread_id (lookup (update ctx) ''message''))]
                (Some (spread [(''reply_to_message_id'', opt_member (getMessageFromAnySource ctx) ''message_id'')] extra)))]) \<and>
   guarded ctx ''sendAnimation'' (sendAnimation ctx animation extra)
     (chat ctx = JUndefined) (\<not> nullish (chat ctx))
     (Call ''sendAnimation''
        [opt_member (chat ctx) ''id'', animation,
         JObj (spread [(''message_thread_id'', default_thread_id (lookup (update ctx) ''message''))] extra)]) \<and>
   guarded ctx ''sendAnimation'' (replyWithAnimation ctx animation extra)
     (chat ctx = JUndefined) (\<not> nullish (chat ctx))
     (Call ''sendAnimation''
        [opt_member (chat ctx) ''id'', animation,
         JObj (spread [(''message_thread_id'', default_thread_id (lookup (update ctx) ''message''))]
                (Some (spread [(''reply_to_message_id'', opt_member (getMessageFromAnySource ctx) ''message_id'')] extra)))]) \<and>
   guarded ctx ''sendVideoNote'' (sendVideoNote ctx videoNote extra)
     (chat ctx = JUndefined) (\<not> nullish (chat ctx))
     (Call ''sendVideoNote''
        [opt_member (chat ctx) ''id'', videoNote,
         JObj (spread [(''message_thread_id'', default_thread_id (lookup (update ctx) ''message''))] extra)]) \<and>
   guarded ctx ''sendVideoNote'' (replyWithVideoNote ctx videoNote extra)
     (chat ctx = JUndefined) (\<not> nullish (chat ctx))
     (Call ''sendVideoNote''
        [opt_member (chat ctx) ''id'', videoNote,
         JObj (spread [(''message_thread_id'', default_thread_id (lookup (update ctx) ''message''))]
                (Some (spread [(''reply_to_message_id'', opt_member (getMessageFromAnySource ctx) ''message_id'')] extra)))]) \<and>
   guarded ctx ''sendInvoice'' (sendInvoice ctx invoice extra)
     (chat ctx = JUndefined) (\<not> nullish (chat ctx))
     (Call ''sendInvoice''
        [opt_member (chat ctx) ''id'', invoice,
         JObj (spread [(''message_thread_id'', default_thread_id (lookup (update ctx) ''message''))] extra)]) \<and>
   guarded ctx ''sendInvoice'' (replyWithInvoice ctx invoice extra)
     (chat ctx = JUndefined) (\<not> nullish (chat ctx))
     (Call ''sendInvoice''
        [opt_member (chat ctx) ''id'', invoice,
         JObj (spread [(''message_thread_id'', default_thread_id (lookup (update ctx) ''message''))]
                (Some (spread [(''reply_to_message_id'', opt_member (getMessageFromAnySource ctx) ''message_id'')] extra)))]) \<and>
   guarded ctx ''sendGame'' (sendGame ctx game extra)
     (chat ctx = JUndefined) (\<not> nullish (chat ctx))
     (Call ''sendGame''
        [opt_member (chat ctx) ''id'', game,
         JObj (spread [(''message_thread_id'', default_thread_id (lookup (update ctx) ''message''))] extra)]) \<and>
   guarded ctx ''sendGame'' (replyWithGame ctx gameName extra)
     (chat ctx = JUndefined) (\<not> nullish (chat ctx))
     (Call ''sendGame''
        [opt_member (chat ctx) ''id'', gameName,
         JObj (spread [(''message_thread_id'', default_thread_id (lookup (update ctx) ''message''))]
                (Some (spread [(''reply_to_message_id'', opt_member (getMessageFromAnySource ctx) ''message_id'')] extra)))]) \<and>
   guarded ctx ''sendVoice'' (sendVoice ctx voice extra)
     (chat ctx = JUndefined) (\<not> nullish (chat ctx))
     (Call ''sendVoice''
        [opt_member (chat ctx) ''id'', voice,
         JObj (spread [(''message_thread_id'', default_thread_id (lookup (update ctx) ''message''))] extra)]) \<and>
   guarded ctx ''sendVoice'' (replyWithVoice ctx voice extra)
     (chat ctx = JUndefined) (\<not> nullish (chat ctx))
     (Call ''sendVoice''
        [opt_member (chat ctx) ''id'', voice,
         JObj (spread [(''message_thread_id'', default_thread_id (lookup (update ctx) ''message''))]
                (Some (spread [(''reply_to_message_id'', opt_member (getMessageFromAnySource ctx) ''message_id'')] extra)))]) \<and>
   guarded ctx ''sendPoll'' (sendPoll ctx poll_question options extra)
     (chat ctx = JUndefined) (\<not> nullish (chat ctx))
     (Call ''sendPoll''
        [opt_member (chat ctx) ''id'', poll_question, options,
         JObj (spread [(''message_thread_id'', default_thread_id (lookup (update ctx) ''message''))] extra)]) \<and>
   guarded ctx ''sendPoll'' (replyWithPoll ctx question options extra)
     (chat ctx = JUndefined) (\<not> nullish (chat ctx))
     (Call ''sendPoll''
        [opt_member (chat ctx) ''id'', question, options,
         JObj (spread [(''message_thread_id'', default_thread_id (lookup (update ctx) ''message''))]
                (Some (spread [(''reply_to_message_id'', opt_member (getMessageFromAnySource ctx) ''message_id'')] extra)))]) \<and>
   guarded ctx ''sendQuiz'' (sendQuiz ctx quiz options extra)
     (chat ctx = JUndefined) (\<not> nullish (chat ctx))
     (Call ''sendQuiz''
        [opt_member (chat ctx) ''id'', quiz, options,
         JObj (spread [(''message_thread_id'', default_thread_id (lookup (update ctx) ''message''))] extra)]) \<and>
   guarded ctx ''sendQuiz'' (replyWithQuiz ctx question options extra)
     (chat ctx = JUndefined) (\<not> nullish (chat ctx))
     (Call ''sendQuiz''
        [opt_member (chat ctx) ''id'', question, options,
         JObj (spread [(''message_thread_id'', default_thread_id (lookup (update ctx) ''message''))]
                (Some (spread [(''reply_to_message_id'', opt_member (getMessageFromAnySource ctx) ''message_id'')] extra)))]) \<and>
   guarded ctx ''stopPoll'' (stopPoll ctx args)
     (chat ctx = JUndefined) (\<not> nullish (chat ctx))
     (Call ''stopPoll'' (opt_member (chat ctx) ''id'' # args)) \<and>
   guarded ctx ''sendChatAction'' (sendChatAction ctx args)
     (chat ctx = JUndefined) (\<not> nullish (chat ctx))
     (Call ''sendChatAction'' (opt_member (chat ctx) ''id'' # args)) \<and>
   guarded ctx ''sendLocation'' (sendLocation ctx latitude longitude extra)
     (chat ctx = JUndefined) (\<not> nullish (chat ctx))
     (Call ''sendLocation''
        [opt_member (chat ctx) ''id'', latitude, longitude,
         JObj (spread [(''message_thread_id'', default_thread_id (lookup (update ctx) ''message''))] extra)]) \<and>
   guarded ctx ''sendLocation'' (replyWithLocation ctx latitude longitude extra)
     (chat ctx = JUndefined) (\<not> nullish (chat ctx))
     (Call ''sendLocation''
        [opt_member (chat ctx) ''id'', latitude, longitude,
         JObj (spread [(''message_thread_id'', default_thread_id (lookup (update ctx) ''message''))]
                (Some (spread [(''reply_to_message_id'', opt_member (getMessageFromAnySource ctx) ''message_id'')] extra)))]) \<and>
   guarded ctx ''sendVenue'' (sendVenue ctx latitude longitude title address extra)
     (chat ctx = JUndefined) (\<not> nullish (chat ctx))
     (Call ''sendVenue''
        [opt_member (chat ctx) ''id'', latitude, longitude, title, address,
         JObj (spread [(''message_thread_id'', default_thread_id (lookup (update ctx) ''message''))] extra)]) \<and>
   guarded ctx ''sendVenue'' (replyWithVenue ctx latitude longitude title address extra)
     (chat ctx = JUndefined) (\<not> nullish (chat ctx))
     (Call ''sendVenue''
        [opt_member (chat ctx) ''id'', latitude, longitude, title, address,
         JObj (spread [(''message_thread_id'', default_thread_id (lookup (update ctx) ''message''))]
                (Some (spread [(''reply_to_message_id'', opt_member (getMessageFromAnySource ctx) ''message_id'')] extra)))]) \<and>
   guarded ctx ''sendContact'' (sendContact ctx phoneNumber firstName extra)
     (chat ctx = JUndefined) (\<not> nullish (chat ctx))
     (Call ''sendContact''
        [opt_member (chat ctx) ''id'', phoneNumber, firstName,
         JObj (spread [(''message_thread_id'', default_thread_id (lookup (update ctx) ''message''))] extra)]) \<and>
   guarded ctx ''sendContact'' (replyWithContact ctx phoneNumber firstName extra)
     (chat ctx = JUndefined) (\<not> nullish (chat ctx))
     (Call ''sendContact''
        [opt_member (chat ctx) ''id'', phoneNumber, firstName,
         JObj (spread [(''message_thread_id'', default_thread_id (lookup (update ctx) ''message''))]
                (Some (spread [(''reply_to_message_id'', opt_member (getMessageFromAnySource ctx) ''message_id'')] extra)))]) \<and>
   guarded ctx ''setChatStickerSet'' (setChatStickerSet ctx setName)
     (chat ctx = JUndefined) (\<not> nullish (chat ctx))
     (Call ''setChatStickerSet'' [opt_member (chat ctx) ''id'', setName]) \<and>
   guarded ctx ''deleteChatStickerSet'' (deleteChatStickerSet ctx)
     (chat ctx = JUndefined) (\<not> nullish (chat ctx))
     (Call ''deleteChatStickerSet'' [opt_member (chat ctx) ''id'']) \<and>
   guarded ctx ''createForumTopic'' (createForumTopic ctx args)
     (chat ctx = JUndefined) (\<not> nullish (chat ctx))
     (Call ''createForumTopic'' (opt_member (chat ctx) ''id'' # args)) \<and>
   guarded ctx ''editForumTopic'' (editForumTopic ctx extra')
     (chat ctx = JUndefined)
     (\<not> nullish (chat ctx) \<and>
      \<not> nullish (opt_member (lookup (update ctx) ''message'') ''message_thread_id''))
     (Call ''editForumTopic''
        [opt_member (chat ctx) ''id'', opt_member (lookup (update ctx) ''message'') ''message_thread_id'', extra']) \<and>
   guarded ctx ''closeForumTopic'' (closeForumTopic ctx)
     (chat ctx = JUndefined)
     (\<not> nullish (chat ctx) \<and>
      \<not> nullish (opt_member (lookup (update ctx) ''message'') ''message_thread_id''))
     (Call ''closeForumTopic''
        [opt_member (chat ctx) ''id'', opt_member (lookup (update ctx) ''message'') ''message_thread_id'']) \<and>
   guarded ctx ''reopenForumTopic'' (reopenForumTopic ctx)
     (chat ctx = JUndefined)
     (\<not> nullish (chat ctx) \<and>
      \<not> nullish (opt_member (lookup (update ctx) ''message'') ''message_thread_id''))
     (Call ''reopenForumTopic''
        [opt_member (chat ctx) ''id'', opt_member (lookup (update ctx) ''message'') ''message_thread_id'']) \<and>
   guarded ctx ''deleteForumTopic'' (deleteForumTopic ctx)
     (chat ctx = JUndefined)
     (\<not> nullish (chat ctx) \<and>
      \<not> nullish (opt_member (lookup (update ctx) ''message'') ''message_thread_id''))
     (Call ''deleteForumTopic''
        [opt_member (chat ctx) ''id'', opt_member (lookup (update ctx) ''message'') ''message_thread_id'']) \<and>
   guarded ctx ''unpinAllForumTopicMessages'' (unpinAllForumTopicMessages ctx)
     (chat ctx = JUndefined)
     (\<not> nullish (chat ctx) \<and>
      \<not> nullish (opt_member (lookup (update ctx) ''message'') ''message_thread_id''))
     (Call ''unpinAllForumTopicMessages''
        [opt_member (chat ctx) ''id'', opt_member (lookup (update ctx) ''message'') ''message_thread_id'']) \<and>
   guarded ctx ''uploadStickerFile'' (uploadStickerFile ctx args)
     (from' ctx = JUndefined) (\<not> nullish (from' ctx))
     (Call ''uploadStickerFile'' (opt_member (from' ctx) ''id'' # args)) \<and>
   guarded ctx ''createNewStickerSet'' (createNewStickerSet ctx args)
     (from' ctx = JUndefined) (\<not> nullish (from' ctx))
     (Call ''createNewStickerSet'' (opt_member (from' ctx) ''id'' # args)) \<and>
   guarded ctx ''addStickerToSet'' (addStickerToSet ctx args)
     (from' ctx = JUndefined) (\<not> nullish (from' ctx))
     (Call ''addStickerToSet'' (opt_member (from' ctx) ''id'' # args)) \<and>
   guarded ctx ''sendMessage'' (replyWithMarkdown ctx markdown extra)
     (chat ctx = JUndefined) (\<not> nullish (chat ctx))
     (Call ''sendMessage''
        [opt_member (chat ctx) ''id'', markdown,
         JObj (spread [(''message_thread_id'', default_thread_id (lookup (update ctx) ''message''))]
                (Some (spread [(''reply_to_message_id'', opt_member (getMessageFromAnySource ctx) ''message_id'')]
                (Some (spread [(''parse_mode'', JStr ''Markdown'')] extra)))))]) \<and>
   guarded ctx ''sendMessage'' (replyWithMarkdownV2 ctx markdown extra)
     (chat ctx = JUndefined) (\<not> nullish (chat ctx))
     (Call ''sendMessage''
        [opt_member (chat ctx) ''id'', markdown,
         JObj (spread [(''message_thread_id'', default_thread_id (lookup (update ctx) ''message''))]
                (Some (spread [(''reply_to_message_id'', opt_member (getMessageFromAnySource ctx) ''message_id'')]
                (Some (spread [(''parse_mode'', JStr ''MarkdownV2'')] extra)))))]) \<and>
   guarded ctx ''sendMessage'' (replyWithHTML ctx html extra)
     (chat ctx = JUndefined) (\<not> nullish (chat ctx))
     (Call ''sendMessage''
        [opt_member (chat ctx) ''id'', html,
         JObj (spread [(''message_thread_id'', default_thread_id (lookup (update ctx) ''message''))]
                (Some (spread [(''reply_to_message_id'', opt_member (getMessageFromAnySource ctx) ''message_id'')]
                (Some (spread [(''parse_mode'', JStr ''HTML'')] extra)))))]) \<and>
   guarded ctx ''deleteMessage'' (deleteMessage ctx messageId)
     (chat ctx = JUndefined \<or> messageId = JUndefined \<and> getMessageFromAnySource ctx = JUndefined)
     (\<not> nullish (chat ctx) \<and> (messageId = JUndefined \<longrightarrow> \<not> nullish (getMessageFromAnySource ctx)))
     (Call ''deleteMessage''
        [opt_member (chat ctx) ''id'',
         if messageId \<noteq> JUndefined then messageId
         else opt_member (getMessageFromAnySource ctx) ''message_id'']) \<and>
   guarded ctx ''forwardMessage'' (forwardMessage ctx chatId extra')
     (getMessageFromAnySource ctx = JUndefined)
     (\<not> nullish (opt_member (getMessageFromAnySource ctx) ''chat''))
     (Call ''forwardMessage''
        [chatId, opt_member (opt_member (getMessageFromAnySource ctx) ''chat'') ''id'',
         opt_member (getMessageFromAnySource ctx) ''message_id'', extra']) \<and>
   guarded ctx ''copyMessage'' (copyMessage ctx chatId extra')
     (getMessageFromAnySource ctx = JUndefined)
     (\<not> nullish (opt_member (getMessageFromAnySource ctx) ''chat''))
     (Call ''copyMessage''
        [chatId, opt_member (opt_member (getMessageFromAnySource ctx) ''chat'') ''id'',
         opt_member (getMessageFromAnySource ctx) ''message_id'', extra']) \<and>
   guarded ctx ''approveChatJoinRequest'' (approveChatJoinRequest ctx userId)
     (chat ctx = JUndefined) (\<not> nullish (chat ctx))
     (Call ''approveChatJoinRequest'' [opt_member (chat ctx) ''id'', userId]) \<and>
   guarded ctx ''declineChatJoinRequest'' (declineChatJoinRequest ctx userId)
     (chat ctx = JUndefined) (\<not> nullish (chat ctx))
     (Call ''declineChatJoinRequest'' [opt_member (chat ctx) ''id'', userId]) \<and>
   guarded ctx ''banChatSenderChat'' (banChatSenderChat ctx senderChatId)
     (chat ctx = JUndefined) (\<not> nullish (chat ctx))
     (Call ''banChatSenderChat'' [opt_member (chat ctx) ''id'', senderChatId]) \<and>
   guarded ctx ''unbanChatSenderChat'' (unbanChatSenderChat ctx senderChatId)
     (chat ctx = JUndefined) (\<not> nullish (chat ctx))
     (Call ''unbanChatSenderChat'' [opt_member (chat ctx) ''id'', senderChatId]) \<and>
   guarded ctx ''setChatMenuButton'' (setChatMenuButton ctx menuButton)
     (chat ctx = JUndefined) (\<not> nullish (chat ctx))
     (Call ''setChatMenuButton''
        [JObj [(''chatId'', opt_member (chat ctx) ''id''), (''menuButton'', menuButton)]]) \<and>
   guarded ctx ''getChatMenuButton'' (getChatMenuButton ctx)
     (chat ctx = JUndefined) (\<not> nullish (chat ctx))
     (Call ''getChatMenuButton'' [JObj [(''chatId'', opt_member (chat ctx) ''id'')]])"
  by (intro conjI sendMessage_guarded getChat_guarded banChatMember_guarded reply_guarded
      answerInlineQuery_guarded answerCbQuery_guarded answerGameQuery_guarded
      answerShippingQuery_guarded answerPreCheckoutQuery_guarded editMessageText_guarded
      editMessageCaption_guarded editMessageMedia_guarded editMessageReplyMarkup_guarded
      editMessageLiveLocation_guarded stopMessageLiveLocation_guarded
      exportChatInviteLink_guarded createChatInviteLink_guarded editChatInviteLink_guarded
      revokeChatInviteLink_guarded unbanChatMember_guarded restrictChatMember_guarded
      promoteChatMember_guarded setChatAdministratorCustomTitle_guarded setChatPhoto_guarded
      deleteChatPhoto_guarded setChatTitle_guarded setChatDescription_guarded
      pinChatMessage_guarded unpinChatMessage_guarded unpinAllChatMessages_guarded
      leaveChat_guarded setChatPermissions_guarded getChatAdministrators_guarded
      getChatMember_guarded getChatMembersCount_guarded setPassportDataErrors_guarded
      sendPhoto_guarded replyWithPhoto_guarded sendMediaGroup_guarded
      replyWithMediaGroup_guarded sendAudio_guarded replyWithAudio_guarded sendDice_guarded
      replyWithDice_guarded sendDocument_guarded replyWithDocument_guarded sendSticker_guarded
      replyWithSticker_guarded sendVideo_guarded replyWithVideo_guarded sendAnimation_guarded
      replyWithAnimation_guarded sendVideoNote_guarded replyWithVideoNote_guarded
      sendInvoice_guarded replyWithInvoice_guarded sendGame_guarded replyWithGame_guarded
      sendVoice_guarded replyWithVoice_guarded sendPoll_guarded replyWithPoll_guarded
      sendQuiz_guarded replyWithQuiz_guarded stopPoll_guarded sendChatAction_guarded
      sendLocation_guarded replyWithLocation_guarded sendVenue_guarded replyWithVenue_guarded
      sendContact_guarded replyWithContact_guarded setChatStickerSet_guarded
      deleteChatStickerSet_guarded createForumTopic_guarded editForumTopic_guarded_chat
      closeForumTopic_guarded_chat reopenForumTopic_guarded_chat deleteForumTopic_guarded_chat
      unpinAllForumTopicMessages_guarded_chat uploadStickerFile_guarded
      createNewStickerSet_guarded addStickerToSet_guarded replyWithMarkdown_guarded
      replyWithMarkdownV2_guarded replyWithHTML_guarded deleteMessage_guarded
      forwardMessage_guarded copyMessage_guarded approveChatJoinRequest_guarded
      declineChatJoinRequest_guarded banChatSenderChat_guarded unbanChatSenderChat_guarded
      setChatMenuButton_guarded getChatMenuButton_guarded)

theorem guarded_operations_witness:
  "chat \<lparr>update = [(''update_id'', JNum 7), (''poll'', JObj [(''id'', JStr ''p'')])], botInfo = JUndefined\<rparr> = JUndefined \<and>
   updateType \<lparr>update = [(''update_id'', JNum 7), (''poll'', JObj [(''id'', JStr ''p'')])], botInfo = JUndefined\<rparr> = Inr ''poll'' \<and>
   sendMessage \<lparr>update = [(''update_id'', JNum 7), (''poll'', JObj [(''id'', JStr ''p'')])], botInfo = JUndefined\<rparr> (JStr ''hi'') None =
     Inl (TypeError
       (''Telegraf: '' @ [CHR 0x22] @ ''sendMessage'' @ [CHR 0x22] @ '' isn't available for '' @
        [CHR 0x22] @ ''poll'' @ [CHR 0x22])) \<and>
   getChat \<lparr>update = [(''update_id'', JNum 7), (''poll'', JObj [(''id'', JStr ''p'')])], botInfo = JUndefined\<rparr> [] =
     Inl (TypeError
       (''Telegraf: '' @ [CHR 0x22] @ ''getChat'' @ [CHR 0x22] @ '' isn't available for '' @
        [CHR 0x22] @ ''poll'' @ [CHR 0x22])) \<and>
   \<not> nullish (chat \<lparr>update = [(''update_id'', JNum 8), (''message'', JObj [(''message_id'', JNum 3), (''chat'', JObj [(''id'', JNum 43)])])], botInfo = JUndefined\<rparr>) \<and>
   sendMessage \<lparr>update = [(''update_id'', JNum 8), (''message'', JObj [(''message_id'', JNum 3), (''chat'', JObj [(''id'', JNum 43)])])], botInfo = JUndefined\<rparr> (JStr ''hi'') None =
     Inr (Call ''sendMessage'' [JNum 43, JStr ''hi'', JObj [(''message_thread_id'', JUndefined)]]) \<and>
   getChat \<lparr>update = [(''update_id'', JNum 8), (''message'', JObj [(''message_id'', JNum 3), (''chat'', JObj [(''id'', JNum 43)])])], botInfo = JUndefined\<rparr> [] = Inr (Call ''getChat'' [JNum 43])"
proof -
  let ?p = "\<lparr>update = [(''update_id'', JNum 7), (''poll'', JObj [(''id'', JStr ''p'')])], botInfo = JUndefined\<rparr>"
  let ?m = "\<lparr>update = [(''update_id'', JNum 8), (''message'', JObj [(''message_id'', JNum 3), (''chat'', JObj [(''id'', JNum 43)])])], botInfo = JUndefined\<rparr>"
  have cp: "chat ?p = JUndefined" and cm: "chat ?m = JObj [(''id'', JNum 43)]"
    by (simp_all add: accessor_defs)
  have kp: "updateType ?p = Inr ''poll''"
    by (simp add: updateType_def)
  have "guarded ?p ''sendMessage'' (sendMessage ?p (JStr ''hi'') None)
          (chat ?p = JUndefined) (\<not> nullish (chat ?p))
          (Call ''sendMessage'' [opt_member (chat ?p) ''id'', (JStr ''hi''),
             JObj (spread [(''message_thread_id'', default_thread_id (lookup (update ?p) ''message''))] None)])"
    by (rule guarded_operations [THEN conjunct1])
  with cp kp have rp:
    "sendMessage ?p (JStr ''hi'') None =
       Inl (TypeError
         (''Telegraf: '' @ [CHR 0x22] @ ''sendMessage'' @ [CHR 0x22] @ '' isn't available for '' @
        [CHR 0x22] @ ''poll'' @ [CHR 0x22]))"
    by (simp add: guarded_def)
  have "guarded ?p ''getChat'' (getChat ?p [])
          (chat ?p = JUndefined) (\<not> nullish (chat ?p))
          (Call ''getChat'' (opt_member (chat ?p) ''id'' # []))"
    by (rule guarded_operations [THEN conjunct2, THEN conjunct1])
  with cp kp have gp:
    "getChat ?p [] =
       Inl (TypeError
         (''Telegraf: '' @ [CHR 0x22] @ ''getChat'' @ [CHR 0x22] @ '' isn't available for '' @
        [CHR 0x22] @ ''poll'' @ [CHR 0x22]))"
    by (simp add: guarded_def)
  have "guarded ?m ''sendMessage'' (sendMessage ?m (JStr ''hi'') None)
          (chat ?m = JUndefined) (\<not> nullish (chat ?m))
          (Call ''sendMessage'' [opt_member (chat ?m) ''id'', (JStr ''hi''),
             JObj (spread [(''message_thread_id'', default_thread_id (lookup (update ?m) ''message''))] None)])"
    by (rule guarded_operations [THEN conjunct1])
  with cm have
    "sendMessage ?m (JStr ''hi'') None =
       Inr (Call ''sendMessage'' [opt_member (chat ?m) ''id'', (JStr ''hi''),
         JObj (spread [(''message_thread_id'', default_thread_id (lookup (update ?m) ''message''))] None)])"
    by (simp add: guarded_def)
  then have rm:
    "sendMessage ?m (JStr ''hi'') None =
       Inr (Call ''sendMessage'' [JNum 43, JStr ''hi'', JObj [(''message_thread_id'', JUndefined)]])"
    by (simp add: cm spread_def default_thread_id_def)
  have "guarded ?m ''getChat'' (getChat ?m [])
          (chat ?m = JUndefined) (\<not> nullish (chat ?m))
          (Call ''getChat'' (opt_member (chat ?m) ''id'' # []))"
    by (rule guarded_operations [THEN conjunct2, THEN conjunct1])
  with cm have gm: "getChat ?m [] = Inr (Call ''getChat'' [JNum 43])"
    by (simp add: guarded_def)
  from cp kp rp gp cm rm gm show ?thesis by simp
qed

text \<open>
  C5 as stated fails for the reply operations. A poll Update has no chat, and on it
  \<^verbatim>\<open>reply\<close> fails with the usage error of \<^verbatim>\<open>sendMessage\<close>: the message names the send
  operation, not the reply operation that was called.
\<close>

theorem guarded_operations_counterexample:
  "chat \<lparr>update = [(''update_id'', JNum 7), (''poll'', JObj [(''id'', JStr ''p'')])], botInfo = JUndefined\<rparr> = JUndefined \<and>
   updateType \<lparr>update = [(''update_id'', JNum 7), (''poll'', JObj [(''id'', JStr ''p'')])], botInfo = JUndefined\<rparr> = Inr ''poll'' \<and>
   reply \<lparr>update = [(''update_id'', JNum 7), (''poll'', JObj [(''id'', JStr ''p'')])], botInfo = JUndefined\<rparr> (JStr ''hi'') None =
     Inl (TypeError
       (''Telegraf: '' @ [CHR 0x22] @ ''sendMessage'' @ [CHR 0x22] @ '' isn't available for '' @
        [CHR 0x22] @ ''poll'' @ [CHR 0x22])) \<and>
   reply \<lparr>update = [(''update_id'', JNum 7), (''poll'', JObj [(''id'', JStr ''p'')])], botInfo = JUndefined\<rparr> (JStr ''hi'') None \<noteq>
     Inl (TypeError
       (''Telegraf: '' @ [CHR 0x22] @ ''reply'' @ [CHR 0x22] @ '' isn't available for '' @
        [CHR 0x22] @ ''poll'' @ [CHR 0x22]))"
  by (simp add: reply_def sendMessage_def Let_def accessor_defs updateType_def assert_def and_then_def telegram_def getThreadId_def spread_def
      usage_message_def precedes_def index_of_def is_digit_def)



subsection \<open>Each reply operation\<close>

lemma reply_replies:
  "replies ctx (reply ctx text extra) ''sendMessage'' [text] extra
     (reply_defaults ctx)"
proof (cases "nullish (chat ctx)")
  case True
  then show ?thesis
    unfolding replies_def reply_def sendMessage_def Let_def
    by (auto simp: nullish_iff reply_simps and_then_Inl outcome_unavailable)
next
  case False
  then show ?thesis
    unfolding replies_def reply_def sendMessage_def Let_def
    by (simp add: reply_simps reply_params)
qed

lemma replyWithPhoto_replies:
  "replies ctx (replyWithPhoto ctx photo extra) ''sendPhoto'' [photo] extra
     (reply_defaults ctx)"
proof (cases "nullish (chat ctx)")
  case True
  then show ?thesis
    unfolding replies_def replyWithPhoto_def sendPhoto_def Let_def
    by (auto simp: nullish_iff reply_simps and_then_Inl outcome_unavailable)
next
  case False
  then show ?thesis
    unfolding replies_def replyWithPhoto_def sendPhoto_def Let_def
    by (simp add: reply_simps reply_params)
qed

lemma replyWithMediaGroup_replies:
  "replies ctx (replyWithMediaGroup ctx media extra) ''sendMediaGroup'' [media] extra
     (reply_defaults ctx)"
proof (cases "nullish (chat ctx)")
  case True
  then show ?thesis
    unfolding replies_def replyWithMediaGroup_def sendMediaGroup_def Let_def
    by (auto simp: nullish_iff reply_simps and_then_Inl outcome_unavailable)
next
  case False
  then show ?thesis
    unfolding replies_def replyWithMediaGroup_def sendMediaGroup_def Let_def
    by (simp add: reply_simps reply_params)
qed

lemma replyWithAudio_replies:
  "replies ctx (replyWithAudio ctx audio extra) ''sendAudio'' [audio] extra
     (reply_defaults ctx)"
proof (cases "nullish (chat ctx)")
  case True
  then show ?thesis
    unfolding replies_def replyWithAudio_def sendAudio_def Let_def
    by (auto simp: nullish_iff reply_simps and_then_Inl outcome_unavailable)
next
  case False
  then show ?thesis
    unfolding replies_def replyWithAudio_def sendAudio_def Let_def
    by (simp add: reply_simps reply_params)
qed

lemma replyWithDice_replies:
  "replies ctx (replyWithDice ctx extra) ''sendDice'' [] extra
     (reply_defaults ctx)"
proof (cases "nullish (chat ctx)")
  case True
  then show ?thesis
    unfolding replies_def replyWithDice_def sendDice_def Let_def
    by (auto simp: nullish_iff reply_simps and_then_Inl outcome_unavailable)
next
  case False
  then show ?thesis
    unfolding replies_def replyWithDice_def sendDice_def Let_def
    by (simp add: reply_simps reply_params)
qed

lemma replyWithDocument_replies:
  "replies ctx (replyWithDocument ctx document extra) ''sendDocument'' [document] extra
     (reply_defaults ctx)"
proof (cases "nullish (chat ctx)")
  case True
  then show ?thesis
    unfolding replies_def replyWithDocument_def sendDocument_def Let_def
    by (auto simp: nullish_iff reply_simps and_then_Inl outcome_unavailable)
next
  case False
  then show ?thesis
    unfolding replies_def replyWithDocument_def sendDocument_def Let_def
    by (simp add: reply_simps reply_params)
qed

lemma replyWithSticker_replies:
  "replies ctx (replyWithSticker ctx sticker extra) ''sendSticker'' [sticker] extra
     (reply_defaults ctx)"
proof (cases "nullish (chat ctx)")
  case True
  then show ?thesis
    unfolding replies_def replyWithSticker_def sendSticker_def Let_def
    by (auto simp: nullish_iff reply_simps and_then_Inl outcome_unavailable)
next
  case False
  then show ?thesis
    unfolding replies_def replyWithSticker_def sendSticker_def Let_def
    by (simp add: reply_simps reply_params)
qed

lemma replyWithVideo_replies:
  "replies ctx (replyWithVideo ctx video extra) ''sendVideo'' [video] extra
     (reply_defaults ctx)"
proof (cases "nullish (chat ctx)")
  case True
  then show ?thesis
    unfolding replies_def replyWithVideo_def sendVideo_def Let_def
    by (auto simp: nullish_iff reply_simps and_then_Inl outcome_unavailable)
next
  case False
  then show ?thesis
    unfolding replies_def replyWithVideo_def sendVideo_def Let_def
    by (simp add: reply_simps reply_params)
qed

lemma replyWithAnimation_replies:
  "replies ctx (replyWithAnimation ctx animation extra) ''sendAnimation'' [animation] extra
     (reply_defaults ctx)"
proof (cases "nullish (chat ctx)")
  case True
  then show ?thesis
    unfolding replies_def replyWithAnimation_def sendAnimation_def Let_def
    by (auto simp: nullish_iff reply_simps and_then_Inl outcome_unavailable)
next
  case False
  then show ?thesis
    unfolding replies_def replyWithAnimation_def sendAnimation_def Let_def
    by (simp add: reply_simps reply_params)
qed

lemma replyWithVideoNote_replies:
  "replies ctx (replyWithVideoNote ctx videoNote extra) ''sendVideoNote'' [videoNote] extra
     (reply_defaults ctx)"
proof (cases "nullish (chat ctx)")
  case True
  then show ?thesis
    unfolding replies_def replyWithVideoNote_def sendVideoNote_def Let_def
    by (auto simp: nullish_iff reply_simps and_then_Inl outcome_unavailable)
next
  case False
  then show ?thesis
    unfolding replies_def replyWithVideoNote_def sendVideoNote_def Let_def
    by (simp add: reply_simps reply_params)
qed

lemma replyWithInvoice_replies:
  "replies ctx (replyWithInvoice ctx invoice extra) ''sendInvoice'' [invoice] extra
     (reply_defaults ctx)"
proof (cases "nullish (chat ctx)")
  case True
  then show ?thesis
    unfolding replies_def replyWithInvoice_def sendInvoice_def Let_def
    by (auto simp: nullish_iff reply_simps and_then_Inl outcome_unavailable)
next
  case False
  then show ?thesis
    unfolding replies_def replyWithInvoice_def sendInvoice_def Let_def
    by (simp add: reply_simps reply_params)
qed

lemma replyWithGame_replies:
  "replies ctx (replyWithGame ctx gameName extra) ''sendGame'' [gameName] extra
     (reply_defaults ctx)"
proof (cases "nullish (chat ctx)")
  case True
  then show ?thesis
    unfolding replies_def replyWithGame_def sendGame_def Let_def
    by (auto simp: nullish_iff reply_simps and_then_Inl outcome_unavailable)
next
  case False
  then show ?thesis
    unfolding replies_def replyWithGame_def sendGame_def Let_def
    by (simp add: reply_simps reply_params)
qed

lemma replyWithVoice_replies:
  "replies ctx (replyWithVoice ctx voice extra) ''sendVoice'' [voice] extra
     (reply_defaults ctx)"
proof (cases "nullish (chat ctx)")
  case True
  then show ?thesis
    unfolding replies_def replyWithVoice_def sendVoice_def Let_def
    by (auto simp: nullish_iff reply_simps and_then_Inl outcome_unavailable)
next
  case False
  then show ?thesis
    unfolding replies_def replyWithVoice_def sendVoice_def Let_def
    by (simp add: reply_simps reply_params)
qed

lemma replyWithPoll_replies:
  "replies ctx (replyWithPoll ctx question options extra) ''sendPoll'' [question, options] extra
     (reply_defaults ctx)"
proof (cases "nullish (chat ctx)")
  case True
  then show ?thesis
    unfolding replies_def replyWithPoll_def sendPoll_def Let_def
    by (auto simp: nullish_iff reply_simps and_then_Inl outcome_unavailable)
next
  case False
  then show ?thesis
    unfolding replies_def replyWithPoll_def sendPoll_def Let_def
    by (simp add: reply_simps reply_params)
qed

lemma replyWithQuiz_replies:
  "replies ctx (replyWithQuiz ctx question options extra) ''sendQuiz'' [question, options] extra
     (reply_defaults ctx)"
proof (cases "nullish (chat ctx)")
  case True
  then show ?thesis
    unfolding replies_def replyWithQuiz_def sendQuiz_def Let_def
    by (auto simp: nullish_iff reply_simps and_then_Inl outcome_unavailable)
next
  case False
  then show ?thesis
    unfolding replies_def replyWithQuiz_def sendQuiz_def Let_def
    by (simp add: reply_simps reply_params)
qed

lemma replyWithLocation_replies:
  "replies ctx (replyWithLocation ctx latitude longitude extra) ''sendLocation'' [latitude, longitude] extra
     (reply_defaults ctx)"
proof (cases "nullish (chat ctx)")
  case True
  then show ?thesis
    unfolding replies_def replyWithLocation_def sendLocation_def Let_def
    by (auto simp: nullish_iff reply_simps and_then_Inl outcome_unavailable)
next
  case False
  then show ?thesis
    unfolding replies_def replyWithLocation_def sendLocation_def Let_def
    by (simp add: reply_simps reply_params)
qed

lemma replyWithVenue_replies:
  "replies ctx (replyWithVenue ctx latitude longitude title address extra) ''sendVenue'' [latitude, longitude, title, address] extra
     (reply_defaults ctx)"
proof (cases "nullish (chat ctx)")
  case True
  then show ?thesis
    unfolding replies_def replyWithVenue_def sendVenue_def Let_def
    by (auto simp: nullish_iff reply_simps and_then_Inl outcome_unavailable)
next
  case False
  then show ?thesis
    unfolding replies_def replyWithVenue_def sendVenue_def Let_def
    by (simp add: reply_simps reply_params)
qed

lemma replyWithContact_replies:
  "replies ctx (replyWithContact ctx phoneNumber firstName extra) ''sendContact'' [phoneNumber, firstName] extra
     (reply_defaults ctx)"
proof (cases "nullish (chat ctx)")
  case True
  then show ?thesis
    unfolding replies_def replyWithContact_def sendContact_def Let_def
    by (auto simp: nullish_iff reply_simps and_then_Inl outcome_unavailable)
next
  case False
  then show ?thesis
    unfolding replies_def replyWithContact_def sendContact_def Let_def
    by (simp add: reply_simps reply_params)
qed

lemma replyWithMarkdown_replies:
  "replies ctx (replyWithMarkdown ctx markdown extra) ''sendMessage'' [markdown] extra
     ((''parse_mode'', JStr ''Markdown'') # reply_defaults ctx)"
proof (cases "nullish (chat ctx)")
  case True
  then show ?thesis
    unfolding replies_def replyWithMarkdown_def reply_def sendMessage_def Let_def
    by (auto simp: nullish_iff reply_simps and_then_Inl outcome_unavailable)
next
  case False
  then show ?thesis
    unfolding replies_def replyWithMarkdown_def reply_def sendMessage_def Let_def
    by (simp add: reply_simps reply_params_parse_mode)
qed

lemma replyWithMarkdownV2_replies:
  "replies ctx (replyWithMarkdownV2 ctx markdown extra) ''sendMessage'' [markdown] extra
     ((''parse_mode'', JStr ''MarkdownV2'') # reply_defaults ctx)"
proof (cases "nullish (chat ctx)")
  case True
  then show ?thesis
    unfolding replies_def replyWithMarkdownV2_def reply_def sendMessage_def Let_def
    by (auto simp: nullish_iff reply_simps and_then_Inl outcome_unavailable)
next
  case False
  then show ?thesis
    unfolding replies_def replyWithMarkdownV2_def reply_def sendMessage_def Let_def
    by (simp add: reply_simps reply_params_parse_mode)
qed

lemma replyWithHTML_replies:
  "replies ctx (replyWithHTML ctx html extra) ''sendMessage'' [html] extra
     ((''parse_mode'', JStr ''HTML'') # reply_defaults ctx)"
proof (cases "nullish (chat ctx)")
  case True
  then show ?thesis
    unfolding replies_def replyWithHTML_def reply_def sendMessage_def Let_def
    by (auto simp: nullish_iff reply_simps and_then_Inl outcome_unavailable)
next
  case False
  then show ?thesis
    unfolding replies_def replyWithHTML_def reply_def sendMessage_def Let_def
    by (simp add: reply_simps reply_params_parse_mode)
qed

text \<open>
  C7, as amended. Every reply operation that reaches the transport passes, after the chat
  identifier and its own leading arguments, a parameter object that reads at every key
  as the caller's extras merged over the defaults of the operation: the reply target,
  whose value is the identifier of the message resolved from any message-bearing update,
  the default thread identifier of the send operation and, for the three formatted
  replies, the parse mode. On every key that the extras have the caller's value wins, so
  a caller-supplied reply target overrides the resolved one. The operation reaches the
  transport whenever the chat is resolved.
\<close>

theorem reply_operations_parameters:
  "replies ctx (reply ctx text extra) ''sendMessage'' [text] extra
     (reply_defaults ctx) \<and>
   replies ctx (replyWithPhoto ctx photo extra) ''sendPhoto'' [photo] extra
     (reply_defaults ctx) \<and>
   replies ctx (replyWithMediaGroup ctx media extra) ''sendMediaGroup'' [media] extra
     (reply_defaults ctx) \<and>
   replies ctx (replyWithAudio ctx audio extra) ''sendAudio'' [audio] extra
     (reply_defaults ctx) \<and>
   replies ctx (replyWithDice ctx extra) ''sendDice'' [] extra
     (reply_defaults ctx) \<and>
   replies ctx (replyWithDocument ctx document extra) ''sendDocument'' [document] extra
     (reply_defaults ctx) \<and>
   replies ctx (replyWithSticker ctx sticker extra) ''sendSticker'' [sticker] extra
     (reply_defaults ctx) \<and>
   replies ctx (replyWithVideo ctx video extra) ''sendVideo'' [video] extra
     (reply_defaults ctx) \<and>
   replies ctx (replyWithAnimation ctx animation extra) ''sendAnimation'' [animation] extra
     (reply_defaults ctx) \<and>
   replies ctx (replyWithVideoNote ctx videoNote extra) ''sendVideoNote'' [videoNote] extra
     (reply_defaults ctx) \<and>
   replies ctx (replyWithInvoice ctx invoice extra) ''sendInvoice'' [invoice] extra
     (reply_defaults ctx) \<and>
   replies ctx (replyWithGame ctx gameName extra) ''sendGame'' [gameName] extra
     (reply_defaults ctx) \<and>
   replies ctx (replyWithVoice ctx voice extra) ''sendVoice'' [voice] extra
     (reply_defaults ctx) \<and>
   replies ctx (replyWithPoll ctx question options extra) ''sendPoll'' [question, options] extra
     (reply_defaults ctx) \<and>
   replies ctx (replyWithQuiz ctx question options extra) ''sendQuiz'' [question, options] extra
     (reply_defaults ctx) \<and>
   replies ctx (replyWithLocation ctx latitude longitude extra) ''sendLocation'' [latitude, longitude] extra
     (reply_defaults ctx) \<and>
   replies ctx (replyWithVenue ctx latitude longitude title address extra) ''sendVenue'' [latitude, longitude, title, address] extra
     (reply_defaults ctx) \<and>
   replies ctx (replyWithContact ctx phoneNumber firstName extra) ''sendContact'' [phoneNumber, firstName] extra
     (reply_defaults ctx) \<and>
   replies ctx (replyWithMarkdown ctx markdown extra) ''sendMessage'' [markdown] extra
     ((''parse_mode'', JStr ''Markdown'') # reply_defaults ctx) \<and>
   replies ctx (replyWithMarkdownV2 ctx markdown extra) ''sendMessage'' [markdown] extra
     ((''parse_mode'', JStr ''MarkdownV2'') # reply_defaults ctx) \<and>
   replies ctx (replyWithHTML ctx html extra) ''sendMessage'' [html] extra
     ((''parse_mode'', JStr ''HTML'') # reply_defaults ctx)"
  by (intro conjI reply_replies replyWithPhoto_replies replyWithMediaGroup_replies
      replyWithAudio_replies replyWithDice_replies replyWithDocument_replies
      replyWithSticker_replies replyWithVideo_replies replyWithAnimation_replies
      replyWithVideoNote_replies replyWithInvoice_replies replyWithGame_replies
      replyWithVoice_replies replyWithPoll_replies replyWithQuiz_replies
      replyWithLocation_replies replyWithVenue_replies replyWithContact_replies
      replyWithMarkdown_replies replyWithMarkdownV2_replies replyWithHTML_replies)

theorem reply_operations_parameters_witness:
  "\<not> nullish (chat \<lparr>update = [(''update_id'', JNum 8), (''message'', JObj [(''message_id'', JNum 3), (''chat'', JObj [(''id'', JNum 43)])])], botInfo = JUndefined\<rparr>) \<and>
   \<not> isl (reply \<lparr>update = [(''update_id'', JNum 8), (''message'', JObj [(''message_id'', JNum 3), (''chat'', JObj [(''id'', JNum 43)])])], botInfo = JUndefined\<rparr> (JStr ''hi'') (Some [(''reply_to_message_id'', JNum 99), (''disable_notification'', JBool True)])) \<and>
   reply \<lparr>update = [(''update_id'', JNum 8), (''message'', JObj [(''message_id'', JNum 3), (''chat'', JObj [(''id'', JNum 43)])])], botInfo = JUndefined\<rparr> (JStr ''hi'') (Some [(''reply_to_message_id'', JNum 99), (''disable_notification'', JBool True)]) =
     Inr (Call ''sendMessage'' [JNum 43, JStr ''hi'',
       JObj [(''message_thread_id'', JUndefined), (''reply_to_message_id'', JNum 99), (''disable_notification'', JBool True)]]) \<and>
   lookup [(''message_thread_id'', JUndefined), (''reply_to_message_id'', JNum 99), (''disable_notification'', JBool True)] ''reply_to_message_id'' =
     merged_over (Some [(''reply_to_message_id'', JNum 99), (''disable_notification'', JBool True)]) (reply_defaults \<lparr>update = [(''update_id'', JNum 8), (''message'', JObj [(''message_id'', JNum 3), (''chat'', JObj [(''id'', JNum 43)])])], botInfo = JUndefined\<rparr>) ''reply_to_message_id'' \<and>
   merged_over (Some [(''reply_to_message_id'', JNum 99), (''disable_notification'', JBool True)]) (reply_defaults \<lparr>update = [(''update_id'', JNum 8), (''message'', JObj [(''message_id'', JNum 3), (''chat'', JObj [(''id'', JNum 43)])])], botInfo = JUndefined\<rparr>) ''reply_to_message_id'' = JNum 99 \<and>
   merged_over None (reply_defaults \<lparr>update = [(''update_id'', JNum 8), (''message'', JObj [(''message_id'', JNum 3), (''chat'', JObj [(''id'', JNum 43)])])], botInfo = JUndefined\<rparr>) ''reply_to_message_id'' = JNum 3"
proof -
  let ?m = "\<lparr>update = [(''update_id'', JNum 8), (''message'', JObj [(''message_id'', JNum 3), (''chat'', JObj [(''id'', JNum 43)])])], botInfo = JUndefined\<rparr>"
  let ?ex = "(Some [(''reply_to_message_id'', JNum 99), (''disable_notification'', JBool True)])"
  let ?ps = "[(''message_thread_id'', JUndefined), (''reply_to_message_id'', JNum 99), (''disable_notification'', JBool True)]"
  have cm: "chat ?m = JObj [(''id'', JNum 43)]"
    by (simp add: accessor_defs)
  have r: "replies ?m (reply ?m (JStr ''hi'') ?ex) ''sendMessage'' [(JStr ''hi'')] ?ex (reply_defaults ?m)"
    by (rule reply_operations_parameters [THEN conjunct1])
  from r cm have reached: "\<not> isl (reply ?m (JStr ''hi'') ?ex)"
    by (simp add: replies_def)
  have ev: "reply ?m (JStr ''hi'') ?ex = Inr (Call ''sendMessage'' [JNum 43, JStr ''hi'', JObj ?ps])"
    by (simp add: reply_def sendMessage_def Let_def accessor_defs updateType_def assert_def and_then_def telegram_def getThreadId_def spread_def
      usage_message_def precedes_def index_of_def is_digit_def)
  from r ev obtain params where
    "Call ''sendMessage'' [JNum 43, JStr ''hi'', JObj ?ps] =
       Call ''sendMessage'' (opt_member (chat ?m) ''id'' # [(JStr ''hi'')] @ [JObj params])"
    and merged: "\<forall>key. lookup params key = merged_over ?ex (reply_defaults ?m) key"
    unfolding replies_def by blast
  then have "params = ?ps" by simp
  with merged have m1: "lookup ?ps ''reply_to_message_id'' = merged_over ?ex (reply_defaults ?m) ''reply_to_message_id''"
    by blast
  have m2: "merged_over ?ex (reply_defaults ?m) ''reply_to_message_id'' = JNum 99"
    and m3: "merged_over None (reply_defaults ?m) ''reply_to_message_id'' = JNum 3"
    by (simp_all add: merged_over_def reply_defaults_def accessor_defs)
  from cm reached ev m1 m2 m3 show ?thesis by simp
qed

text \<open>
  C7 as stated fails on a topic message: the parameters passed also carry the thread
  identifier of the message, which the extras merged over the reply target alone do not
  have. The formatted replies carry a parse mode as well.
\<close>

theorem reply_operations_counterexample:
  "reply \<lparr>update = [(''update_id'', JNum 11), (''message'', JObj [(''message_id'', JNum 3), (''message_thread_id'', JNum 5), (''is_topic_message'', JBool True), (''chat'', JObj [(''id'', JNum 43)])])], botInfo = JUndefined\<rparr> (JStr ''hi'') None =
     Inr (Call ''sendMessage'' [JNum 43, JStr ''hi'',
       JObj [(''message_thread_id'', JNum 5), (''reply_to_message_id'', JNum 3)]]) \<and>
   merged_over None
     [(''reply_to_message_id'', opt_member (getMessageFromAnySource \<lparr>update = [(''update_id'', JNum 11), (''message'', JObj [(''message_id'', JNum 3), (''message_thread_id'', JNum 5), (''is_topic_message'', JBool True), (''chat'', JObj [(''id'', JNum 43)])])], botInfo = JUndefined\<rparr>) ''message_id'')] ''message_thread_id'' =
     JUndefined \<and>
   replyWithHTML \<lparr>update = [(''update_id'', JNum 8), (''message'', JObj [(''message_id'', JNum 3), (''chat'', JObj [(''id'', JNum 43)])])], botInfo = JUndefined\<rparr> (JStr ''hi'') None =
     Inr (Call ''sendMessage'' [JNum 43, JStr ''hi'',
       JObj [(''message_thread_id'', JUndefined), (''reply_to_message_id'', JNum 3), (''parse_mode'', JStr ''HTML'')]]) \<and>
   merged_over None
     [(''reply_to_message_id'', opt_member (getMessageFromAnySource \<lparr>update = [(''update_id'', JNum 8), (''message'', JObj [(''message_id'', JNum 3), (''chat'', JObj [(''id'', JNum 43)])])], botInfo = JUndefined\<rparr>) ''message_id'')] ''parse_mode'' =
     JUndefined"
  by (simp add: replyWithHTML_def reply_def sendMessage_def Let_def merged_over_def accessor_defs updateType_def assert_def and_then_def telegram_def getThreadId_def spread_def
      usage_message_def precedes_def index_of_def is_digit_def)

text \<open>
  C8. Every forum topic operation that addresses an existing topic fails synchronously,
  before the transport is reached, when the originating message lacks a thread
  identifier, on an Update that has a kind with the usage error that names the operation
  and the kind. When the message has a thread identifier and the chat is resolved, the
  operation reaches the transport with the chat identifier and that thread identifier.
\<close>

theorem forum_topic_operations:
  "guarded ctx ''editForumTopic'' (editForumTopic ctx extra')
     (opt_member (lookup (update ctx) ''message'') ''message_thread_id'' = JUndefined)
     (\<not> nullish (chat ctx) \<and>
      \<not> nullish (opt_member (lookup (update ctx) ''message'') ''message_thread_id''))
     (Call ''editForumTopic''
        [opt_member (chat ctx) ''id'', opt_member (lookup (update ctx) ''message'') ''message_thread_id'', extra']) \<and>
   guarded ctx ''closeForumTopic'' (closeForumTopic ctx)
     (opt_member (lookup (update ctx) ''message'') ''message_thread_id'' = JUndefined)
     (\<not> nullish (chat ctx) \<and>
      \<not> nullish (opt_member (lookup (update ctx) ''message'') ''message_thread_id''))
     (Call ''closeForumTopic''
        [opt_member (chat ctx) ''id'', opt_member (lookup (update ctx) ''message'') ''message_thread_id'']) \<and>
   guarded ctx ''reopenForumTopic'' (reopenForumTopic ctx)
     (opt_member (lookup (update ctx) ''message'') ''message_thread_id'' = JUndefined)
     (\<not> nullish (chat ctx) \<and>
      \<not> nullish (opt_member (lookup (update ctx) ''message'') ''message_thread_id''))
     (Call ''reopenForumTopic''
        [opt_member (chat ctx) ''id'', opt_member (lookup (update ctx) ''message'') ''message_thread_id'']) \<and>
   guarded ctx ''deleteForumTopic'' (deleteForumTopic ctx)
     (opt_member (lookup (update ctx) ''message'') ''message_thread_id'' = JUndefined)
     (\<not> nullish (chat ctx) \<and>
      \<not> nullish (opt_member (lookup (update ctx) ''message'') ''message_thread_id''))
     (Call ''deleteForumTopic''
        [opt_member (chat ctx) ''id'', opt_member (lookup (update ctx) ''message'') ''message_thread_id'']) \<and>
   guarded ctx ''unpinAllForumTopicMessages'' (unpinAllForumTopicMessages ctx)
     (opt_member (lookup (update ctx) ''message'') ''message_thread_id'' = JUndefined)
     (\<not> nullish (chat ctx) \<and>
      \<not> nullish (opt_member (lookup (update ctx) ''message'') ''message_thread_id''))
     (Call ''unpinAllForumTopicMessages''
        [opt_member (chat ctx) ''id'', opt_member (lookup (update ctx) ''message'') ''message_thread_id''])"
  by (intro conjI editForumTopic_guarded_thread closeForumTopic_guarded_thread
      reopenForumTopic_guarded_thread deleteForumTopic_guarded_thread
      unpinAllForumTopicMessages_guarded_thread)

theorem forum_topic_operations_witness:
  "\<not> nullish (opt_member (lookup (update \<lparr>update = [(''update_id'', JNum 11), (''message'', JObj [(''message_id'', JNum 3), (''message_thread_id'', JNum 5), (''chat'', JObj [(''id'', JNum 43)])])], botInfo = JUndefined\<rparr>) ''message'') ''message_thread_id'') \<and>
   \<not> nullish (chat \<lparr>update = [(''update_id'', JNum 11), (''message'', JObj [(''message_id'', JNum 3), (''message_thread_id'', JNum 5), (''chat'', JObj [(''id'', JNum 43)])])], botInfo = JUndefined\<rparr>) \<and>
   editForumTopic \<lparr>update = [(''update_id'', JNum 11), (''message'', JObj [(''message_id'', JNum 3), (''message_thread_id'', JNum 5), (''chat'', JObj [(''id'', JNum 43)])])], botInfo = JUndefined\<rparr> (JObj [(''name'', JStr ''n'')]) =
     Inr (Call ''editForumTopic'' [JNum 43, JNum 5, JObj [(''name'', JStr ''n'')]]) \<and>
   opt_member (lookup (update \<lparr>update = [(''update_id'', JNum 8), (''message'', JObj [(''message_id'', JNum 3), (''chat'', JObj [(''id'', JNum 43)])])], botInfo = JUndefined\<rparr>) ''message'') ''message_thread_id'' = JUndefined \<and>
   updateType \<lparr>update = [(''update_id'', JNum 8), (''message'', JObj [(''message_id'', JNum 3), (''chat'', JObj [(''id'', JNum 43)])])], botInfo = JUndefined\<rparr> = Inr ''message'' \<and>
   editForumTopic \<lparr>update = [(''update_id'', JNum 8), (''message'', JObj [(''message_id'', JNum 3), (''chat'', JObj [(''id'', JNum 43)])])], botInfo = JUndefined\<rparr> (JObj [(''name'', JStr ''n'')]) =
     Inl (TypeError
       (''Telegraf: '' @ [CHR 0x22] @ ''editForumTopic'' @ [CHR 0x22] @ '' isn't available for '' @
        [CHR 0x22] @ ''message'' @ [CHR 0x22]))"
proof -
  let ?t = "\<lparr>update = [(''update_id'', JNum 11), (''message'', JObj [(''message_id'', JNum 3), (''message_thread_id'', JNum 5), (''chat'', JObj [(''id'', JNum 43)])])], botInfo = JUndefined\<rparr>"
  let ?m = "\<lparr>update = [(''update_id'', JNum 8), (''message'', JObj [(''message_id'', JNum 3), (''chat'', JObj [(''id'', JNum 43)])])], botInfo = JUndefined\<rparr>"
  let ?x = "JObj [(''name'', JStr ''n'')]"
  have tt: "opt_member (lookup (update ?t) ''message'') ''message_thread_id'' = JNum 5"
    and tm: "opt_member (lookup (update ?m) ''message'') ''message_thread_id'' = JUndefined"
    by simp_all
  have ct: "chat ?t = JObj [(''id'', JNum 43)]"
    by (simp add: accessor_defs)
  have km: "updateType ?m = Inr ''message''"
    by (simp add: updateType_def)
  have gt: "guarded ?t ''editForumTopic'' (editForumTopic ?t ?x)
          (opt_member (lookup (update ?t) ''message'') ''message_thread_id'' = JUndefined)
          (\<not> nullish (chat ?t) \<and>
           \<not> nullish (opt_member (lookup (update ?t) ''message'') ''message_thread_id''))
          (Call ''editForumTopic'' [opt_member (chat ?t) ''id'',
             opt_member (lookup (update ?t) ''message'') ''message_thread_id'', ?x])"
    and gm: "guarded ?m ''editForumTopic'' (editForumTopic ?m ?x)
          (opt_member (lookup (update ?m) ''message'') ''message_thread_id'' = JUndefined)
          (\<not> nullish (chat ?m) \<and>
           \<not> nullish (opt_member (lookup (update ?m) ''message'') ''message_thread_id''))
          (Call ''editForumTopic'' [opt_member (chat ?m) ''id'',
             opt_member (lookup (update ?m) ''message'') ''message_thread_id'', ?x])"
    by (rule forum_topic_operations [THEN conjunct1])+
  from gt tt ct have rt:
    "editForumTopic ?t ?x = Inr (Call ''editForumTopic'' [JNum 43, JNum 5, ?x])"
    by (simp add: guarded_def)
  from gm tm km have rm:
    "editForumTopic ?m ?x =
       Inl (TypeError
         (''Telegraf: '' @ [CHR 0x22] @ ''editForumTopic'' @ [CHR 0x22] @ '' isn't available for '' @
        [CHR 0x22] @ ''message'' @ [CHR 0x22]))"
    by (simp add: guarded_def)
  from tt ct rt tm km rm show ?thesis by simp
qed

section \<open>Any message-bearing update\<close>

lemma first_defined_Some: "first_defined cs = Some m \<Longrightarrow> \<not> nullish m"
  by (induction cs) (simp_all add: first_defined_Nil first_defined_Cons split: if_splits)

lemma forwardMessage_no_message:
  "nullish (getMessageFromAnySource ctx) \<Longrightarrow> isl (forwardMessage ctx chatId extra)"
  unfolding forwardMessage_def
  by (auto simp: nullish_iff reply_simps and_then_Inl outcome_unavailable_isl)

lemma copyMessage_no_message:
  "nullish (getMessageFromAnySource ctx) \<Longrightarrow> isl (copyMessage ctx chatId extra)"
  unfolding copyMessage_def
  by (auto simp: nullish_iff reply_simps and_then_Inl outcome_unavailable_isl)

lemma deleteMessage_no_message:
  "nullish (getMessageFromAnySource ctx) \<Longrightarrow> isl (deleteMessage ctx JUndefined)"
  unfolding deleteMessage_def
  by (cases "chat ctx = JUndefined"; cases "chat ctx = JNull")
    (auto simp: nullish_iff reply_simps and_then_Inl outcome_unavailable_isl)

lemma forwardMessage_resolved:
  "\<not> nullish (opt_member (getMessageFromAnySource ctx) ''chat'') \<Longrightarrow>
   forwardMessage ctx chatId extra =
     Inr (Call ''forwardMessage''
       [chatId, opt_member (opt_member (getMessageFromAnySource ctx) ''chat'') ''id'',
        opt_member (getMessageFromAnySource ctx) ''message_id'', extra])"
  using forwardMessage_guarded [of ctx chatId extra] by (simp add: guarded_def)

lemma copyMessage_resolved:
  "\<not> nullish (opt_member (getMessageFromAnySource ctx) ''chat'') \<Longrightarrow>
   copyMessage ctx chatId extra =
     Inr (Call ''copyMessage''
       [chatId, opt_member (opt_member (getMessageFromAnySource ctx) ''chat'') ''id'',
        opt_member (getMessageFromAnySource ctx) ''message_id'', extra])"
  using copyMessage_guarded [of ctx chatId extra] by (simp add: guarded_def)

lemma deleteMessage_resolved:
  "\<not> nullish (chat ctx) \<Longrightarrow> \<not> nullish (getMessageFromAnySource ctx) \<Longrightarrow>
   deleteMessage ctx JUndefined =
     Inr (Call ''deleteMessage''
       [opt_member (chat ctx) ''id'', opt_member (getMessageFromAnySource ctx) ''message_id''])"
  using deleteMessage_guarded [of ctx JUndefined] by (simp add: guarded_def)

lemma any_source_found:
  assumes "first_defined [lookup (update ctx) ''message'',
                      lookup (update ctx) ''edited_message'',
                      opt_member (lookup (update ctx) ''callback_query'') ''message'',
                      lookup (update ctx) ''channel_post'',
                      lookup (update ctx) ''edited_channel_post''] = Some m"
  shows "getMessageFromAnySource ctx = m" and "\<not> nullish m"
  using getMessageFromAnySource_first_defined [of ctx] first_defined_Some [OF assms] assms
  by simp_all

lemma any_source_none:
  assumes "first_defined [lookup (update ctx) ''message'',
                      lookup (update ctx) ''edited_message'',
                      opt_member (lookup (update ctx) ''callback_query'') ''message'',
                      lookup (update ctx) ''channel_post'',
                      lookup (update ctx) ''edited_channel_post''] = None"
  shows "nullish (getMessageFromAnySource ctx)"
  using getMessageFromAnySource_first_defined [of ctx] assms by simp

lemma any_source_uses:
  "case first_defined [lookup (update ctx) ''message'',
                      lookup (update ctx) ''edited_message'',
                      opt_member (lookup (update ctx) ''callback_query'') ''message'',
                      lookup (update ctx) ''channel_post'',
                      lookup (update ctx) ''edited_channel_post''] of
      Some m \<Rightarrow>
        getMessageFromAnySource ctx = m \<and>
        senderChat ctx = opt_member m ''sender_chat'' \<and>
        (\<not> nullish (chat ctx) \<longrightarrow>
           deleteMessage ctx JUndefined =
             Inr (Call ''deleteMessage'' [opt_member (chat ctx) ''id'', opt_member m ''message_id''])) \<and>
        (\<not> nullish (opt_member m ''chat'') \<longrightarrow>
           forwardMessage ctx chatId extra' =
             Inr (Call ''forwardMessage''
               [chatId, opt_member (opt_member m ''chat'') ''id'', opt_member m ''message_id'',
                extra']) \<and>
           copyMessage ctx chatId extra' =
             Inr (Call ''copyMessage''
               [chatId, opt_member (opt_member m ''chat'') ''id'', opt_member m ''message_id'',
                extra']))
    | None \<Rightarrow>
        nullish (getMessageFromAnySource ctx) \<and>
        senderChat ctx = JUndefined \<and>
        isl (deleteMessage ctx JUndefined) \<and>
        isl (forwardMessage ctx chatId extra') \<and>
        isl (copyMessage ctx chatId extra')"
proof (cases "first_defined [lookup (update ctx) ''message'',
                      lookup (update ctx) ''edited_message'',
                      opt_member (lookup (update ctx) ''callback_query'') ''message'',
                      lookup (update ctx) ''channel_post'',
                      lookup (update ctx) ''edited_channel_post'']")
  case None
  then have n: "nullish (getMessageFromAnySource ctx)"
    by (rule any_source_none)
  then have "senderChat ctx = JUndefined"
    by (simp add: senderChat_def opt_member_nullish)
  with n None show ?thesis
    by (simp add: deleteMessage_no_message forwardMessage_no_message copyMessage_no_message)
next
  case (Some m)
  then have g: "getMessageFromAnySource ctx = m" and d: "\<not> nullish m"
    by (rule any_source_found)+
  have sc: "senderChat ctx = opt_member m ''sender_chat''"
    by (simp add: senderChat_def g)
  have dm: "\<not> nullish (chat ctx) \<longrightarrow>
           deleteMessage ctx JUndefined =
             Inr (Call ''deleteMessage'' [opt_member (chat ctx) ''id'', opt_member m ''message_id''])"
    using deleteMessage_resolved [of ctx] d by (simp add: g)
  have fw: "\<not> nullish (opt_member m ''chat'') \<longrightarrow>
           forwardMessage ctx chatId extra' =
             Inr (Call ''forwardMessage''
               [chatId, opt_member (opt_member m ''chat'') ''id'', opt_member m ''message_id'',
                extra']) \<and>
           copyMessage ctx chatId extra' =
             Inr (Call ''copyMessage''
               [chatId, opt_member (opt_member m ''chat'') ''id'', opt_member m ''message_id'',
                extra'])"
    using forwardMessage_resolved [of ctx chatId extra'] copyMessage_resolved [of ctx chatId extra']
    by (simp add: g)
  from g sc dm fw show ?thesis
    unfolding Some by (simp only: option.case simp_thms)
qed

lemma chat_falls_back:
  "chat ctx =
     (case first_defined
             [lookup (update ctx) ''chat_member'',
             lookup (update ctx) ''my_chat_member'',
             lookup (update ctx) ''chat_join_request''] of
        Some c \<Rightarrow> opt_member c ''chat''
      | None \<Rightarrow> opt_member (getMessageFromAnySource ctx) ''chat'')"
  by (simp add: chat_def getter_defs first_defined_Cons first_defined_Nil coalesce_def)

lemma from_falls_back:
  "from' ctx =
     (case first_defined
             [lookup (update ctx) ''callback_query'',
             lookup (update ctx) ''inline_query'',
             lookup (update ctx) ''shipping_query'',
             lookup (update ctx) ''pre_checkout_query'',
             lookup (update ctx) ''chosen_inline_result'',
             lookup (update ctx) ''chat_member'',
             lookup (update ctx) ''my_chat_member'',
             lookup (update ctx) ''chat_join_request''] of
        Some c \<Rightarrow> opt_member c ''from''
      | None \<Rightarrow> opt_member (getMessageFromAnySource ctx) ''from'')"
  by (simp add: from'_def getter_defs first_defined_Cons first_defined_Nil coalesce_def)

text \<open>
  C4. The resolution of any message-bearing update returns the first candidate that is
  neither \<^verbatim>\<open>null\<close> nor \<^verbatim>\<open>undefined\<close>, the candidates being the field \<^verbatim>\<open>message\<close> of the
  Update, then \<^verbatim>\<open>edited_message\<close>, then the message embedded in \<^verbatim>\<open>callback_query\<close>, then
  \<^verbatim>\<open>channel_post\<close>, then \<^verbatim>\<open>edited_channel_post\<close>; it returns nothing defined when there
  is none. That candidate is the message whose sender chat \<^verbatim>\<open>senderChat\<close> reads and which
  \<^verbatim>\<open>deleteMessage\<close>, \<^verbatim>\<open>forwardMessage\<close> and \<^verbatim>\<open>copyMessage\<close> address, and without one
  the three fail. The resolution is what \<^verbatim>\<open>chat\<close> and \<^verbatim>\<open>from\<close> fall back to after their
  own candidates, and the identifier of the message it returns is the reply target of
  every reply operation.
\<close>

theorem message_from_any_source_order:
  "(case first_defined [lookup (update ctx) ''message'',
                      lookup (update ctx) ''edited_message'',
                      opt_member (lookup (update ctx) ''callback_query'') ''message'',
                      lookup (update ctx) ''channel_post'',
                      lookup (update ctx) ''edited_channel_post''] of
      Some m \<Rightarrow>
        getMessageFromAnySource ctx = m \<and>
        senderChat ctx = opt_member m ''sender_chat'' \<and>
        (\<not> nullish (chat ctx) \<longrightarrow>
           deleteMessage ctx JUndefined =
             Inr (Call ''deleteMessage'' [opt_member (chat ctx) ''id'', opt_member m ''message_id''])) \<and>
        (\<not> nullish (opt_member m ''chat'') \<longrightarrow>
           forwardMessage ctx chatId extra' =
             Inr (Call ''forwardMessage''
               [chatId, opt_member (opt_member m ''chat'') ''id'', opt_member m ''message_id'',
                extra']) \<and>
           copyMessage ctx chatId extra' =
             Inr (Call ''copyMessage''
               [chatId, opt_member (opt_member m ''chat'') ''id'', opt_member m ''message_id'',
                extra']))
    | None \<Rightarrow>
        nullish (getMessageFromAnySource ctx) \<and>
        senderChat ctx = JUndefined \<and>
        isl (deleteMessage ctx JUndefined) \<and>
        isl (forwardMessage ctx chatId extra') \<and>
        isl (copyMessage ctx chatId extra')) \<and>
   chat ctx =
     (case first_defined
             [lookup (update ctx) ''chat_member'',
             lookup (update ctx) ''my_chat_member'',
             lookup (update ctx) ''chat_join_request''] of
        Some c \<Rightarrow> opt_member c ''chat''
      | None \<Rightarrow> opt_member (getMessageFromAnySource ctx) ''chat'') \<and>
   from' ctx =
     (case first_defined
             [lookup (update ctx) ''callback_query'',
             lookup (update ctx) ''inline_query'',
             lookup (update ctx) ''shipping_query'',
             lookup (update ctx) ''pre_checkout_query'',
             lookup (update ctx) ''chosen_inline_result'',
             lookup (update ctx) ''chat_member'',
             lookup (update ctx) ''my_chat_member'',
             lookup (update ctx) ''chat_join_request''] of
        Some c \<Rightarrow> opt_member c ''from''
      | None \<Rightarrow> opt_member (getMessageFromAnySource ctx) ''from'') \<and>
   replies ctx (reply ctx text extra) ''sendMessage'' [text] extra
     [(''reply_to_message_id'', opt_member (getMessageFromAnySource ctx) ''message_id''),
         (''message_thread_id'', default_thread_id (lookup (update ctx) ''message''))] \<and>
   replies ctx (replyWithPhoto ctx photo extra) ''sendPhoto'' [photo] extra
     [(''reply_to_message_id'', opt_member (getMessageFromAnySource ctx) ''message_id''),
         (''message_thread_id'', default_thread_id (lookup (update ctx) ''message''))] \<and>
   replies ctx (replyWithMediaGroup ctx media extra) ''sendMediaGroup'' [media] extra
     [(''reply_to_message_id'', opt_member (getMessageFromAnySource ctx) ''message_id''),
         (''message_thread_id'', default_thread_id (lookup (update ctx) ''message''))] \<and>
   replies ctx (replyWithAudio ctx audio extra) ''sendAudio'' [audio] extra
     [(''reply_to_message_id'', opt_member (getMessageFromAnySource ctx) ''message_id''),
         (''message_thread_id'', default_thread_id (lookup (update ctx) ''message''))] \<and>
   replies ctx (replyWithDice ctx extra) ''sendDice'' [] extra
     [(''reply_to_message_id'', opt_member (getMessageFromAnySource ctx) ''message_id''),
         (''message_thread_id'', default_thread_id (lookup (update ctx) ''message''))] \<and>
   replies ctx (replyWithDocument ctx document extra) ''sendDocument'' [document] extra
     [(''reply_to_message_id'', opt_member (getMessageFromAnySource ctx) ''message_id''),
         (''message_thread_id'', default_thread_id (lookup (update ctx) ''message''))] \<and>
   replies ctx (replyWithSticker ctx sticker extra) ''sendSticker'' [sticker] extra
     [(''reply_to_message_id'', opt_member (getMessageFromAnySource ctx) ''message_id''),
         (''message_thread_id'', default_thread_id (lookup (update ctx) ''message''))] \<and>
   replies ctx (replyWithVideo ctx video extra) ''sendVideo'' [video] extra
     [(''reply_to_message_id'', opt_member (getMessageFromAnySource ctx) ''message_id''),
         (''message_thread_id'', default_thread_id (lookup (update ctx) ''message''))] \<and>
   replies ctx (replyWithAnimation ctx animation extra) ''sendAnimation'' [animation] extra
     [(''reply_to_message_id'', opt_member (getMessageFromAnySource ctx) ''message_id''),
         (''message_thread_id'', default_thread_id (lookup (update ctx) ''message''))] \<and>
   replies ctx (replyWithVideoNote ctx videoNote extra) ''sendVideoNote'' [videoNote] extra
     [(''reply_to_message_id'', opt_member (getMessageFromAnySource ctx) ''message_id''),
         (''message_thread_id'', default_thread_id (lookup (update ctx) ''message''))] \<and>
   replies ctx (replyWithInvoice ctx invoice extra) ''sendInvoice'' [invoice] extra
     [(''reply_to_message_id'', opt_member (getMessageFromAnySource ctx) ''message_id''),
         (''message_thread_id'', default_thread_id (lookup (update ctx) ''message''))] \<and>
   replies ctx (replyWithGame ctx gameName extra) ''sendGame'' [gameName] extra
     [(''reply_to_message_id'', opt_member (getMessageFromAnySource ctx) ''message_id''),
         (''message_thread_id'', default_thread_id (lookup (update ctx) ''message''))] \<and>
   replies ctx (replyWithVoice ctx voice extra) ''sendVoice'' [voice] extra
     [(''reply_to_message_id'', opt_member (getMessageFromAnySource ctx) ''message_id''),
         (''message_thread_id'', default_thread_id (lookup (update ctx) ''message''))] \<and>
   replies ctx (replyWithPoll ctx question options extra) ''sendPoll'' [question, options] extra
     [(''reply_to_message_id'', opt_member (getMessageFromAnySource ctx) ''message_id''),
         (''message_thread_id'', default_thread_id (lookup (update ctx) ''message''))] \<and>
   replies ctx (replyWithQuiz ctx question options extra) ''sendQuiz'' [question, options] extra
     [(''reply_to_message_id'', opt_member (getMessageFromAnySource ctx) ''message_id''),
         (''message_thread_id'', default_thread_id (lookup (update ctx) ''message''))] \<and>
   replies ctx (replyWithLocation ctx latitude longitude extra) ''sendLocation'' [latitude, longitude] extra
     [(''reply_to_message_id'', opt_member (getMessageFromAnySource ctx) ''message_id''),
         (''message_thread_id'', default_thread_id (lookup (update ctx) ''message''))] \<and>
   replies ctx (replyWithVenue ctx latitude longitude title address extra) ''sendVenue'' [latitude, longitude, title, address] extra
     [(''reply_to_message_id'', opt_member (getMessageFromAnySource ctx) ''message_id''),
         (''message_thread_id'', default_thread_id (lookup (update ctx) ''message''))] \<and>
   replies ctx (replyWithContact ctx phoneNumber firstName extra) ''sendContact'' [phoneNumber, firstName] extra
     [(''reply_to_message_id'', opt_member (getMessageFromAnySource ctx) ''message_id''),
         (''message_thread_id'', default_thread_id (lookup (update ctx) ''message''))] \<and>
   replies ctx (replyWithMarkdown ctx markdown extra) ''sendMessage'' [markdown] extra
     [(''parse_mode'', JStr ''Markdown''),
         (''reply_to_message_id'', opt_member (getMessageFromAnySource ctx) ''message_id''),
         (''message_thread_id'', default_thread_id (lookup (update ctx) ''message''))] \<and>
   replies ctx (replyWithMarkdownV2 ctx markdown extra) ''sendMessage'' [markdown] extra
     [(''parse_mode'', JStr ''MarkdownV2''),
         (''reply_to_message_id'', opt_member (getMessageFromAnySource ctx) ''message_id''),
         (''message_thread_id'', default_thread_id (lookup (update ctx) ''message''))] \<and>
   replies ctx (replyWithHTML ctx html extra) ''sendMessage'' [html] extra
     [(''parse_mode'', JStr ''HTML''),
         (''reply_to_message_id'', opt_member (getMessageFromAnySource ctx) ''message_id''),
         (''message_thread_id'', default_thread_id (lookup (update ctx) ''message''))]"
  by (intro conjI any_source_uses chat_falls_back from_falls_back
    reply_replies [unfolded reply_defaults_def message_def]
    replyWithPhoto_replies [unfolded reply_defaults_def message_def]
    replyWithMediaGroup_replies [unfolded reply_defaults_def message_def]
    replyWithAudio_replies [unfolded reply_defaults_def message_def]
    replyWithDice_replies [unfolded reply_defaults_def message_def]
    replyWithDocument_replies [unfolded reply_defaults_def message_def]
    replyWithSticker_replies [unfolded reply_defaults_def message_def]
    replyWithVideo_replies [unfolded reply_defaults_def message_def]
    replyWithAnimation_replies [unfolded reply_defaults_def message_def]
    replyWithVideoNote_replies [unfolded reply_defaults_def message_def]
    replyWithInvoice_replies [unfolded reply_defaults_def message_def]
    replyWithGame_replies [unfolded reply_defaults_def message_def]
    replyWithVoice_replies [unfolded reply_defaults_def message_def]
    replyWithPoll_replies [unfolded reply_defaults_def message_def]
    replyWithQuiz_replies [unfolded reply_defaults_def message_def]
    replyWithLocation_replies [unfolded reply_defaults_def message_def]
    replyWithVenue_replies [unfolded reply_defaults_def message_def]
    replyWithContact_replies [unfolded reply_defaults_def message_def]
    replyWithMarkdown_replies [unfolded reply_defaults_def message_def]
    replyWithMarkdownV2_replies [unfolded reply_defaults_def message_def]
    replyWithHTML_replies [unfolded reply_defaults_def message_def])

theorem message_from_any_source_order_witness:
  "first_defined
     [lookup (update \<lparr>update = [(''update_id'', JNum 12), (''edited_message'', JObj [(''message_id'', JNum 4), (''chat'', JObj [(''id'', JNum 45)]), (''sender_chat'', JObj [(''id'', JNum 46)])]), (''channel_post'', JObj [(''message_id'', JNum 6), (''chat'', JObj [(''id'', JNum 47)])])], botInfo = JUndefined\<rparr>) ''message'',
      lookup (update \<lparr>update = [(''update_id'', JNum 12), (''edited_message'', JObj [(''message_id'', JNum 4), (''chat'', JObj [(''id'', JNum 45)]), (''sender_chat'', JObj [(''id'', JNum 46)])]), (''channel_post'', JObj [(''message_id'', JNum 6), (''chat'', JObj [(''id'', JNum 47)])])], botInfo = JUndefined\<rparr>) ''edited_message'',
      opt_member (lookup (update \<lparr>update = [(''update_id'', JNum 12), (''edited_message'', JObj [(''message_id'', JNum 4), (''chat'', JObj [(''id'', JNum 45)]), (''sender_chat'', JObj [(''id'', JNum 46)])]), (''channel_post'', JObj [(''message_id'', JNum 6), (''chat'', JObj [(''id'', JNum 47)])])], botInfo = JUndefined\<rparr>) ''callback_query'') ''message'',
      lookup (update \<lparr>update = [(''update_id'', JNum 12), (''edited_message'', JObj [(''message_id'', JNum 4), (''chat'', JObj [(''id'', JNum 45)]), (''sender_chat'', JObj [(''id'', JNum 46)])]), (''channel_post'', JObj [(''message_id'', JNum 6), (''chat'', JObj [(''id'', JNum 47)])])], botInfo = JUndefined\<rparr>) ''channel_post'',
      lookup (update \<lparr>update = [(''update_id'', JNum 12), (''edited_message'', JObj [(''message_id'', JNum 4), (''chat'', JObj [(''id'', JNum 45)]), (''sender_chat'', JObj [(''id'', JNum 46)])]), (''channel_post'', JObj [(''message_id'', JNum 6), (''chat'', JObj [(''id'', JNum 47)])])], botInfo = JUndefined\<rparr>) ''edited_channel_post''] =
     Some (JObj [(''message_id'', JNum 4), (''chat'', JObj [(''id'', JNum 45)]),
       (''sender_chat'', JObj [(''id'', JNum 46)])]) \<and>
   getMessageFromAnySource \<lparr>update = [(''update_id'', JNum 12), (''edited_message'', JObj [(''message_id'', JNum 4), (''chat'', JObj [(''id'', JNum 45)]), (''sender_chat'', JObj [(''id'', JNum 46)])]), (''channel_post'', JObj [(''message_id'', JNum 6), (''chat'', JObj [(''id'', JNum 47)])])], botInfo = JUndefined\<rparr> =
     JObj [(''message_id'', JNum 4), (''chat'', JObj [(''id'', JNum 45)]),
       (''sender_chat'', JObj [(''id'', JNum 46)])] \<and>
   senderChat \<lparr>update = [(''update_id'', JNum 12), (''edited_message'', JObj [(''message_id'', JNum 4), (''chat'', JObj [(''id'', JNum 45)]), (''sender_chat'', JObj [(''id'', JNum 46)])]), (''channel_post'', JObj [(''message_id'', JNum 6), (''chat'', JObj [(''id'', JNum 47)])])], botInfo = JUndefined\<rparr> = JObj [(''id'', JNum 46)] \<and>
   chat \<lparr>update = [(''update_id'', JNum 12), (''edited_message'', JObj [(''message_id'', JNum 4), (''chat'', JObj [(''id'', JNum 45)]), (''sender_chat'', JObj [(''id'', JNum 46)])]), (''channel_post'', JObj [(''message_id'', JNum 6), (''chat'', JObj [(''id'', JNum 47)])])], botInfo = JUndefined\<rparr> = JObj [(''id'', JNum 45)] \<and>
   forwardMessage \<lparr>update = [(''update_id'', JNum 12), (''edited_message'', JObj [(''message_id'', JNum 4), (''chat'', JObj [(''id'', JNum 45)]), (''sender_chat'', JObj [(''id'', JNum 46)])]), (''channel_post'', JObj [(''message_id'', JNum 6), (''chat'', JObj [(''id'', JNum 47)])])], botInfo = JUndefined\<rparr> (JNum 1) JUndefined =
     Inr (Call ''forwardMessage'' [JNum 1, JNum 45, JNum 4, JUndefined]) \<and>
   deleteMessage \<lparr>update = [(''update_id'', JNum 12), (''edited_message'', JObj [(''message_id'', JNum 4), (''chat'', JObj [(''id'', JNum 45)]), (''sender_chat'', JObj [(''id'', JNum 46)])]), (''channel_post'', JObj [(''message_id'', JNum 6), (''chat'', JObj [(''id'', JNum 47)])])], botInfo = JUndefined\<rparr> JUndefined = Inr (Call ''deleteMessage'' [JNum 45, JNum 4]) \<and>
   getMessageFromAnySource \<lparr>update = [(''update_id'', JNum 13), (''edited_channel_post'', JObj [(''message_id'', JNum 34)]), (''channel_post'', JObj [(''message_id'', JNum 33)]), (''callback_query'', JObj [(''id'', JStr ''q''), (''message'', JObj [(''message_id'', JNum 32)])]), (''edited_message'', JObj [(''message_id'', JNum 31)]), (''message'', JObj [(''message_id'', JNum 30)])], botInfo = JUndefined\<rparr> = JObj [(''message_id'', JNum 30)] \<and>
   getMessageFromAnySource \<lparr>update = [(''update_id'', JNum 13), (''edited_channel_post'', JObj [(''message_id'', JNum 34)]), (''channel_post'', JObj [(''message_id'', JNum 33)]), (''callback_query'', JObj [(''id'', JStr ''q''), (''message'', JObj [(''message_id'', JNum 32)])]), (''edited_message'', JObj [(''message_id'', JNum 31)])], botInfo = JUndefined\<rparr> = JObj [(''message_id'', JNum 31)] \<and>
   getMessageFromAnySource \<lparr>update = [(''update_id'', JNum 13), (''edited_channel_post'', JObj [(''message_id'', JNum 34)]), (''channel_post'', JObj [(''message_id'', JNum 33)]), (''callback_query'', JObj [(''id'', JStr ''q''), (''message'', JObj [(''message_id'', JNum 32)])])], botInfo = JUndefined\<rparr> = JObj [(''message_id'', JNum 32)] \<and>
   getMessageFromAnySource \<lparr>update = [(''update_id'', JNum 13), (''edited_channel_post'', JObj [(''message_id'', JNum 34)]), (''channel_post'', JObj [(''message_id'', JNum 33)])], botInfo = JUndefined\<rparr> = JObj [(''message_id'', JNum 33)] \<and>
   getMessageFromAnySource \<lparr>update = [(''update_id'', JNum 13), (''edited_channel_post'', JObj [(''message_id'', JNum 34)])], botInfo = JUndefined\<rparr> = JObj [(''message_id'', JNum 34)]"
proof -
  let ?c = "\<lparr>update = [(''update_id'', JNum 12), (''edited_message'', JObj [(''message_id'', JNum 4), (''chat'', JObj [(''id'', JNum 45)]), (''sender_chat'', JObj [(''id'', JNum 46)])]), (''channel_post'', JObj [(''message_id'', JNum 6), (''chat'', JObj [(''id'', JNum 47)])])], botInfo = JUndefined\<rparr>"
  let ?m = "JObj [(''message_id'', JNum 4), (''chat'', JObj [(''id'', JNum 45)]),
       (''sender_chat'', JObj [(''id'', JNum 46)])]"
  have f: "first_defined
     [lookup (update ?c) ''message'', lookup (update ?c) ''edited_message'',
      opt_member (lookup (update ?c) ''callback_query'') ''message'',
      lookup (update ?c) ''channel_post'', lookup (update ?c) ''edited_channel_post''] = Some ?m"
    by (simp add: first_defined_def)
  have k: "\<not> nullish (opt_member ?m ''chat'')"
    by simp
  note w = message_from_any_source_order
    [where ctx = ?c and chatId = "JNum 1" and extra' = JUndefined, THEN conjunct1,
      unfolded f option.case]
  note wc = message_from_any_source_order
    [where ctx = ?c, THEN conjunct2, THEN conjunct1]
  from w have g: "getMessageFromAnySource ?c = ?m"
    by (rule conjunct1)
  from w have sc: "senderChat ?c = opt_member ?m ''sender_chat''"
    by blast
  from wc have ch: "chat ?c = JObj [(''id'', JNum 45)]"
    by (simp add: g first_defined_Cons first_defined_Nil)
  from w k have fw: "forwardMessage ?c (JNum 1) JUndefined =
      Inr (Call ''forwardMessage''
        [JNum 1, opt_member (opt_member ?m ''chat'') ''id'', opt_member ?m ''message_id'',
         JUndefined])"
    by blast
  from ch have "\<not> nullish (chat ?c)"
    by simp
  with w have dm: "deleteMessage ?c JUndefined =
      Inr (Call ''deleteMessage'' [opt_member (chat ?c) ''id'', opt_member ?m ''message_id''])"
    by blast
  have o0: "getMessageFromAnySource \<lparr>update = [(''update_id'', JNum 13), (''edited_channel_post'', JObj [(''message_id'', JNum 34)]), (''channel_post'', JObj [(''message_id'', JNum 33)]), (''callback_query'', JObj [(''id'', JStr ''q''), (''message'', JObj [(''message_id'', JNum 32)])]), (''edited_message'', JObj [(''message_id'', JNum 31)]), (''message'', JObj [(''message_id'', JNum 30)])], botInfo = JUndefined\<rparr> = JObj [(''message_id'', JNum 30)]"
    using message_from_any_source_order [where ctx = "\<lparr>update = [(''update_id'', JNum 13), (''edited_channel_post'', JObj [(''message_id'', JNum 34)]), (''channel_post'', JObj [(''message_id'', JNum 33)]), (''callback_query'', JObj [(''id'', JStr ''q''), (''message'', JObj [(''message_id'', JNum 32)])]), (''edited_message'', JObj [(''message_id'', JNum 31)]), (''message'', JObj [(''message_id'', JNum 30)])], botInfo = JUndefined\<rparr>", THEN conjunct1]
    by (simp add: first_defined_Cons)
  have o1: "getMessageFromAnySource \<lparr>update = [(''update_id'', JNum 13), (''edited_channel_post'', JObj [(''message_id'', JNum 34)]), (''channel_post'', JObj [(''message_id'', JNum 33)]), (''callback_query'', JObj [(''id'', JStr ''q''), (''message'', JObj [(''message_id'', JNum 32)])]), (''edited_message'', JObj [(''message_id'', JNum 31)])], botInfo = JUndefined\<rparr> = JObj [(''message_id'', JNum 31)]"
    using message_from_any_source_order [where ctx = "\<lparr>update = [(''update_id'', JNum 13), (''edited_channel_post'', JObj [(''message_id'', JNum 34)]), (''channel_post'', JObj [(''message_id'', JNum 33)]), (''callback_query'', JObj [(''id'', JStr ''q''), (''message'', JObj [(''message_id'', JNum 32)])]), (''edited_message'', JObj [(''message_id'', JNum 31)])], botInfo = JUndefined\<rparr>", THEN conjunct1]
    by (simp add: first_defined_Cons)
  have o2: "getMessageFromAnySource \<lparr>update = [(''update_id'', JNum 13), (''edited_channel_post'', JObj [(''message_id'', JNum 34)]), (''channel_post'', JObj [(''message_id'', JNum 33)]), (''callback_query'', JObj [(''id'', JStr ''q''), (''message'', JObj [(''message_id'', JNum 32)])])], botInfo = JUndefined\<rparr> = JObj [(''message_id'', JNum 32)]"
    using message_from_any_source_order [where ctx = "\<lparr>update = [(''update_id'', JNum 13), (''edited_channel_post'', JObj [(''message_id'', JNum 34)]), (''channel_post'', JObj [(''message_id'', JNum 33)]), (''callback_query'', JObj [(''id'', JStr ''q''), (''message'', JObj [(''message_id'', JNum 32)])])], botInfo = JUndefined\<rparr>", THEN conjunct1]
    by (simp add: first_defined_Cons)
  have o3: "getMessageFromAnySource \<lparr>update = [(''update_id'', JNum 13), (''edited_channel_post'', JObj [(''message_id'', JNum 34)]), (''channel_post'', JObj [(''message_id'', JNum 33)])], botInfo = JUndefined\<rparr> = JObj [(''message_id'', JNum 33)]"
    using message_from_any_source_order [where ctx = "\<lparr>update = [(''update_id'', JNum 13), (''edited_channel_post'', JObj [(''message_id'', JNum 34)]), (''channel_post'', JObj [(''message_id'', JNum 33)])], botInfo = JUndefined\<rparr>", THEN conjunct1]
    by (simp add: first_defined_Cons)
  have o4: "getMessageFromAnySource \<lparr>update = [(''update_id'', JNum 13), (''edited_channel_post'', JObj [(''message_id'', JNum 34)])], botInfo = JUndefined\<rparr> = JObj [(''message_id'', JNum 34)]"
    using message_from_any_source_order [where ctx = "\<lparr>update = [(''update_id'', JNum 13), (''edited_channel_post'', JObj [(''message_id'', JNum 34)])], botInfo = JUndefined\<rparr>", THEN conjunct1]
    by (simp add: first_defined_Cons)
  from f g sc ch fw dm o0 o1 o2 o3 o4 show ?thesis
    by simp
qed

section \<open>The webhook ingestion adapter\<close>

lemma perform_all_end_calls:
  "end_calls (foldl perform res actions) = end_calls res + ends actions"
proof (induction actions arbitrary: res)
  case Nil
  then show ?case by (simp add: ends_def)
next
  case (Cons a actions)
  then show ?case
    by (cases a) (simp_all add: ends_def res_end_def writeHead_def)
qed

lemma perform_all_writableEnded:
  "writableEnded (foldl perform res actions) \<longleftrightarrow> writableEnded res \<or> 0 < ends actions"
proof (induction actions arbitrary: res)
  case Nil
  then show ?case by (simp add: ends_def)
next
  case (Cons a actions)
  then show ?case
    by (cases a) (auto simp: ends_def res_end_def writeHead_def)
qed


text \<open>
  Once the headers are sent, \<^verbatim>\<open>writeHead\<close> throws inside the \<^verbatim>\<open>catch\<close> block: the adapter's
  promise is rejected with that error and the response is left as it was.
\<close>

lemma parse_failure_headers_sent:
  assumes "filter' req" and "parse_body p req = Inl error" and "headersSent res"
  shows "generateWebhook p filter' updateHandler req res next' =
           \<lparr>settled = Rejected (ERR_HTTP_HEADERS_SENT p), res_after = res, dispatched = None\<rparr>"
  using assms by (simp add: generateWebhook_def writeHead_def)









lemma dispatch_settled:
  assumes "filter' req" and "parse_body p req = Inr upd"
    and "updateHandler upd = (actions, outcome)" and "outcome \<noteq> Pending"
  shows "generateWebhook p filter' updateHandler req res next' =
           \<lparr>settled = outcome,
            res_after = (if writableEnded (foldl perform res actions)
                         then foldl perform res actions
                         else res_end (foldl perform res actions)),
            dispatched = Some upd\<rparr>"
  using assms by (simp add: generateWebhook_def Let_def)

lemma finalized_once_after:
  assumes "fresh res" and "ends actions \<le> 1"
  shows "finalized_once (if writableEnded (foldl perform res actions)
                         then foldl perform res actions
                         else res_end (foldl perform res actions))"
proof (cases "writableEnded (foldl perform res actions)")
  case True
  with assms have "ends actions = 1"
    by (simp add: perform_all_writableEnded fresh_def)
  with True assms show ?thesis
    by (simp add: finalized_once_def perform_all_end_calls fresh_def)
next
  case False
  with assms have "ends actions = 0"
    by (simp add: perform_all_writableEnded)
  with False assms show ?thesis
    by (simp add: finalized_once_def perform_all_end_calls fresh_def res_end_def)
qed

text \<open>
  C10. For a dispatched request whose handler settles, the adapter ends the response
  exactly when the handler has left it open, so that the response is ended afterwards
  whether the handler completed or threw, and the adapter itself calls \<^verbatim>\<open>end\<close> at most
  once and never on an ended response. The adapter's promise settles as the handler's
  did: what the handler threw is what the caller gets. On a fresh response that the
  handler has ended at most once, the response is finalized exactly once.
\<close>

theorem webhook_finalizes_once:
  "filter' req \<and> parse_body p req = Inr upd \<and> updateHandler upd = (actions, outcome) \<and>
   outcome \<noteq> Pending \<longrightarrow>
     dispatched (generateWebhook p filter' updateHandler req res next') = Some upd \<and>
     settled (generateWebhook p filter' updateHandler req res next') = outcome \<and>
     writableEnded (res_after (generateWebhook p filter' updateHandler req res next')) \<and>
     res_after (generateWebhook p filter' updateHandler req res next') =
       (if writableEnded (foldl perform res actions)
        then foldl perform res actions
        else res_end (foldl perform res actions)) \<and>
     end_calls (res_after (generateWebhook p filter' updateHandler req res next')) =
       end_calls (foldl perform res actions) +
       (if writableEnded (foldl perform res actions) then 0 else 1) \<and>
     (fresh res \<and> ends actions \<le> 1 \<longrightarrow>
        finalized_once (res_after (generateWebhook p filter' updateHandler req res next')))"
proof (intro impI)
  define res2 where "res2 =
    (if writableEnded (foldl perform res actions)
     then foldl perform res actions
     else res_end (foldl perform res actions))"
  assume a: "filter' req \<and> parse_body p req = Inr upd \<and>
    updateHandler upd = (actions, outcome) \<and> outcome \<noteq> Pending"
  then have run: "generateWebhook p filter' updateHandler req res next' =
      \<lparr>settled = outcome, res_after = res2, dispatched = Some upd\<rparr>"
    unfolding res2_def by (simp add: dispatch_settled)
  have ended: "writableEnded res2"
    by (simp add: res2_def res_end_def)
  have calls: "end_calls res2 =
      end_calls (foldl perform res actions) +
      (if writableEnded (foldl perform res actions) then 0 else 1)"
    by (simp add: res2_def res_end_def)
  have once: "fresh res \<and> ends actions \<le> 1 \<longrightarrow> finalized_once res2"
    unfolding res2_def using finalized_once_after [of res actions] by blast
  from ended calls once show
    "dispatched (generateWebhook p filter' updateHandler req res next') = Some upd \<and>
     settled (generateWebhook p filter' updateHandler req res next') = outcome \<and>
     writableEnded (res_after (generateWebhook p filter' updateHandler req res next')) \<and>
     res_after (generateWebhook p filter' updateHandler req res next') =
       (if writableEnded (foldl perform res actions)
        then foldl perform res actions
        else res_end (foldl perform res actions)) \<and>
     end_calls (res_after (generateWebhook p filter' updateHandler req res next')) =
       end_calls (foldl perform res actions) +
       (if writableEnded (foldl perform res actions) then 0 else 1) \<and>
     (fresh res \<and> ends actions \<le> 1 \<longrightarrow>
        finalized_once (res_after (generateWebhook p filter' updateHandler req res next')))"
    unfolding run by (simp add: res2_def [symmetric])
qed

theorem webhook_finalizes_once_witness:
  "fresh \<lparr>statusCode = 200, headersSent = False, writableEnded = False, end_calls = 0\<rparr> \<and>
   generateWebhook
     \<lparr>String_of_buffer = (\<lambda>bytes. if bytes = ''?'' then Inl ''RangeError'' else Inr bytes),
      JSON_parse = (\<lambda>s. if s = ''{}'' then Inr (JObj []) else Inl ''SyntaxError''),
      json = (\<lambda>r. Inl ''aborted''),
      ERR_HTTP_HEADERS_SENT = ''ERR_HTTP_HEADERS_SENT''\<rparr>
     (\<lambda>r. True) (\<lambda>u. ([SetStatusCode 500], Rejected ''boom''))
     \<lparr>body = Buffer ''{}'', stream = []\<rparr>
     \<lparr>statusCode = 200, headersSent = False, writableEnded = False, end_calls = 0\<rparr> None =
     \<lparr>settled = Rejected ''boom'',
      res_after = \<lparr>statusCode = 500, headersSent = True, writableEnded = True, end_calls = 1\<rparr>,
      dispatched = Some (JObj [])\<rparr> \<and>
   generateWebhook
     \<lparr>String_of_buffer = (\<lambda>bytes. if bytes = ''?'' then Inl ''RangeError'' else Inr bytes),
      JSON_parse = (\<lambda>s. if s = ''{}'' then Inr (JObj []) else Inl ''SyntaxError''),
      json = (\<lambda>r. Inl ''aborted''),
      ERR_HTTP_HEADERS_SENT = ''ERR_HTTP_HEADERS_SENT''\<rparr>
     (\<lambda>r. True) (\<lambda>u. ([End], Resolved))
     \<lparr>body = Buffer ''{}'', stream = []\<rparr>
     \<lparr>statusCode = 200, headersSent = False, writableEnded = False, end_calls = 0\<rparr> None =
     \<lparr>settled = Resolved,
      res_after = \<lparr>statusCode = 200, headersSent = True, writableEnded = True, end_calls = 1\<rparr>,
      dispatched = Some (JObj [])\<rparr>"
proof -
  let ?p = "\<lparr>String_of_buffer = (\<lambda>bytes. if bytes = ''?'' then Inl ''RangeError'' else Inr bytes),
      JSON_parse = (\<lambda>s. if s = ''{}'' then Inr (JObj []) else Inl ''SyntaxError''),
      json = (\<lambda>r. Inl ''aborted''),
      ERR_HTTP_HEADERS_SENT = ''ERR_HTTP_HEADERS_SENT''\<rparr> :: string platform"
  let ?f = "\<lambda>r :: request. True"
  let ?throws = "\<lambda>u :: jsval. ([SetStatusCode 500], Rejected ''boom'')"
  let ?ends = "\<lambda>u :: jsval. ([End], Resolved :: string settles)"
  let ?req = "\<lparr>body = Buffer ''{}'', stream = []\<rparr>"
  let ?res = "\<lparr>statusCode = 200, headersSent = False, writableEnded = False, end_calls = 0\<rparr>"
  let ?r1 = "generateWebhook ?p ?f ?throws ?req ?res None"
  let ?r2 = "generateWebhook ?p ?f ?ends ?req ?res None"
  have fr: "fresh ?res"
    by (simp add: fresh_def)
  have h1: "?f ?req \<and> parse_body ?p ?req = Inr (JObj []) \<and>
      ?throws (JObj []) = ([SetStatusCode 500], Rejected ''boom'') \<and>
      Rejected ''boom'' \<noteq> (Pending :: string settles)"
    by (simp add: parse_body_def)
  have h2: "?f ?req \<and> parse_body ?p ?req = Inr (JObj []) \<and>
      ?ends (JObj []) = ([End], Resolved) \<and> Resolved \<noteq> (Pending :: string settles)"
    by (simp add: parse_body_def)
  from webhook_finalizes_once
    [of ?f ?req ?p "JObj []" ?throws "[SetStatusCode 500]" "Rejected ''boom''" ?res None] h1
  have w1: "dispatched ?r1 = Some (JObj [])" "settled ?r1 = Rejected ''boom''"
    "res_after ?r1 =
       (if writableEnded (foldl perform ?res [SetStatusCode 500])
        then foldl perform ?res [SetStatusCode 500]
        else res_end (foldl perform ?res [SetStatusCode 500]))"
    by blast+
  from webhook_finalizes_once [of ?f ?req ?p "JObj []" ?ends "[End]" Resolved ?res None] h2
  have w2: "dispatched ?r2 = Some (JObj [])" "settled ?r2 = Resolved"
    "res_after ?r2 =
       (if writableEnded (foldl perform ?res [End])
        then foldl perform ?res [End]
        else res_end (foldl perform ?res [End]))"
    by blast+
  have e1: "?r1 = \<lparr>settled = Rejected ''boom'',
      res_after = \<lparr>statusCode = 500, headersSent = True, writableEnded = True, end_calls = 1\<rparr>,
      dispatched = Some (JObj [])\<rparr>"
    using w1 by (cases ?r1) (simp add: res_end_def)
  have e2: "?r2 = \<lparr>settled = Resolved,
      res_after = \<lparr>statusCode = 200, headersSent = True, writableEnded = True, end_calls = 1\<rparr>,
      dispatched = Some (JObj [])\<rparr>"
    using w2 by (cases ?r2) (simp add: res_end_def)
  from fr e1 e2 show ?thesis by simp
qed

end
